theory Spec2Isabelle
  imports Main "HOL-Library.Word"
begin

section \<open>The hyperdrive gateway of Beaker (app/bg/web-apis/bg/hyperdrive.js)\<close>

text \<open>
  The gateway stands between a calling page (the sender) and the drives of the storage
  engine. Every function of the file is translated below under its own name. The
  modules the file imports are not part of it: their functions and constants are
  fields of an environment record, or are modelled from the specification where a
  property depends on what they do.
\<close>

subsection \<open>JavaScript strings\<close>

text \<open>
  A JavaScript string is a sequence of 16-bit code units. A literal is written
  \<open>str ''...''\<close>.
\<close>

type_synonym jschar = "16 word"
type_synonym jsstring = "jschar list"

definition str :: "string \<Rightarrow> jsstring" where
  "str s = map of_char s"

text \<open>\<open>s.startsWith(p)\<close>, \<open>s.includes(sub)\<close> and \<open>s.slice(-1)\<close>.\<close>

definition startsWith :: "jsstring \<Rightarrow> jsstring \<Rightarrow> bool" where
  "startsWith s p = (take (length p) s = p)"

fun includesStr :: "jsstring \<Rightarrow> jsstring \<Rightarrow> bool" where
  "includesStr [] sub = (sub = [])"
| "includesStr (c # cs) sub = (startsWith (c # cs) sub \<or> includesStr cs sub)"

definition sliceLast :: "jsstring \<Rightarrow> jsstring" where
  "sliceLast s = (case s of [] \<Rightarrow> [] | _ \<Rightarrow> [last s])"

subsection \<open>Errors\<close>

text \<open>
  The errors the gateway throws (beaker-error-constants), the errors of the language
  (\<open>URIError\<close>, \<open>TypeError\<close>, a plain \<open>Error\<close>), and the errors of the
  collaborators, which the gateway passes through unchanged.
\<close>

datatype error =
    URIError
  | TypeError
  | PlainError
  | InvalidURLError
  | PermissionsError
  | UserDeniedError
  | QuotaExceededError
  | ArchiveNotWritableError
  | ProtectedFileNotWritableError
  | InvalidPathError
  | CollaboratorError nat

subsection \<open>decodeURIComponent\<close>

text \<open>
  The built-in \<open>decodeURIComponent\<close> (ECMAScript, operation Decode with an empty
  set of preserved escapes). A code unit other than \<open>%\<close> is copied. A \<open>%\<close> must
  be followed by two hexadecimal digits giving an octet B. If B has no leading 1 bit
  it is the code unit itself. Otherwise B opens a UTF-8 sequence of n octets, n the
  number of leading 1 bits, 2 to 4, each following octet again written \<open>%XX\<close>; the
  octets must be the UTF-8 encoding of a code point, which is appended in UTF-16.
  Everything else throws \<open>URIError\<close>.
\<close>

definition hexDigit :: "jschar \<Rightarrow> nat option" where
  "hexDigit c =
     (if 48 \<le> unat c \<and> unat c \<le> 57 then Some (unat c - 48)
      else if 65 \<le> unat c \<and> unat c \<le> 70 then Some (unat c - 55)
      else if 97 \<le> unat c \<and> unat c \<le> 102 then Some (unat c - 87)
      else None)"

fun escapeOctet :: "jsstring \<Rightarrow> (nat \<times> jsstring) option" where
  "escapeOctet (p # a # b # rest) =
     (if p = 37 then
        (case hexDigit a of
           None \<Rightarrow> None
         | Some x \<Rightarrow> (case hexDigit b of None \<Rightarrow> None | Some y \<Rightarrow> Some (16 * x + y, rest)))
      else None)"
| "escapeOctet _ = None"

fun continuationOctets :: "nat \<Rightarrow> jsstring \<Rightarrow> (nat list \<times> jsstring) option" where
  "continuationOctets 0 s = Some ([], s)"
| "continuationOctets (Suc j) s =
     (case escapeOctet s of
        None \<Rightarrow> None
      | Some (B, rest) \<Rightarrow>
          (case continuationOctets j rest of
             None \<Rightarrow> None
           | Some (Bs, rest') \<Rightarrow> Some (B # Bs, rest')))"

definition leadingOnes :: "nat \<Rightarrow> nat" where
  "leadingOnes B =
     (if B < 128 then 0 else if B < 192 then 1 else if B < 224 then 2
      else if B < 240 then 3 else if B < 248 then 4 else 5)"

definition isContinuation :: "nat \<Rightarrow> bool" where
  "isContinuation b = (128 \<le> b \<and> b < 192)"

text \<open>
  The code point of a well-formed UTF-8 sequence of 2 to 4 octets: the following
  octets are continuation octets, the encoding is the shortest one, and the code
  point is neither a surrogate nor above U+10FFFF.
\<close>

fun utf8CodePoint :: "nat list \<Rightarrow> nat option" where
  "utf8CodePoint [b0, b1] =
     (if isContinuation b1 \<and> 128 \<le> (b0 - 192) * 64 + (b1 - 128)
      then Some ((b0 - 192) * 64 + (b1 - 128)) else None)"
| "utf8CodePoint [b0, b1, b2] =
     (if isContinuation b1 \<and> isContinuation b2
         \<and> 2048 \<le> (b0 - 224) * 4096 + (b1 - 128) * 64 + (b2 - 128)
         \<and> \<not> (55296 \<le> (b0 - 224) * 4096 + (b1 - 128) * 64 + (b2 - 128)
              \<and> (b0 - 224) * 4096 + (b1 - 128) * 64 + (b2 - 128) \<le> 57343)
      then Some ((b0 - 224) * 4096 + (b1 - 128) * 64 + (b2 - 128)) else None)"
| "utf8CodePoint [b0, b1, b2, b3] =
     (if isContinuation b1 \<and> isContinuation b2 \<and> isContinuation b3
         \<and> 65536 \<le> (b0 - 240) * 262144 + (b1 - 128) * 4096 + (b2 - 128) * 64 + (b3 - 128)
         \<and> (b0 - 240) * 262144 + (b1 - 128) * 4096 + (b2 - 128) * 64 + (b3 - 128) \<le> 1114111
      then Some ((b0 - 240) * 262144 + (b1 - 128) * 4096 + (b2 - 128) * 64 + (b3 - 128))
      else None)"
| "utf8CodePoint _ = None"

definition utf16Encode :: "nat \<Rightarrow> jsstring" where
  "utf16Encode V =
     (if V < 65536 then [of_nat V]
      else [of_nat (55296 + (V - 65536) div 1024), of_nat (56320 + (V - 65536) mod 1024)])"

lemma escapeOctet_shorter:
  "escapeOctet s = Some (B, rest) \<Longrightarrow> length rest < length s"
  by (induction s rule: escapeOctet.induct) (auto split: if_splits option.splits)

lemma continuationOctets_shorter:
  "continuationOctets j s = Some (Bs, rest) \<Longrightarrow> length rest \<le> length s"
proof (induction j arbitrary: s Bs rest)
  case 0
  then show ?case by simp
next
  case (Suc j)
  from Suc.prems obtain B r1 Bs' where
    e: "escapeOctet s = Some (B, r1)" and c: "continuationOctets j r1 = Some (Bs', rest)"
    by (auto split: option.splits)
  from escapeOctet_shorter [OF e] Suc.IH [OF c] show ?case by simp
qed

function decodeURIComponent :: "jsstring \<Rightarrow> error + jsstring" where
  "decodeURIComponent [] = Inr []"
| "decodeURIComponent (c # cs) =
     (if c \<noteq> 37 then
        (case decodeURIComponent cs of Inl e \<Rightarrow> Inl e | Inr r \<Rightarrow> Inr (c # r))
      else
        (case escapeOctet (c # cs) of
           None \<Rightarrow> Inl URIError
         | Some (B, rest) \<Rightarrow>
             if leadingOnes B = 0 then
               (case decodeURIComponent rest of
                  Inl e \<Rightarrow> Inl e
                | Inr r \<Rightarrow> Inr (of_nat B # r))
             else if leadingOnes B = 1 \<or> 4 < leadingOnes B then Inl URIError
             else
               (case continuationOctets (leadingOnes B - 1) rest of
                  None \<Rightarrow> Inl URIError
                | Some (Bs, rest') \<Rightarrow>
                    (case utf8CodePoint (B # Bs) of
                       None \<Rightarrow> Inl URIError
                     | Some V \<Rightarrow>
                         (case decodeURIComponent rest' of
                            Inl e \<Rightarrow> Inl e
                          | Inr r \<Rightarrow> Inr (utf16Encode V @ r))))))"
  by pat_completeness auto
termination
proof (relation "measure length")
  show "wf (measure length)" by simp
next
  fix c :: jschar and cs
  show "(cs, c # cs) \<in> measure length" by simp
next
  fix c :: jschar and cs x2 B rest
  assume "escapeOctet (c # cs) = Some x2" and "(B, rest) = x2"
  then have "escapeOctet (c # cs) = Some (B, rest)" by simp
  from escapeOctet_shorter [OF this] show "(rest, c # cs) \<in> measure length" by simp
next
  fix c :: jschar and cs x2 B rest x2a Bs rest' V
  assume "escapeOctet (c # cs) = Some x2" and "(B, rest) = x2"
    and "continuationOctets (leadingOnes B - 1) rest = Some x2a" and "(Bs, rest') = x2a"
  then have e: "escapeOctet (c # cs) = Some (B, rest)"
    and k: "continuationOctets (leadingOnes B - 1) rest = Some (Bs, rest')" by simp_all
  from escapeOctet_shorter [OF e] continuationOctets_shorter [OF k]
  show "(rest', c # cs) \<in> measure length" by simp
qed

subsection \<open>normalizeFilepath\<close>

definition normalizeFilepath :: "jsstring \<Rightarrow> error + jsstring" where
  "normalizeFilepath s =
     (case decodeURIComponent s of
        Inl e \<Rightarrow> Inl e
      | Inr d \<Rightarrow>
          Inr (if \<not> includesStr d (str ''://'') \<and> \<not> startsWith d (str ''/'')
               then str ''/'' @ d else d))"

subsection \<open>Values, senders and the privileged-sender test\<close>

text \<open>
  Values the gateway only passes on (settings, metadata, the results of the file
  primitives) are kept as untyped JavaScript values.
\<close>

datatype jsval =
    Undefined
  | Bool bool
  | Num int
  | Str jsstring
  | Arr "jsval list"
  | Obj "(jsstring \<times> jsval) list"
  | Opaque nat

text \<open>A value counts as true in a condition unless it is \<open>undefined\<close>, \<open>false\<close>, 0 or the empty string.\<close>

definition truthy :: "jsval \<Rightarrow> bool" where
  "truthy v =
     (case v of Undefined \<Rightarrow> False | Bool b \<Rightarrow> b | Num n \<Rightarrow> n \<noteq> 0 | Str t \<Rightarrow> t \<noteq> [] | _ \<Rightarrow> True)"

definition field :: "(jsstring \<times> jsval) list \<Rightarrow> string \<Rightarrow> jsval" where
  "field obj k = (case map_of obj (str k) of None \<Rightarrow> Undefined | Some v \<Rightarrow> v)"

text \<open>The gateway reads nothing of \<open>this.sender\<close> but \<open>sender.getURL()\<close>.\<close>

record sender =
  getURL :: jsstring

text \<open>
  \<open>isSenderBeaker\<close> tests the sender's URL against
  \<^verbatim>\<open>/^(beaker:|https?:\/\/(.*\.)?hyperdrive\.network(:|\/))/\<close>.
  The dot of \<open>.*\<close> matches every code unit but a line terminator.
\<close>

definition lineTerminator :: "jschar \<Rightarrow> bool" where
  "lineTerminator c = (c = 10 \<or> c = 13 \<or> c = 8232 \<or> c = 8233)"

definition networkHost :: "jsstring \<Rightarrow> bool" where
  "networkHost s =
     (startsWith s (str ''hyperdrive.network:'') \<or> startsWith s (str ''hyperdrive.network/''))"

fun dotNetworkHost :: "jsstring \<Rightarrow> bool" where
  "dotNetworkHost [] = False"
| "dotNetworkHost (c # cs) =
     (\<not> lineTerminator c \<and> ((c = 46 \<and> networkHost cs) \<or> dotNetworkHost cs))"

definition isSenderBeaker :: "sender \<Rightarrow> bool" where
  "isSenderBeaker s =
     (startsWith (getURL s) (str ''beaker:'')
      \<or> (startsWith (getURL s) (str ''http://'')
           \<and> (networkHost (drop 7 (getURL s)) \<or> dotNetworkHost (drop 7 (getURL s))))
      \<or> (startsWith (getURL s) (str ''https://'')
           \<and> (networkHost (drop 8 (getURL s)) \<or> dotNetworkHost (drop 8 (getURL s)))))"

subsection \<open>Drives, checkouts, options\<close>

text \<open>The result of \<open>parseDriveUrl\<close>; \<open>pathname\<close> is empty when the URL has none.\<close>

record urlp =
  protocol :: jsstring
  host :: jsstring
  hostname :: jsstring
  pathname :: jsstring
  origin :: jsstring
  version :: "jsstring option"

text \<open>A loaded drive; \<open>key\<close> is \<open>drive.key.toString('hex')\<close>.\<close>

record drive =
  key :: jsstring
  writable :: bool

text \<open>A checkout is the live tip of a drive or one of its past versions.\<close>

datatype checkout = Live drive | Historic drive jsstring

text \<open>What \<open>lookupDrive\<close> returns.\<close>

record lookup =
  drive :: drive
  lookupVersion :: "jsstring option"
  isHistoric :: bool
  checkoutFS :: checkout

text \<open>
  The options object of an operation. An operation receives \<open>None\<close> when the caller
  passes none (\<open>undefined\<close>).
\<close>

record opts =
  timeout :: "int option"
  encoding :: "jsstring option"
  includeStats :: bool

definition noOpts :: opts where
  "noOpts = \<lparr>timeout = None, encoding = None, includeStats = False\<rparr>"

text \<open>
  The options of \<open>query\<close>, which extend the options above. \<open>opts.drive\<close> is absent or falsy (\<open>NoDrive\<close>; the empty
  string is falsy too), one URL, or an array of URLs. A number is falsy when it is 0.
\<close>

datatype drive_opt = NoDrive | OneDrive jsstring | ManyDrives "jsstring list"

record query_opts = opts +
  qdrive :: drive_opt
  qsort :: "jsstring option"
  qreverse :: bool
  qoffset :: "int option"
  qlimit :: "int option"
  qfilter :: jsval

text \<open>A record the query engine returns: \<open>{path, stat: {mtime, ctime}}\<close>.\<close>

record match =
  path :: jsstring
  mtime :: int
  ctime :: int

subsection \<open>Calls to the collaborators\<close>

text \<open>The file primitives of a checkout (\<open>checkoutFS.pda\<close>, pauls-dat-api2).\<close>

datatype pda_call =
    PdaDiff jsval jsstring
  | PdaStat jsstring
  | PdaReadFile jsstring opts
  | PdaWriteFile jsstring jsstring opts
  | PdaUnlink jsstring
  | PdaCopy jsstring checkout jsstring
  | PdaRename jsstring checkout jsstring
  | PdaUpdateMetadata jsstring jsval
  | PdaDeleteMetadata jsstring jsval
  | PdaReaddir jsstring opts
  | PdaMkdir jsstring "opts option"
  | PdaRmdir jsstring opts
  | PdaSymlink jsstring jsstring
  | PdaMount jsstring jsval
  | PdaUnmount jsstring
  | PdaUpdateManifest "(jsstring \<times> jsval) list"
  | PdaWatch jsval
  | PdaCreateNetworkActivityStream

text \<open>
  Every call that leaves the gateway is written to a trace, in the order of the
  calls, so that a property can say which collaborators an operation reached and in
  which order.
\<close>

datatype event =
    EvTimer int
  | EvCheckin string
  | EvPause
  | EvResume
  | EvGetDrive jsstring
  | EvLoadDrive jsstring
  | EvGetOrLoadDrive jsstring
  | EvGetDriveCheckout drive "jsstring option"
  | EvGetDriveInfo jsstring
  | EvPullLatestDriveMeta drive
  | EvResolveName jsstring
  | EvQueryPermission jsstring sender
  | EvRequestPermission jsstring sender jsval
  | EvGetMeta jsstring
  | EvReadSize drive jsstring
  | EvPda checkout pda_call
  | EvPdaModule string "checkout list"
  | EvQuery checkout query_opts
  | EvModal string "(string \<times> jsval) list"
  | EvGetForks jsstring
  | EvCreateNewDrive "(string \<times> jsval) list"
  | EvForkDrive jsval "(string \<times> jsval) list"
  | EvGetDriveConfig jsval
  | EvConfigDrive jsval "(string \<times> jsval) list"
  | EvGrantPermission jsstring jsstring

text \<open>An entry of the audit log, and what an entry says about the call.\<close>

datatype arg = ArgStr jsstring | ArgVal jsval | ArgOpts "opts option"

datatype audit_args = Fields "(string \<times> arg) list" | Settings jsstring "(jsstring \<times> jsval) list option" | QueryOpts query_opts

record audit_entry =
  caller :: jsstring
  action :: string
  args :: audit_args
  writeSize :: "int option"
  succeeded :: bool

text \<open>
  The state outside the gateway: the audit log, the permission grants
  ((origin, permission) to the user's decision), the accounted size of every drive
  (\<open>archivesDb.getMeta(key).size\<close>), and the trace.
\<close>

record world =
  auditLog :: "audit_entry list"
  grants :: "((jsstring \<times> jsstring) \<times> bool) list"
  metaSize :: "jsstring \<Rightarrow> int"
  trace :: "event list"

text \<open>What the user answers to a permission prompt.\<close>

datatype answer = Approve | Reject | Dismiss

text \<open>
  The imported functions and constants, which are not in this file. A function that
  can fail returns an error or a value. Byte counts are integers (within the range
  where JavaScript numbers are exact).
\<close>

record env =
  parseDriveUrl :: "jsstring \<Rightarrow> urlp"
  urlPathname :: "jsstring \<Rightarrow> error + jsstring"
  byteLength :: "jsstring \<Rightarrow> jsstring option \<Rightarrow> int"
  jsonByteLength :: "(jsstring \<times> jsval) list \<Rightarrow> int"
  path_basename :: "jsstring \<Rightarrow> jsstring"
  toLowerCase :: "jsstring \<Rightarrow> jsstring"
  localeCompare :: "jsstring \<Rightarrow> jsstring \<Rightarrow> int"
  DRIVE_MANIFEST_FILENAME :: jsstring
  DRIVE_CONFIGURABLE_FIELDS :: "jsstring list"
  HYPERDRIVE_HASH_REGEX :: "jsstring \<Rightarrow> bool"
  DAT_QUOTA_DEFAULT_BYTES_ALLOWED :: int
  DRIVE_VALID_PATH_REGEX :: "jsstring \<Rightarrow> bool"
  DEFAULT_DRIVE_API_TIMEOUT :: int
  archivesDb_extractOrigin :: "jsstring \<Rightarrow> jsstring"
  hyperDns_resolveName :: "jsstring \<Rightarrow> error + jsstring"
  drives_getDrive :: "jsstring \<Rightarrow> drive option"
  drives_loadDrive :: "jsstring \<Rightarrow> error + drive"
  drives_getOrLoadDrive :: "jsstring \<Rightarrow> error + drive"
  drives_getDriveInfo :: "jsstring \<Rightarrow> error + (jsstring \<times> jsval) list"
  drives_pullLatestDriveMeta :: "drive \<Rightarrow> error + unit"
  pda_readSize :: "drive \<Rightarrow> jsstring \<Rightarrow> error + int"
  pda :: "checkout \<Rightarrow> pda_call \<Rightarrow> error + jsval"
  pda_module :: "string \<Rightarrow> checkout list \<Rightarrow> error + jsval"
  filesystem_query :: "checkout \<Rightarrow> query_opts \<Rightarrow> error + match list"
  filesystem_getDriveConfig :: "jsval \<Rightarrow> bool"
  filesystem_configDrive :: "jsval \<Rightarrow> (string \<times> jsval) list \<Rightarrow> error + unit"
  modals_create :: "sender \<Rightarrow> string \<Rightarrow> (string \<times> jsval) list \<Rightarrow> error + jsstring option"
  drivesAPI_getForks :: "jsstring \<Rightarrow> error + jsval"
  drives_createNewDrive :: "(string \<times> jsval) list \<Rightarrow> error + jsstring"
  drives_forkDrive :: "jsval \<Rightarrow> (string \<times> jsval) list \<Rightarrow> error + jsstring"
  userAnswer :: "jsstring \<Rightarrow> sender \<Rightarrow> answer"

subsection \<open>Sequencing\<close>

text \<open>
  A step of an operation takes the world and returns an error or a value, and the
  world it leaves. \<open>bindE\<close> is the semicolon (and \<open>await\<close>) of the source: a thrown
  error ends the operation.
\<close>

type_synonym 'a io = "world \<Rightarrow> (error + 'a) \<times> world"

definition ret :: "'a \<Rightarrow> 'a io" where
  "ret x = (\<lambda>w. (Inr x, w))"

definition throw :: "error \<Rightarrow> 'a io" where
  "throw e = (\<lambda>w. (Inl e, w))"

definition liftE :: "error + 'a \<Rightarrow> 'a io" where
  "liftE r = (\<lambda>w. (r, w))"

definition bindE :: "'a io \<Rightarrow> ('a \<Rightarrow> 'b io) \<Rightarrow> 'b io" where
  "bindE m f = (\<lambda>w. case m w of (Inl e, w') \<Rightarrow> (Inl e, w') | (Inr x, w') \<Rightarrow> f x w')"

definition emit :: "event \<Rightarrow> unit io" where
  "emit e = (\<lambda>w. (Inr (), w\<lparr>trace := trace w @ [e]\<rparr>))"

definition checkin :: "string \<Rightarrow> unit io" where
  "checkin label = emit (EvCheckin label)"

definition pause :: "unit io" where
  "pause = emit EvPause"

definition resume :: "unit io" where
  "resume = emit EvResume"

definition pdaCall :: "env \<Rightarrow> checkout \<Rightarrow> pda_call \<Rightarrow> jsval io" where
  "pdaCall env c call = bindE (emit (EvPda c call)) (\<lambda>_. liftE (pda env c call))"

subsection \<open>Collaborators modelled from the specification\<close>

text \<open>
  Modelled from the spec: \<open>drives.getDriveCheckout\<close> is not in this file. "checkout
  is the live mutable view when version is absent, else the historic immutable view
  at that version; isHistoric is true exactly in the latter case."
\<close>

definition drives_getDriveCheckout :: "drive \<Rightarrow> jsstring option \<Rightarrow> (checkout \<times> bool) io" where
  "drives_getDriveCheckout d v =
     bindE (emit (EvGetDriveCheckout d v)) (\<lambda>_.
     ret (case v of None \<Rightarrow> (Live d, False) | Some n \<Rightarrow> (Historic d n, True)))"

text \<open>
  Modelled from the spec: \<open>permissions.queryPermission\<close> and
  \<open>permissions.requestPermission\<close> are not in this file. A grant is "a tuple
  (subject origin, resource id = action-kind + drive key, boolean)", "queried before
  re-prompting"; a request is put to the user, "the user's explicit approval becomes
  a new cached Grant", and a prompt "may be dismissed".
\<close>

definition permissions_queryPermission :: "env \<Rightarrow> jsstring \<Rightarrow> sender \<Rightarrow> bool io" where
  "permissions_queryPermission env perm s =
     bindE (emit (EvQueryPermission perm s)) (\<lambda>_.
     (\<lambda>w. (Inr (map_of (grants w) (archivesDb_extractOrigin env (getURL s), perm) = Some True), w)))"

definition permissions_requestPermission ::
    "env \<Rightarrow> jsstring \<Rightarrow> sender \<Rightarrow> jsval \<Rightarrow> bool io" where
  "permissions_requestPermission env perm s context =
     bindE (emit (EvRequestPermission perm s context)) (\<lambda>_.
     (case userAnswer env perm s of
        Approve \<Rightarrow>
          (\<lambda>w. (Inr True,
                 w\<lparr>grants := ((archivesDb_extractOrigin env (getURL s), perm), True) # grants w\<rparr>))
      | Reject \<Rightarrow> ret False
      | Dismiss \<Rightarrow> ret False))"

text \<open>
  Modelled from the spec: \<open>auditLog.record\<close> is not in this file. It returns the
  "operation()'s result or error, always appending exactly one Audit Entry capturing
  the attempt (success or failure) before returning/propagating". The entry's
  timestamp is left out.
\<close>

definition auditLog_record ::
    "jsstring \<Rightarrow> string \<Rightarrow> audit_args \<Rightarrow> int option \<Rightarrow> 'a io \<Rightarrow> 'a io" where
  "auditLog_record c m a n fn =
     (\<lambda>w. case fn w of
        (r, w') \<Rightarrow>
          (r, w'\<lparr>auditLog := auditLog w' @
                 [\<lparr>caller = c, action = m, args = a, writeSize = n,
                   succeeded = (case r of Inl _ \<Rightarrow> False | Inr _ \<Rightarrow> True)\<rparr>]\<rparr>))"

text \<open>
  Modelled from the spec: \<open>timer\<close> (lib/time) is not in this file. It starts a
  deadline clock and runs the operation, to which it hands \<open>checkin\<close>, \<open>pause\<close> and
  \<open>resume\<close>. The clock itself is real time and is not modelled: no operation
  times out here.
\<close>

definition timer :: "int \<Rightarrow> 'a io \<Rightarrow> 'a io" where
  "timer t fn = bindE (emit (EvTimer t)) (\<lambda>_. fn)"

text \<open>\<open>archivesDb.getMeta(key).size\<close>: the accounted size, read when it is asked for.\<close>

definition archivesDb_getMeta :: "jsstring \<Rightarrow> int io" where
  "archivesDb_getMeta k = bindE (emit (EvGetMeta k)) (\<lambda>_. (\<lambda>w. (Inr (metaSize w k), w)))"

subsection \<open>The internal helpers of the file\<close>

definition to :: "env \<Rightarrow> 'a opts_scheme option \<Rightarrow> int" where
  "to env opts =
     (case opts of
        None \<Rightarrow> DEFAULT_DRIVE_API_TIMEOUT env
      | Some x \<Rightarrow> (case timeout x of None \<Rightarrow> DEFAULT_DRIVE_API_TIMEOUT env | Some t \<Rightarrow> t))"

definition assertUnprotectedFilePath :: "env \<Rightarrow> jsstring \<Rightarrow> sender \<Rightarrow> error + unit" where
  "assertUnprotectedFilePath env filepath s =
     (if isSenderBeaker s then Inr ()
      else if filepath = str ''/'' @ DRIVE_MANIFEST_FILENAME env
      then Inl ProtectedFileNotWritableError
      else Inr ())"

definition assertBeakerOnly :: "sender \<Rightarrow> error + unit" where
  "assertBeakerOnly s = (if \<not> isSenderBeaker s then Inl PermissionsError else Inr ())"

definition lookupUrlDriveKey :: "env \<Rightarrow> jsstring \<Rightarrow> jsstring option io" where
  "lookupUrlDriveKey env url =
     (if HYPERDRIVE_HASH_REGEX env url then ret (Some url)
      else if \<not> startsWith url (str ''hyper://'') then ret None
      else
        bindE (emit (EvResolveName (hostname (parseDriveUrl env url)))) (\<lambda>_.
        ret (case hyperDns_resolveName env (hostname (parseDriveUrl env url)) of
               Inl e \<Rightarrow> None
             | Inr k \<Rightarrow> Some k)))"

definition assertCreateDrivePermission :: "env \<Rightarrow> sender \<Rightarrow> unit io" where
  "assertCreateDrivePermission env s =
     (if isSenderBeaker s then ret ()
      else
        bindE (permissions_requestPermission env (str ''createDrive'') s Undefined) (\<lambda>allowed.
        if \<not> allowed then throw UserDeniedError else ret ()))"

definition assertWritePermission :: "env \<Rightarrow> drive \<Rightarrow> sender \<Rightarrow> bool io" where
  "assertWritePermission env d s =
     bindE (emit (EvGetDriveInfo (key d))) (\<lambda>_.
     bindE (liftE (drives_getDriveInfo env (key d))) (\<lambda>details.
     if isSenderBeaker s then ret True
     else
       bindE (lookupUrlDriveKey env (getURL s)) (\<lambda>senderDatKey.
       if senderDatKey = Some (key d) then ret True
       else
         bindE (permissions_queryPermission env (str ''modifyDrive:'' @ key d) s) (\<lambda>allowed.
         if allowed then ret True
         else
           bindE (permissions_requestPermission env (str ''modifyDrive:'' @ key d) s
                    (Obj [(str ''title'', field details ''title'')]))
             (\<lambda>allowed'.
           if \<not> allowed' then throw UserDeniedError else ret True)))))"

definition assertDeleteDrivePermission :: "env \<Rightarrow> drive \<Rightarrow> sender \<Rightarrow> bool io" where
  "assertDeleteDrivePermission env d s =
     (if isSenderBeaker s then ret True
      else
        bindE (emit (EvGetDriveInfo (key d))) (\<lambda>_.
        bindE (liftE (drives_getDriveInfo env (key d))) (\<lambda>details.
        bindE (permissions_requestPermission env (str ''deleteDrive:'' @ key d) s
                 (Obj [(str ''title'', field details ''title'')]))
          (\<lambda>allowed.
        if \<not> allowed then throw UserDeniedError else ret True))))"

definition assertQuotaPermission :: "env \<Rightarrow> drive \<Rightarrow> jsstring \<Rightarrow> int \<Rightarrow> unit io" where
  "assertQuotaPermission env d senderOrigin n =
     (if startsWith senderOrigin (str ''beaker:'') then ret ()
      else
        bindE (archivesDb_getMeta (key d)) (\<lambda>size.
        if size + n > DAT_QUOTA_DEFAULT_BYTES_ALLOWED env then throw QuotaExceededError
        else ret ()))"

definition assertValidPath :: "env \<Rightarrow> jsstring \<Rightarrow> error + unit" where
  "assertValidPath env fileOrFolderPath =
     (if \<not> DRIVE_VALID_PATH_REGEX env fileOrFolderPath then Inl InvalidPathError else Inr ())"

definition assertValidFilePath :: "env \<Rightarrow> jsstring \<Rightarrow> error + unit" where
  "assertValidFilePath env filepath =
     (if sliceLast filepath = str ''/'' then Inl InvalidPathError
      else assertValidPath env filepath)"

text \<open>\<open>parseUrlParts\<close> is defined in the file and called nowhere in it.\<close>

definition parseUrlParts :: "env \<Rightarrow> jsstring \<Rightarrow> (jsstring \<times> jsstring \<times> jsstring option) io" where
  "parseUrlParts env url =
     (if HYPERDRIVE_HASH_REGEX env url then ret (url, str ''/'', None)
      else if protocol (parseDriveUrl env url) \<noteq> str ''hyper:'' then throw InvalidURLError
      else
        bindE
          (if \<not> HYPERDRIVE_HASH_REGEX env (host (parseDriveUrl env url)) then
             bindE (emit (EvResolveName url)) (\<lambda>_. liftE (hyperDns_resolveName env url))
           else ret (host (parseDriveUrl env url))) (\<lambda>driveKey.
        bindE (liftE (decodeURIComponent (pathname (parseDriveUrl env url)))) (\<lambda>p.
        ret (driveKey, if p = [] then str ''/'' else p, version (parseDriveUrl env url)))))"

definition lookupDrive :: "env \<Rightarrow> sender \<Rightarrow> jsstring \<Rightarrow> jsstring option \<Rightarrow> lookup io" where
  "lookupDrive env s driveKey v =
     bindE (emit (EvGetDrive driveKey)) (\<lambda>_.
     bindE (case drives_getDrive env driveKey of
              Some d \<Rightarrow> ret d
            | None \<Rightarrow>
                bindE (emit (EvLoadDrive driveKey)) (\<lambda>_. liftE (drives_loadDrive env driveKey)))
       (\<lambda>d.
     bindE (drives_getDriveCheckout d v) (\<lambda>(c, h).
     ret \<lparr>drive = d, lookupVersion = v, isHistoric = h, checkoutFS = c\<rparr>)))"

subsection \<open>The exported operations\<close>

text \<open>
  Each operation takes the environment, the sender (\<open>this.sender\<close>) and its
  arguments. An operation written \<open>auditLog.record(..., () => timer(to(opts), async
  (checkin, pause, resume) => ...))\<close> is split in two: the function handed to the
  timer (\<open>_task\<close>), and the operation around it.
\<close>

definition optsOr :: "opts option \<Rightarrow> opts" where
  "optsOr opts = (case opts of None \<Rightarrow> noOpts | Some x \<Rightarrow> x)"

text \<open>\<open>permissions.grantPermission\<close>, modelled as the store of a true grant.\<close>

definition permissions_grantPermission :: "env \<Rightarrow> jsstring \<Rightarrow> jsstring \<Rightarrow> unit io" where
  "permissions_grantPermission env perm url =
     bindE (emit (EvGrantPermission perm url)) (\<lambda>_.
     (\<lambda>w. (Inr (), w\<lparr>grants := ((archivesDb_extractOrigin env url, perm), True) # grants w\<rparr>)))"

text \<open>
  A creation or fork modal: an error named \<open>Error\<close> is swallowed, and a missing
  result or a result without a URL is the user's refusal.
\<close>

definition runModal :: "env \<Rightarrow> sender \<Rightarrow> string \<Rightarrow> (string \<times> jsval) list \<Rightarrow> jsstring io" where
  "runModal env s kind flds =
     bindE (emit (EvModal kind flds)) (\<lambda>_.
     (case modals_create env s kind flds of
        Inl e \<Rightarrow> if e \<noteq> PlainError then throw e else throw UserDeniedError
      | Inr None \<Rightarrow> throw UserDeniedError
      | Inr (Some u) \<Rightarrow> if u = [] then throw UserDeniedError else ret u))"

definition keyOrFalse :: "jsstring option \<Rightarrow> jsval" where
  "keyOrFalse k = (case k of None \<Rightarrow> Bool False | Some x \<Rightarrow> Str x)"

definition createDrive ::
    "env \<Rightarrow> sender \<Rightarrow> jsval \<Rightarrow> jsval \<Rightarrow> jsval \<Rightarrow> jsval \<Rightarrow> jsval \<Rightarrow> jsval io" where
  "createDrive env s title description author visibility prompt =
     bindE
       (if prompt \<noteq> Bool False then
          runModal env s ''create-drive''
            [(''title'', title), (''description'', description),
             (''author'', if \<not> isSenderBeaker s then Undefined else author),
             (''visibility'', if \<not> isSenderBeaker s then Undefined else visibility)]
        else
          bindE (assertCreateDrivePermission env s) (\<lambda>_.
          bindE (emit (EvCreateNewDrive [(''title'', title), (''description'', description)])) (\<lambda>_.
          bindE (liftE (drives_createNewDrive env
                   [(''title'', title), (''description'', description)])) (\<lambda>newUrl.
          bindE (emit (EvConfigDrive (Str newUrl) [(''seeding'', Bool True)])) (\<lambda>_.
          bindE (liftE (filesystem_configDrive env (Str newUrl) [(''seeding'', Bool True)])) (\<lambda>_.
          ret newUrl))))))
       (\<lambda>newDriveUrl.
     bindE (lookupUrlDriveKey env newDriveUrl) (\<lambda>newDriveKey.
     bindE
       (if \<not> isSenderBeaker s then
          permissions_grantPermission env
            (str ''modifyDrive:'' @ (case newDriveKey of None \<Rightarrow> str ''false'' | Some k \<Rightarrow> k))
            (getURL s)
        else ret ()) (\<lambda>_.
     ret (Str newDriveUrl))))"

definition forkDrive ::
    "env \<Rightarrow> sender \<Rightarrow> jsstring \<Rightarrow> jsval \<Rightarrow> jsval \<Rightarrow> jsval \<Rightarrow> jsval \<Rightarrow> jsval \<Rightarrow> jsval io" where
  "forkDrive env s url detached title description label prompt =
     (if (if \<not> isSenderBeaker s then Undefined else prompt) \<noteq> Bool False then
        bindE (emit (EvGetForks url)) (\<lambda>_.
        bindE (liftE (drivesAPI_getForks env url)) (\<lambda>forks.
        bindE (runModal env s ''fork-drive''
                 [(''url'', Str url), (''forks'', forks),
                  (''detached'', if \<not> isSenderBeaker s then Undefined else detached),
                  (''label'', if \<not> isSenderBeaker s then Undefined else label)]) (\<lambda>newDriveUrl.
        ret (Str newDriveUrl))))
      else
        bindE (assertCreateDrivePermission env s) (\<lambda>_.
        bindE (lookupUrlDriveKey env url) (\<lambda>k.
        bindE (emit (EvGetDriveConfig (keyOrFalse k))) (\<lambda>_.
        bindE
          (if \<not> filesystem_getDriveConfig env (keyOrFalse k) then
             bindE (emit (EvConfigDrive (keyOrFalse k) [])) (\<lambda>_.
             liftE (filesystem_configDrive env (keyOrFalse k) []))
           else ret ()) (\<lambda>_.
        bindE (emit (EvForkDrive (keyOrFalse k)
                 [(''title'', if truthy detached then title else Undefined),
                  (''description'',
                     if truthy detached then description else Undefined),
                  (''detached'', detached)])) (\<lambda>_.
        bindE (liftE (drives_forkDrive env (keyOrFalse k)
                 [(''title'', if truthy detached then title else Undefined),
                  (''description'',
                     if truthy detached then description else Undefined),
                  (''detached'', detached)])) (\<lambda>newUrl.
        bindE (emit (EvConfigDrive (Str newUrl)
                 [(''seeding'', Bool True),
                  (''forkOf'',
                     if truthy detached then Undefined
                     else Obj [(str ''key'', keyOrFalse k), (str ''label'', label)])])) (\<lambda>_.
        bindE (liftE (filesystem_configDrive env (Str newUrl)
                 [(''seeding'', Bool True),
                  (''forkOf'',
                     if truthy detached then Undefined
                     else Obj [(str ''key'', keyOrFalse k), (str ''label'', label)])])) (\<lambda>_.
        ret (Str newUrl))))))))))"

text \<open>
  \<open>loadDrive\<close>: \<open>None\<close> is an argument that is not a string; the empty string is
  falsy.
\<close>

definition loadDrive :: "env \<Rightarrow> sender \<Rightarrow> jsstring option \<Rightarrow> jsval io" where
  "loadDrive env s url =
     (case url of
        None \<Rightarrow> throw InvalidURLError
      | Some u \<Rightarrow>
          if u = [] then throw InvalidURLError
          else
            bindE (emit (EvGetOrLoadDrive u)) (\<lambda>_.
            bindE (liftE (drives_getOrLoadDrive env u)) (\<lambda>_.
            ret (Bool True))))"

definition getInfo_task :: "env \<Rightarrow> sender \<Rightarrow> jsstring \<Rightarrow> jsval io" where
  "getInfo_task env s url =
     bindE (emit (EvGetDriveInfo url)) (\<lambda>_.
     bindE (liftE (drives_getDriveInfo env url)) (\<lambda>info.
     if isSenderBeaker s then ret (Obj info)
     else
       ret (Obj
         [(str ''key'', field info ''key''),
          (str ''url'', field info ''url''),
          (str ''writable'', field info ''writable''),
          (str ''version'', field info ''version''),
          (str ''peers'', field info ''peers''),
          (str ''title'', field info ''title''),
          (str ''description'', field info ''description'')])))"

definition getInfo :: "env \<Rightarrow> sender \<Rightarrow> jsstring \<Rightarrow> opts option \<Rightarrow> jsval io" where
  "getInfo env s url opts =
     auditLog_record (getURL s) ''getInfo'' (Fields [(''url'', ArgStr url)]) None
       (timer (to env (Some (optsOr opts))) (getInfo_task env s url))"

text \<open>
  \<open>configure\<close>: \<open>settings\<close> is \<open>None\<close> when the argument is missing or not an
  object. \<open>delete settings.author\<close> and lodash's \<open>pick\<close> are filters of the fields.
\<close>

definition pick :: "(jsstring \<times> jsval) list \<Rightarrow> jsstring list \<Rightarrow> (jsstring \<times> jsval) list" where
  "pick obj names = filter (\<lambda>kv. fst kv \<in> set names) obj"

definition deleteAuthor :: "sender \<Rightarrow> (jsstring \<times> jsval) list \<Rightarrow> (jsstring \<times> jsval) list" where
  "deleteAuthor s obj =
     (if \<not> isSenderBeaker s then filter (\<lambda>kv. fst kv \<noteq> str ''author'') obj else obj)"

definition configure_task ::
    "env \<Rightarrow> sender \<Rightarrow> jsstring \<Rightarrow> (jsstring \<times> jsval) list option \<Rightarrow> jsval io" where
  "configure_task env s url settings =
     bindE (checkin ''looking up drive'') (\<lambda>_.
     bindE (lookupDrive env s (hostname (parseDriveUrl env url))
              (version (parseDriveUrl env url))) (\<lambda>l.
     if isHistoric l then throw ArchiveNotWritableError
     else
       (case settings of
          None \<Rightarrow> throw PlainError
        | Some obj \<Rightarrow>
            if pick (deleteAuthor s obj) (DRIVE_CONFIGURABLE_FIELDS env) = [] then ret Undefined
            else
              bindE pause (\<lambda>_.
              bindE (assertWritePermission env (drive l) s) (\<lambda>_.
              bindE (assertQuotaPermission env (drive l)
                       (archivesDb_extractOrigin env (getURL s))
                       (jsonByteLength env (deleteAuthor s obj))) (\<lambda>_.
              bindE resume (\<lambda>_.
              bindE (checkin ''updating drive'') (\<lambda>_.
              bindE (pdaCall env (checkoutFS l)
                       (PdaUpdateManifest
                          (pick (deleteAuthor s obj) (DRIVE_CONFIGURABLE_FIELDS env)))) (\<lambda>_.
              bindE (emit (EvPullLatestDriveMeta (drive l))) (\<lambda>_.
              bindE (liftE (drives_pullLatestDriveMeta env (drive l))) (\<lambda>_.
              ret Undefined)))))))))))"

definition configure ::
    "env \<Rightarrow> sender \<Rightarrow> jsstring \<Rightarrow> (jsstring \<times> jsval) list option \<Rightarrow> opts option \<Rightarrow> jsval io" where
  "configure env s url settings opts =
     auditLog_record (getURL s) ''configure'' (Settings url settings) None
       (timer (to env opts) (configure_task env s url settings))"

definition diff_task :: "env \<Rightarrow> sender \<Rightarrow> urlp \<Rightarrow> jsval \<Rightarrow> jsval io" where
  "diff_task env s up other =
     bindE (checkin ''looking up drive'') (\<lambda>_.
     bindE (lookupDrive env s (origin up) (version up)) (\<lambda>l.
     bindE (checkin ''diffing'') (\<lambda>_.
     pdaCall env (checkoutFS l) (PdaDiff other (pathname up)))))"

definition diff :: "env \<Rightarrow> sender \<Rightarrow> jsstring \<Rightarrow> jsval \<Rightarrow> opts option \<Rightarrow> jsval io" where
  "diff env s url other opts =
     auditLog_record (getURL s) ''diff''
       (Fields [(''url'', ArgStr (origin (parseDriveUrl env url))), (''other'', ArgVal other),
                (''prefix'', ArgStr (pathname (parseDriveUrl env url)))]) None
       (timer (to env (Some (optsOr opts))) (diff_task env s (parseDriveUrl env url) other))"

definition stat_task :: "env \<Rightarrow> sender \<Rightarrow> urlp \<Rightarrow> jsstring \<Rightarrow> jsval io" where
  "stat_task env s up filepath =
     bindE (checkin ''looking up drive'') (\<lambda>_.
     bindE (lookupDrive env s (hostname up) (version up)) (\<lambda>l.
     bindE (checkin ''stating file'') (\<lambda>_.
     pdaCall env (checkoutFS l) (PdaStat filepath))))"

definition stat :: "env \<Rightarrow> sender \<Rightarrow> jsstring \<Rightarrow> opts option \<Rightarrow> jsval io" where
  "stat env s url opts =
     bindE (liftE (normalizeFilepath (pathname (parseDriveUrl env url)))) (\<lambda>filepath.
     auditLog_record (getURL s) ''stat''
       (Fields [(''url'', ArgStr (origin (parseDriveUrl env url))), (''filepath'', ArgStr filepath)])
       None
       (timer (to env (Some (optsOr opts))) (stat_task env s (parseDriveUrl env url) filepath)))"

definition readFile_task :: "env \<Rightarrow> sender \<Rightarrow> urlp \<Rightarrow> jsstring \<Rightarrow> opts \<Rightarrow> jsval io" where
  "readFile_task env s up filepath opts =
     bindE (checkin ''looking up drive'') (\<lambda>_.
     bindE (lookupDrive env s (hostname up) (version up)) (\<lambda>l.
     bindE (checkin ''reading file'') (\<lambda>_.
     pdaCall env (checkoutFS l) (PdaReadFile filepath opts))))"

definition readFile :: "env \<Rightarrow> sender \<Rightarrow> jsstring \<Rightarrow> opts option \<Rightarrow> jsval io" where
  "readFile env s url opts =
     bindE (liftE (normalizeFilepath (pathname (parseDriveUrl env url)))) (\<lambda>filepath.
     auditLog_record (getURL s) ''readFile''
       (Fields [(''url'', ArgStr (origin (parseDriveUrl env url))), (''filepath'', ArgStr filepath),
                (''opts'', ArgOpts (Some (optsOr opts)))]) None
       (timer (to env (Some (optsOr opts)))
          (readFile_task env s (parseDriveUrl env url) filepath (optsOr opts))))"

definition writeFile_task ::
    "env \<Rightarrow> sender \<Rightarrow> urlp \<Rightarrow> jsstring \<Rightarrow> jsstring \<Rightarrow> opts \<Rightarrow> int \<Rightarrow> jsval io" where
  "writeFile_task env s up filepath data opts sourceSize =
     bindE (checkin ''looking up drive'') (\<lambda>_.
     bindE (lookupDrive env s (hostname up) (version up)) (\<lambda>l.
     if isHistoric l then throw ArchiveNotWritableError
     else
       bindE pause (\<lambda>_.
       bindE (assertWritePermission env (drive l) s) (\<lambda>_.
       bindE (assertQuotaPermission env (drive l)
                (archivesDb_extractOrigin env (getURL s)) sourceSize) (\<lambda>_.
       bindE (liftE (assertValidFilePath env filepath)) (\<lambda>_.
       bindE (liftE (assertUnprotectedFilePath env filepath s)) (\<lambda>_.
       bindE resume (\<lambda>_.
       bindE (checkin ''writing file'') (\<lambda>_.
       pdaCall env (checkoutFS l) (PdaWriteFile filepath data opts))))))))))"

definition writeFile ::
    "env \<Rightarrow> sender \<Rightarrow> jsstring \<Rightarrow> jsstring \<Rightarrow> opts option \<Rightarrow> jsval io" where
  "writeFile env s url data opts =
     bindE (liftE (normalizeFilepath (pathname (parseDriveUrl env url)))) (\<lambda>filepath.
     auditLog_record (getURL s) ''writeFile''
       (Fields [(''url'', ArgStr (origin (parseDriveUrl env url))), (''filepath'', ArgStr filepath)])
       (Some (byteLength env data (encoding (optsOr opts))))
       (timer (to env (Some (optsOr opts)))
          (writeFile_task env s (parseDriveUrl env url) filepath data (optsOr opts)
             (byteLength env data (encoding (optsOr opts))))))"

definition unlink_task :: "env \<Rightarrow> sender \<Rightarrow> urlp \<Rightarrow> jsstring \<Rightarrow> jsval io" where
  "unlink_task env s up filepath =
     bindE (checkin ''looking up drive'') (\<lambda>_.
     bindE (lookupDrive env s (hostname up) (version up)) (\<lambda>l.
     if isHistoric l then throw ArchiveNotWritableError
     else
       bindE pause (\<lambda>_.
       bindE (assertWritePermission env (drive l) s) (\<lambda>_.
       bindE (liftE (assertUnprotectedFilePath env filepath s)) (\<lambda>_.
       bindE resume (\<lambda>_.
       bindE (checkin ''deleting file'') (\<lambda>_.
       pdaCall env (checkoutFS l) (PdaUnlink filepath))))))))"

definition unlink :: "env \<Rightarrow> sender \<Rightarrow> jsstring \<Rightarrow> opts option \<Rightarrow> jsval io" where
  "unlink env s url opts =
     bindE (liftE (normalizeFilepath (pathname (parseDriveUrl env url)))) (\<lambda>filepath.
     auditLog_record (getURL s) ''unlink''
       (Fields [(''url'', ArgStr (origin (parseDriveUrl env url))), (''filepath'', ArgStr filepath)])
       None
       (timer (to env (Some (optsOr opts))) (unlink_task env s (parseDriveUrl env url) filepath)))"

text \<open>
  \<open>copy\<close> looks the source up and reads its size before the recorder is entered.
  \<open>(new URL(p)).pathname\<close> is the environment's \<open>urlPathname\<close>.
\<close>

definition readSize :: "env \<Rightarrow> drive \<Rightarrow> jsstring \<Rightarrow> int io" where
  "readSize env d p = bindE (emit (EvReadSize d p)) (\<lambda>_. liftE (pda_readSize env d p))"

definition pathOfUrl :: "env \<Rightarrow> jsstring \<Rightarrow> error + jsstring" where
  "pathOfUrl env p = (if includesStr p (str ''://'') then urlPathname env p else Inr p)"

definition copy_task ::
    "env \<Rightarrow> sender \<Rightarrow> jsstring \<Rightarrow> jsstring \<Rightarrow> jsstring \<Rightarrow> lookup \<Rightarrow> int \<Rightarrow> jsval io" where
  "copy_task env s url srcpath dstpath src sourceSize =
     bindE (checkin ''searching for drive'') (\<lambda>_.
     bindE (lookupDrive env s (if includesStr dstpath (str ''://'') then dstpath else url) None)
       (\<lambda>dst.
     bindE (liftE (pathOfUrl env srcpath)) (\<lambda>srcpath'.
     bindE (liftE (pathOfUrl env dstpath)) (\<lambda>dstpath'.
     bindE pause (\<lambda>_.
     bindE (assertWritePermission env (drive dst) s) (\<lambda>_.
     bindE (liftE (assertUnprotectedFilePath env dstpath' s)) (\<lambda>_.
     bindE (assertQuotaPermission env (drive dst)
              (archivesDb_extractOrigin env (getURL s)) sourceSize) (\<lambda>_.
     bindE resume (\<lambda>_.
     bindE (checkin ''copying'') (\<lambda>_.
     pdaCall env (checkoutFS src) (PdaCopy srcpath' (checkoutFS dst) dstpath')))))))))))"

definition copy :: "env \<Rightarrow> sender \<Rightarrow> jsstring \<Rightarrow> jsstring \<Rightarrow> opts option \<Rightarrow> jsval io" where
  "copy env s url dstpath opts =
     bindE (liftE (normalizeFilepath (pathname (parseDriveUrl env url)))) (\<lambda>srcpath.
     bindE (liftE (normalizeFilepath dstpath)) (\<lambda>dstpath'.
     bindE (lookupDrive env s (hostname (parseDriveUrl env url))
              (version (parseDriveUrl env url))) (\<lambda>src.
     bindE (readSize env (drive src) srcpath) (\<lambda>sourceSize.
     auditLog_record (getURL s) ''copy''
       (Fields [(''url'', ArgStr (origin (parseDriveUrl env url))), (''srcpath'', ArgStr srcpath),
                (''dstpath'', ArgStr dstpath')]) (Some sourceSize)
       (timer (to env (Some (optsOr opts)))
          (copy_task env s (origin (parseDriveUrl env url)) srcpath dstpath' src sourceSize))))))"

definition rename_task ::
    "env \<Rightarrow> sender \<Rightarrow> urlp \<Rightarrow> jsstring \<Rightarrow> jsstring \<Rightarrow> jsval io" where
  "rename_task env s up srcpath dstpath =
     bindE (checkin ''searching for drive'') (\<lambda>_.
     bindE (lookupDrive env s (hostname up) (version up)) (\<lambda>src.
     bindE (lookupDrive env s
              (if includesStr dstpath (str ''://'') then dstpath else origin up) None) (\<lambda>dst.
     bindE (liftE (pathOfUrl env srcpath)) (\<lambda>srcpath'.
     bindE (liftE (pathOfUrl env dstpath)) (\<lambda>dstpath'.
     bindE pause (\<lambda>_.
     bindE (assertWritePermission env (drive dst) s) (\<lambda>_.
     bindE (liftE (assertValidPath env dstpath')) (\<lambda>_.
     bindE (liftE (assertUnprotectedFilePath env srcpath' s)) (\<lambda>_.
     bindE (liftE (assertUnprotectedFilePath env dstpath' s)) (\<lambda>_.
     bindE resume (\<lambda>_.
     bindE (checkin ''renaming file'') (\<lambda>_.
     pdaCall env (checkoutFS src) (PdaRename srcpath' (checkoutFS dst) dstpath')))))))))))))"

definition rename :: "env \<Rightarrow> sender \<Rightarrow> jsstring \<Rightarrow> jsstring \<Rightarrow> opts option \<Rightarrow> jsval io" where
  "rename env s url dstpath opts =
     bindE (liftE (normalizeFilepath (pathname (parseDriveUrl env url)))) (\<lambda>srcpath.
     bindE (liftE (normalizeFilepath dstpath)) (\<lambda>dstpath'.
     auditLog_record (getURL s) ''rename''
       (Fields [(''url'', ArgStr (origin (parseDriveUrl env url))), (''srcpath'', ArgStr srcpath),
                (''dstpath'', ArgStr dstpath')]) None
       (timer (to env (Some (optsOr opts)))
          (rename_task env s (parseDriveUrl env url) srcpath dstpath'))))"

definition updateMetadata_task ::
    "env \<Rightarrow> sender \<Rightarrow> urlp \<Rightarrow> jsstring \<Rightarrow> jsval \<Rightarrow> jsval io" where
  "updateMetadata_task env s up filepath metadata =
     bindE (checkin ''looking up drive'') (\<lambda>_.
     bindE (lookupDrive env s (hostname up) (version up)) (\<lambda>l.
     if isHistoric l then throw ArchiveNotWritableError
     else
       bindE pause (\<lambda>_.
       bindE (assertWritePermission env (drive l) s) (\<lambda>_.
       bindE (liftE (assertValidPath env filepath)) (\<lambda>_.
       bindE resume (\<lambda>_.
       bindE (checkin ''updating metadata'') (\<lambda>_.
       pdaCall env (checkoutFS l) (PdaUpdateMetadata filepath metadata))))))))"

definition updateMetadata ::
    "env \<Rightarrow> sender \<Rightarrow> jsstring \<Rightarrow> jsval \<Rightarrow> opts option \<Rightarrow> jsval io" where
  "updateMetadata env s url metadata opts =
     bindE (liftE (normalizeFilepath (pathname (parseDriveUrl env url)))) (\<lambda>filepath.
     auditLog_record (getURL s) ''updateMetadata''
       (Fields [(''url'', ArgStr (origin (parseDriveUrl env url))), (''filepath'', ArgStr filepath),
                (''metadata'', ArgVal metadata)]) None
       (timer (to env (Some (optsOr opts)))
          (updateMetadata_task env s (parseDriveUrl env url) filepath metadata)))"

definition deleteMetadata_task ::
    "env \<Rightarrow> sender \<Rightarrow> urlp \<Rightarrow> jsstring \<Rightarrow> jsval \<Rightarrow> jsval io" where
  "deleteMetadata_task env s up filepath keys =
     bindE (checkin ''looking up drive'') (\<lambda>_.
     bindE (lookupDrive env s (hostname up) (version up)) (\<lambda>l.
     if isHistoric l then throw ArchiveNotWritableError
     else
       bindE pause (\<lambda>_.
       bindE (assertWritePermission env (drive l) s) (\<lambda>_.
       bindE (liftE (assertValidPath env filepath)) (\<lambda>_.
       bindE resume (\<lambda>_.
       bindE (checkin ''updating metadata'') (\<lambda>_.
       pdaCall env (checkoutFS l) (PdaDeleteMetadata filepath keys))))))))"

definition deleteMetadata ::
    "env \<Rightarrow> sender \<Rightarrow> jsstring \<Rightarrow> jsval \<Rightarrow> opts option \<Rightarrow> jsval io" where
  "deleteMetadata env s url keys opts =
     bindE (liftE (normalizeFilepath (pathname (parseDriveUrl env url)))) (\<lambda>filepath.
     auditLog_record (getURL s) ''deleteMetadata''
       (Fields [(''url'', ArgStr (origin (parseDriveUrl env url))), (''filepath'', ArgStr filepath),
                (''keys'', ArgVal keys)]) None
       (timer (to env (Some (optsOr opts)))
          (deleteMetadata_task env s (parseDriveUrl env url) filepath keys)))"

text \<open>
  \<open>readdir\<close> with \<open>includeStats\<close> maps every entry to \<open>{name, stat}\<close>; reading a
  property of \<open>undefined\<close>, or mapping something that is not an array, is a
  \<open>TypeError\<close>.
\<close>

definition nameAndStat :: "jsval \<Rightarrow> error + jsval" where
  "nameAndStat obj =
     (case obj of
        Undefined \<Rightarrow> Inl TypeError
      | Obj fs \<Rightarrow> Inr (Obj [(str ''name'', field fs ''name''), (str ''stat'', field fs ''stat'')])
      | _ \<Rightarrow> Inr (Obj [(str ''name'', Undefined), (str ''stat'', Undefined)]))"

fun collect :: "(error + 'a) list \<Rightarrow> error + 'a list" where
  "collect [] = Inr []"
| "collect (r # rs) =
     (case r of
        Inl e \<Rightarrow> Inl e
      | Inr x \<Rightarrow> (case collect rs of Inl e \<Rightarrow> Inl e | Inr xs \<Rightarrow> Inr (x # xs)))"

definition readdir_task :: "env \<Rightarrow> sender \<Rightarrow> urlp \<Rightarrow> jsstring \<Rightarrow> opts \<Rightarrow> jsval io" where
  "readdir_task env s up filepath opts =
     bindE (checkin ''searching for drive'') (\<lambda>_.
     bindE (lookupDrive env s (hostname up) (version up)) (\<lambda>l.
     bindE (checkin ''reading directory'') (\<lambda>_.
     bindE (pdaCall env (checkoutFS l) (PdaReaddir filepath opts)) (\<lambda>names.
     if includeStats opts then
       (case names of
          Arr xs \<Rightarrow> bindE (liftE (collect (map nameAndStat xs))) (\<lambda>ys. ret (Arr ys))
        | _ \<Rightarrow> throw TypeError)
     else ret names))))"

definition readdir :: "env \<Rightarrow> sender \<Rightarrow> jsstring \<Rightarrow> opts option \<Rightarrow> jsval io" where
  "readdir env s url opts =
     bindE (liftE (normalizeFilepath (pathname (parseDriveUrl env url)))) (\<lambda>filepath.
     auditLog_record (getURL s) ''readdir''
       (Fields [(''url'', ArgStr (origin (parseDriveUrl env url))), (''filepath'', ArgStr filepath),
                (''opts'', ArgOpts (Some (optsOr opts)))]) None
       (timer (to env (Some (optsOr opts)))
          (readdir_task env s (parseDriveUrl env url) filepath (optsOr opts))))"

definition mkdir_task ::
    "env \<Rightarrow> sender \<Rightarrow> urlp \<Rightarrow> jsstring \<Rightarrow> opts option \<Rightarrow> jsval io" where
  "mkdir_task env s up filepath opts =
     bindE (checkin ''searching for drive'') (\<lambda>_.
     bindE (lookupDrive env s (hostname up) (version up)) (\<lambda>l.
     if isHistoric l then throw ArchiveNotWritableError
     else
       bindE pause (\<lambda>_.
       bindE (assertWritePermission env (drive l) s) (\<lambda>_.
       bindE (liftE (assertValidPath env filepath)) (\<lambda>_.
       bindE (liftE (assertUnprotectedFilePath env filepath s)) (\<lambda>_.
       bindE resume (\<lambda>_.
       bindE (checkin ''making directory'') (\<lambda>_.
       pdaCall env (checkoutFS l) (PdaMkdir filepath opts)))))))))"

definition mkdir :: "env \<Rightarrow> sender \<Rightarrow> jsstring \<Rightarrow> opts option \<Rightarrow> jsval io" where
  "mkdir env s url opts =
     bindE (liftE (normalizeFilepath (pathname (parseDriveUrl env url)))) (\<lambda>filepath.
     auditLog_record (getURL s) ''mkdir''
       (Fields [(''url'', ArgStr (origin (parseDriveUrl env url))), (''filepath'', ArgStr filepath),
                (''opts'', ArgOpts opts)]) None
       (timer (to env opts) (mkdir_task env s (parseDriveUrl env url) filepath opts)))"

definition rmdir_task :: "env \<Rightarrow> sender \<Rightarrow> urlp \<Rightarrow> jsstring \<Rightarrow> opts \<Rightarrow> jsval io" where
  "rmdir_task env s up filepath opts =
     bindE (checkin ''searching for drive'') (\<lambda>_.
     bindE (lookupDrive env s (hostname up) (version up)) (\<lambda>l.
     if isHistoric l then throw ArchiveNotWritableError
     else
       bindE pause (\<lambda>_.
       bindE (assertWritePermission env (drive l) s) (\<lambda>_.
       bindE (liftE (assertUnprotectedFilePath env filepath s)) (\<lambda>_.
       bindE resume (\<lambda>_.
       bindE (checkin ''removing directory'') (\<lambda>_.
       pdaCall env (checkoutFS l) (PdaRmdir filepath opts))))))))"

definition rmdir :: "env \<Rightarrow> sender \<Rightarrow> jsstring \<Rightarrow> opts option \<Rightarrow> jsval io" where
  "rmdir env s url opts =
     bindE (liftE (normalizeFilepath (pathname (parseDriveUrl env url)))) (\<lambda>filepath.
     auditLog_record (getURL s) ''rmdir''
       (Fields [(''url'', ArgStr (origin (parseDriveUrl env url))), (''filepath'', ArgStr filepath),
                (''opts'', ArgOpts (Some (optsOr opts)))]) None
       (timer (to env (Some (optsOr opts)))
          (rmdir_task env s (parseDriveUrl env url) filepath (optsOr opts))))"

definition symlink_task ::
    "env \<Rightarrow> sender \<Rightarrow> urlp \<Rightarrow> jsstring \<Rightarrow> jsstring \<Rightarrow> jsval io" where
  "symlink_task env s up target linkname =
     bindE (checkin ''searching for drive'') (\<lambda>_.
     bindE (lookupDrive env s (hostname up) (version up)) (\<lambda>l.
     if isHistoric l then throw ArchiveNotWritableError
     else
       bindE pause (\<lambda>_.
       bindE (assertWritePermission env (drive l) s) (\<lambda>_.
       bindE (liftE (assertValidPath env linkname)) (\<lambda>_.
       bindE (liftE (assertUnprotectedFilePath env linkname s)) (\<lambda>_.
       bindE resume (\<lambda>_.
       bindE (checkin ''symlinking'') (\<lambda>_.
       pdaCall env (checkoutFS l) (PdaSymlink target linkname)))))))))"

definition symlink :: "env \<Rightarrow> sender \<Rightarrow> jsstring \<Rightarrow> jsstring \<Rightarrow> opts option \<Rightarrow> jsval io" where
  "symlink env s url linkname opts =
     bindE (liftE (normalizeFilepath (pathname (parseDriveUrl env url)))) (\<lambda>target.
     bindE (liftE (normalizeFilepath linkname)) (\<lambda>linkname'.
     auditLog_record (getURL s) ''symlink''
       (Fields [(''url'', ArgStr (origin (parseDriveUrl env url))), (''target'', ArgStr target),
                (''linkname'', ArgStr linkname')]) None
       (timer (to env opts) (symlink_task env s (parseDriveUrl env url) target linkname'))))"

definition mount_task ::
    "env \<Rightarrow> sender \<Rightarrow> urlp \<Rightarrow> jsstring \<Rightarrow> jsval \<Rightarrow> jsval io" where
  "mount_task env s up filepath mnt =
     bindE (checkin ''searching for drive'') (\<lambda>_.
     bindE (lookupDrive env s (hostname up) (version up)) (\<lambda>l.
     if isHistoric l then throw ArchiveNotWritableError
     else
       bindE pause (\<lambda>_.
       bindE (assertWritePermission env (drive l) s) (\<lambda>_.
       bindE (liftE (assertValidPath env filepath)) (\<lambda>_.
       bindE (liftE (assertUnprotectedFilePath env filepath s)) (\<lambda>_.
       bindE resume (\<lambda>_.
       bindE (checkin ''mounting drive'') (\<lambda>_.
       pdaCall env (checkoutFS l) (PdaMount filepath mnt)))))))))"

definition mount :: "env \<Rightarrow> sender \<Rightarrow> jsstring \<Rightarrow> jsval \<Rightarrow> opts option \<Rightarrow> jsval io" where
  "mount env s url mnt opts =
     bindE (liftE (normalizeFilepath (pathname (parseDriveUrl env url)))) (\<lambda>filepath.
     auditLog_record (getURL s) ''mount''
       (Fields [(''url'', ArgStr (origin (parseDriveUrl env url))), (''filepath'', ArgStr filepath),
                (''opts'', ArgOpts opts)]) None
       (timer (to env opts) (mount_task env s (parseDriveUrl env url) filepath mnt)))"

definition unmount_task :: "env \<Rightarrow> sender \<Rightarrow> urlp \<Rightarrow> jsstring \<Rightarrow> jsval io" where
  "unmount_task env s up filepath =
     bindE (checkin ''searching for drive'') (\<lambda>_.
     bindE (lookupDrive env s (hostname up) (version up)) (\<lambda>l.
     if isHistoric l then throw ArchiveNotWritableError
     else
       bindE pause (\<lambda>_.
       bindE (assertWritePermission env (drive l) s) (\<lambda>_.
       bindE (liftE (assertUnprotectedFilePath env filepath s)) (\<lambda>_.
       bindE resume (\<lambda>_.
       bindE (checkin ''unmounting drive'') (\<lambda>_.
       pdaCall env (checkoutFS l) (PdaUnmount filepath))))))))"

definition unmount :: "env \<Rightarrow> sender \<Rightarrow> jsstring \<Rightarrow> opts option \<Rightarrow> jsval io" where
  "unmount env s url opts =
     bindE (liftE (normalizeFilepath (pathname (parseDriveUrl env url)))) (\<lambda>filepath.
     auditLog_record (getURL s) ''unmount''
       (Fields [(''url'', ArgStr (origin (parseDriveUrl env url))), (''filepath'', ArgStr filepath),
                (''opts'', ArgOpts (Some (optsOr opts)))]) None
       (timer (to env (Some (optsOr opts))) (unmount_task env s (parseDriveUrl env url) filepath)))"

subsection \<open>query\<close>

text \<open>
  \<open>Array.prototype.sort\<close> with a comparator: the sort is stable, so it is modelled
  by insertion from the right, which keeps elements that compare equal in their
  order. \<open>Array.prototype.slice\<close> counts a negative index from the end and clamps
  both indices to the array.
\<close>

fun insertBy :: "('a \<Rightarrow> 'a \<Rightarrow> int) \<Rightarrow> 'a \<Rightarrow> 'a list \<Rightarrow> 'a list" where
  "insertBy cmp x [] = [x]"
| "insertBy cmp x (y # ys) = (if cmp x y \<le> 0 then x # y # ys else y # insertBy cmp x ys)"

definition arraySort :: "('a \<Rightarrow> 'a \<Rightarrow> int) \<Rightarrow> 'a list \<Rightarrow> 'a list" where
  "arraySort cmp xs = foldr (insertBy cmp) xs []"

definition sliceIndex :: "nat \<Rightarrow> int \<Rightarrow> nat" where
  "sliceIndex len i = (if i < 0 then nat (max (int len + i) 0) else min (nat i) len)"

definition slice :: "'a list \<Rightarrow> int \<Rightarrow> int option \<Rightarrow> 'a list" where
  "slice xs start fin =
     take ((case fin of None \<Rightarrow> length xs | Some e \<Rightarrow> sliceIndex (length xs) e)
             - sliceIndex (length xs) start)
       (drop (sliceIndex (length xs) start) xs)"

text \<open>The value of a numeric option; an absent option and 0 are both falsy.\<close>

definition num :: "int option \<Rightarrow> int" where
  "num n = (case n of None \<Rightarrow> 0 | Some k \<Rightarrow> k)"

definition nameCompare :: "env \<Rightarrow> match \<Rightarrow> match \<Rightarrow> int" where
  "nameCompare env a b =
     localeCompare env (toLowerCase env (path_basename env (path a)))
       (toLowerCase env (path_basename env (path b)))"

definition sortResults :: "env \<Rightarrow> 'a query_opts_scheme \<Rightarrow> match list \<Rightarrow> match list" where
  "sortResults env opts results =
     (if qsort opts = Some (str ''name'') then
        arraySort (\<lambda>a b. if qreverse opts then nameCompare env b a else nameCompare env a b) results
      else if qsort opts = Some (str ''mtime'') then
        arraySort (\<lambda>a b. if qreverse opts then mtime b - mtime a else mtime a - mtime b) results
      else if qsort opts = Some (str ''ctime'') then
        arraySort (\<lambda>a b. if qreverse opts then ctime b - ctime a else ctime a - ctime b) results
      else results)"

definition sliceResults :: "'a query_opts_scheme \<Rightarrow> match list \<Rightarrow> match list" where
  "sliceResults opts results =
     (if num (qoffset opts) \<noteq> 0 \<and> num (qlimit opts) \<noteq> 0 then
        slice results (num (qoffset opts)) (Some (num (qoffset opts) + num (qlimit opts)))
      else if num (qoffset opts) \<noteq> 0 then slice results (num (qoffset opts)) None
      else if num (qlimit opts) \<noteq> 0 then slice results 0 (Some (num (qlimit opts)))
      else results)"

text \<open>The URLs of \<open>opts.drive\<close>, after a single URL is boxed into an array.\<close>

definition driveList :: "drive_opt \<Rightarrow> jsstring list" where
  "driveList d = (case d of NoDrive \<Rightarrow> [] | OneDrive u \<Rightarrow> [u] | ManyDrives us \<Rightarrow> us)"

definition falsyDrive :: "drive_opt \<Rightarrow> bool" where
  "falsyDrive d = (d = NoDrive \<or> d = OneDrive [])"

fun lookupAll :: "env \<Rightarrow> sender \<Rightarrow> jsstring list \<Rightarrow> checkout list io" where
  "lookupAll env s [] = ret []"
| "lookupAll env s (u # us) =
     bindE (lookupDrive env s (hostname (parseDriveUrl env u)) (version (parseDriveUrl env u)))
       (\<lambda>l.
     bindE (lookupAll env s us) (\<lambda>cs.
     ret (checkoutFS l # cs)))"

fun emitAll :: "event list \<Rightarrow> unit io" where
  "emitAll [] = ret ()"
| "emitAll (e # es) = bindE (emit e) (\<lambda>_. emitAll es)"

text \<open>
  \<open>Promise.all(opts.drive.map(drive => query(drive, opts)))\<close>: every per-drive query
  is started, each with the whole \<open>opts\<close>; the first failure is the failure of all.
\<close>

definition queryAll :: "env \<Rightarrow> checkout list \<Rightarrow> query_opts \<Rightarrow> match list list io" where
  "queryAll env cs opts =
     bindE (emitAll (map (\<lambda>c. EvQuery c opts) cs)) (\<lambda>_.
     liftE (collect (map (\<lambda>c. filesystem_query env c opts) cs)))"

definition query_task :: "env \<Rightarrow> sender \<Rightarrow> query_opts \<Rightarrow> match list io" where
  "query_task env s opts =
     bindE (checkin ''looking up drives'') (\<lambda>_.
     bindE (lookupAll env s (driveList (qdrive opts))) (\<lambda>cs.
     bindE (checkin ''running query'') (\<lambda>_.
     bindE (queryAll env cs opts) (\<lambda>queriesResults.
     if length (driveList (qdrive opts)) > 1 then
       ret (sliceResults opts (sortResults env opts (concat queriesResults)))
     else ret (concat queriesResults)))))"

text \<open>\<open>query\<close>: \<open>None\<close> is a call without an options object.\<close>

definition query :: "env \<Rightarrow> sender \<Rightarrow> query_opts option \<Rightarrow> match list io" where
  "query env s opts =
     (case opts of
        None \<Rightarrow> throw TypeError
      | Some x \<Rightarrow>
          if falsyDrive (qdrive x) then ret []
          else
            auditLog_record (getURL s) ''query'' (QueryOpts x) None
              (timer (to env (Some x)) (query_task env s x)))"

subsection \<open>The operations outside the recorder\<close>

definition watch :: "env \<Rightarrow> sender \<Rightarrow> jsstring \<Rightarrow> jsval \<Rightarrow> jsval io" where
  "watch env s url pathPattern =
     bindE (lookupDrive env s url None) (\<lambda>l.
     pdaCall env (Live (drive l)) (PdaWatch pathPattern))"

definition createNetworkActivityStream :: "env \<Rightarrow> sender \<Rightarrow> jsstring \<Rightarrow> jsval io" where
  "createNetworkActivityStream env s url =
     bindE (lookupDrive env s url None) (\<lambda>l.
     pdaCall env (Live (drive l)) PdaCreateNetworkActivityStream)"

text \<open>
  The bulk operations call functions of the pauls-dat-api2 module itself, to which
  they pass their remaining options as they are; the model keeps the checkouts they
  are called on. \<open>Promise.all\<close> of two lookups starts both.
\<close>

definition both :: "'a io \<Rightarrow> 'b io \<Rightarrow> ('a \<times> 'b) io" where
  "both m1 m2 =
     (\<lambda>w. case m1 w of
        (r1, w1) \<Rightarrow>
          (case m2 w1 of
             (r2, w2) \<Rightarrow>
               ((case r1 of
                   Inl e \<Rightarrow> Inl e
                 | Inr x \<Rightarrow> (case r2 of Inl e \<Rightarrow> Inl e | Inr y \<Rightarrow> Inr (x, y))), w2)))"

definition pdaModule :: "env \<Rightarrow> string \<Rightarrow> checkout list \<Rightarrow> jsval io" where
  "pdaModule env name cs = bindE (emit (EvPdaModule name cs)) (\<lambda>_. liftE (pda_module env name cs))"

definition beakerDiff ::
    "env \<Rightarrow> sender \<Rightarrow> jsstring option \<Rightarrow> jsstring option \<Rightarrow> jsval io" where
  "beakerDiff env s srcUrl dstUrl =
     bindE (liftE (assertBeakerOnly s)) (\<lambda>_.
     (case srcUrl of
        None \<Rightarrow> throw InvalidURLError
      | Some su \<Rightarrow>
          if su = [] then throw InvalidURLError
          else
            (case dstUrl of
               None \<Rightarrow> throw InvalidURLError
             | Some du \<Rightarrow>
                 if du = [] then throw InvalidURLError
                 else
                   bindE (both (lookupDrive env s su None) (lookupDrive env s du None))
                     (\<lambda>(src, dst).
                   pdaModule env ''diff'' [checkoutFS src, checkoutFS dst]))))"

definition beakerMerge ::
    "env \<Rightarrow> sender \<Rightarrow> jsstring option \<Rightarrow> jsstring option \<Rightarrow> jsval io" where
  "beakerMerge env s srcUrl dstUrl =
     bindE (liftE (assertBeakerOnly s)) (\<lambda>_.
     (case srcUrl of
        None \<Rightarrow> throw InvalidURLError
      | Some su \<Rightarrow>
          if su = [] then throw InvalidURLError
          else
            (case dstUrl of
               None \<Rightarrow> throw InvalidURLError
             | Some du \<Rightarrow>
                 if du = [] then throw InvalidURLError
                 else
                   bindE (both (lookupDrive env s su None) (lookupDrive env s du None))
                     (\<lambda>(src, dst).
                   if \<not> writable (drive dst) then throw ArchiveNotWritableError
                   else if isHistoric dst then throw ArchiveNotWritableError
                   else pdaModule env ''merge'' [checkoutFS src, checkoutFS dst]))))"

definition importFromFilesystem :: "env \<Rightarrow> sender \<Rightarrow> jsstring \<Rightarrow> jsval io" where
  "importFromFilesystem env s dst =
     bindE (liftE (assertBeakerOnly s)) (\<lambda>_.
     bindE (lookupDrive env s dst None) (\<lambda>l.
     if isHistoric l then throw ArchiveNotWritableError
     else pdaModule env ''exportFilesystemToArchive'' [checkoutFS l]))"

definition exportToFilesystem :: "env \<Rightarrow> sender \<Rightarrow> jsstring \<Rightarrow> jsval io" where
  "exportToFilesystem env s src =
     bindE (liftE (assertBeakerOnly s)) (\<lambda>_.
     bindE (lookupDrive env s src None) (\<lambda>l.
     pdaModule env ''exportArchiveToFilesystem'' [checkoutFS l]))"

definition exportToDrive :: "env \<Rightarrow> sender \<Rightarrow> jsstring \<Rightarrow> jsstring \<Rightarrow> jsval io" where
  "exportToDrive env s src dst =
     bindE (liftE (assertBeakerOnly s)) (\<lambda>_.
     bindE (lookupDrive env s src None) (\<lambda>ls.
     bindE (lookupDrive env s dst None) (\<lambda>ld.
     if isHistoric ld then throw ArchiveNotWritableError
     else pdaModule env ''exportArchiveToArchive'' [checkoutFS ls, checkoutFS ld])))"

subsection \<open>An environment for the examples\<close>

text \<open>
  The theorems below hold for every environment. Where a theorem is applied to
  concrete arguments, the environment is this one: two drives, \<open>alice\<close> and \<open>bob\<close>,
  URLs of the form \<open>hyper://host+version/path\<close>, file primitives that succeed, a user
  who rejects every prompt, and a query engine that orders and paginates the
  entries of a drive.
\<close>

definition exampleParse :: "jsstring \<Rightarrow> urlp" where
  "exampleParse u =
     \<lparr>protocol = str ''hyper:'',
      host = takeWhile (\<lambda>c. c \<noteq> 43) (takeWhile (\<lambda>c. c \<noteq> 47)
               (if startsWith u (str ''hyper://'') then drop 8 u else u)),
      hostname = takeWhile (\<lambda>c. c \<noteq> 43) (takeWhile (\<lambda>c. c \<noteq> 47)
               (if startsWith u (str ''hyper://'') then drop 8 u else u)),
      pathname = dropWhile (\<lambda>c. c \<noteq> 47)
               (if startsWith u (str ''hyper://'') then drop 8 u else u),
      origin = str ''hyper://'' @ takeWhile (\<lambda>c. c \<noteq> 43) (takeWhile (\<lambda>c. c \<noteq> 47)
               (if startsWith u (str ''hyper://'') then drop 8 u else u)) @ str ''/'',
      version =
        (case dropWhile (\<lambda>c. c \<noteq> 43) (takeWhile (\<lambda>c. c \<noteq> 47)
                 (if startsWith u (str ''hyper://'') then drop 8 u else u)) of
           [] \<Rightarrow> None
         | _ # v \<Rightarrow> Some v)\<rparr>"

definition exampleOrigin :: "jsstring \<Rightarrow> jsstring" where
  "exampleOrigin u =
     takeWhile (\<lambda>c. c \<noteq> 58) u @ str ''://''
       @ takeWhile (\<lambda>c. c \<noteq> 47) (drop (length (takeWhile (\<lambda>c. c \<noteq> 58) u) + 3) u)"

definition keyA :: jsstring where
  "keyA = replicate 64 97"

definition keyB :: jsstring where
  "keyB = replicate 64 98"

definition driveA :: drive where
  "driveA = \<lparr>key = keyA, writable = True\<rparr>"

definition driveB :: drive where
  "driveB = \<lparr>key = keyB, writable = True\<rparr>"

definition exampleDrive :: "jsstring \<Rightarrow> drive option" where
  "exampleDrive k =
     (if hostname (exampleParse k) = str ''alice'' then Some driveA
      else if hostname (exampleParse k) = str ''bob'' then Some driveB
      else None)"

definition exampleResolve :: "jsstring \<Rightarrow> error + jsstring" where
  "exampleResolve h =
     (if h = str ''alice'' then Inr keyA
      else if h = str ''bob'' then Inr keyB
      else Inl InvalidURLError)"

definition exampleHashRegex :: "jsstring \<Rightarrow> bool" where
  "exampleHashRegex k = (length k = 64 \<and> list_all (\<lambda>c. hexDigit c \<noteq> None) k)"

definition examplePathChar :: "jschar \<Rightarrow> bool" where
  "examplePathChar c =
     ((97 \<le> c \<and> c \<le> 122) \<or> (65 \<le> c \<and> c \<le> 90) \<or> (48 \<le> c \<and> c \<le> 57)
      \<or> c \<in> set (str ''-._~!$&()*+,;=:@/ ''))"

definition examplePathRegex :: "jsstring \<Rightarrow> bool" where
  "examplePathRegex p = (p \<noteq> [] \<and> list_all examplePathChar p)"

text \<open>\<open>path.basename\<close> (posix), ASCII lower case, and comparison by code units.\<close>

definition exampleBasename :: "jsstring \<Rightarrow> jsstring" where
  "exampleBasename p =
     rev (takeWhile (\<lambda>c. c \<noteq> 47) (dropWhile (\<lambda>c. c = 47) (rev p)))"

definition exampleLower :: "jsstring \<Rightarrow> jsstring" where
  "exampleLower p = map (\<lambda>c. if 65 \<le> c \<and> c \<le> 90 then c + 32 else c) p"

fun exampleCompare :: "jsstring \<Rightarrow> jsstring \<Rightarrow> int" where
  "exampleCompare [] [] = 0"
| "exampleCompare [] (y # ys) = - 1"
| "exampleCompare (x # xs) [] = 1"
| "exampleCompare (x # xs) (y # ys) =
     (if x < y then - 1 else if y < x then 1 else exampleCompare xs ys)"

text \<open>The entries of the two example drives.\<close>

definition exampleFiles :: "checkout \<Rightarrow> match list" where
  "exampleFiles c =
     (if c = Live driveA then
        [\<lparr>path = str ''/a.txt'', mtime = 1, ctime = 1\<rparr>,
         \<lparr>path = str ''/c.txt'', mtime = 3, ctime = 3\<rparr>]
      else if c = Live driveB then
        [\<lparr>path = str ''/b.txt'', mtime = 2, ctime = 2\<rparr>,
         \<lparr>path = str ''/d.txt'', mtime = 4, ctime = 4\<rparr>]
      else [])"

definition exampleEnv0 :: env where
  "exampleEnv0 =
     \<lparr>parseDriveUrl = exampleParse,
      urlPathname = (\<lambda>u. Inr (pathname (exampleParse u))),
      byteLength = (\<lambda>d e. int (length d)),
      jsonByteLength = (\<lambda>obj. 2),
      path_basename = exampleBasename,
      toLowerCase = exampleLower,
      localeCompare = exampleCompare,
      DRIVE_MANIFEST_FILENAME = str ''index.json'',
      DRIVE_CONFIGURABLE_FIELDS = [str ''title'', str ''description''],
      HYPERDRIVE_HASH_REGEX = exampleHashRegex,
      DAT_QUOTA_DEFAULT_BYTES_ALLOWED = 524288000,
      DRIVE_VALID_PATH_REGEX = examplePathRegex,
      DEFAULT_DRIVE_API_TIMEOUT = 60000,
      archivesDb_extractOrigin = exampleOrigin,
      hyperDns_resolveName = exampleResolve,
      drives_getDrive = exampleDrive,
      drives_loadDrive = (\<lambda>k. Inl (CollaboratorError 404)),
      drives_getOrLoadDrive =
        (\<lambda>k. case exampleDrive k of None \<Rightarrow> Inl (CollaboratorError 404) | Some d \<Rightarrow> Inr d),
      drives_getDriveInfo = (\<lambda>k. Inr [(str ''title'', Str (str ''Notes''))]),
      drives_pullLatestDriveMeta = (\<lambda>d. Inr ()),
      pda_readSize = (\<lambda>d p. Inr 5),
      pda = (\<lambda>c call. Inr Undefined),
      pda_module = (\<lambda>name cs. Inr Undefined),
      filesystem_query = (\<lambda>c opts. Inr []),
      filesystem_getDriveConfig = (\<lambda>k. True),
      filesystem_configDrive = (\<lambda>k opts. Inr ()),
      modals_create = (\<lambda>s kind flds. Inr None),
      drivesAPI_getForks = (\<lambda>u. Inr (Arr [])),
      drives_createNewDrive = (\<lambda>manifest. Inr (str ''hyper://carol/'')),
      drives_forkDrive = (\<lambda>k opts. Inr (str ''hyper://carol/'')),
      userAnswer = (\<lambda>perm s. Reject)\<rparr>"

text \<open>
  Modelled from the spec: the query engine (filesystem/query) is not in this file.
  It returns a "sequence of match records {path, stat}", and "the underlying engine
  already orders and paginates": the entries of the checkout, ordered by the
  requested key and cut by \<open>offset\<close> and \<open>limit\<close>.
\<close>

definition exampleQuery :: "checkout \<Rightarrow> query_opts \<Rightarrow> error + match list" where
  "exampleQuery c opts = Inr (sliceResults opts (sortResults exampleEnv0 opts (exampleFiles c)))"

definition exampleEnv :: env where
  "exampleEnv = exampleEnv0\<lparr>filesystem_query := exampleQuery\<rparr>"

text \<open>
  The example environment with a drive-information service that fails for every
  key.
\<close>

definition infoUnavailable :: env where
  "infoUnavailable = exampleEnv\<lparr>drives_getDriveInfo := \<lambda>k. Inl (CollaboratorError 503)\<rparr>"

definition exampleWorld :: world where
  "exampleWorld = \<lparr>auditLog = [], grants = [], metaSize = (\<lambda>k. 0), trace = []\<rparr>"

text \<open>A world in which every drive is ten bytes short of the default allowance.\<close>

definition tenBytesLeft :: world where
  "tenBytesLeft = exampleWorld\<lparr>metaSize := \<lambda>k. 524287990\<rparr>"

text \<open>A world in which the web page holds a grant to modify the drive \<open>alice\<close>.\<close>

definition grantedA :: world where
  "grantedA = exampleWorld\<lparr>grants := [((str ''https://example.com'', str ''modifyDrive:'' @ keyA), True)]\<rparr>"

text \<open>Query options: the second page of size one, ordered by name.\<close>

definition secondByName :: query_opts where
  "secondByName =
     \<lparr>timeout = None, encoding = None, includeStats = False, qdrive = NoDrive,
      qsort = Some (str ''name''), qreverse = False, qoffset = Some 1, qlimit = Some 1,
      qfilter = Undefined\<rparr>"

text \<open>A world in which the web page holds a grant to modify the drive \<open>bob\<close>.\<close>

definition grantedB :: world where
  "grantedB = exampleWorld\<lparr>grants := [((str ''https://example.com'', str ''modifyDrive:'' @ keyB), True)]\<rparr>"

text \<open>The second page of size one by name, asked of both drives.\<close>

definition twoDrives :: query_opts where
  "twoDrives = secondByName\<lparr>qdrive := ManyDrives [str ''hyper://alice/'', str ''hyper://bob/'']\<rparr>"

text \<open>Senders: a web page, a page served from a drive, and two privileged pages.\<close>

definition webSender :: sender where
  "webSender = \<lparr>getURL = str ''https://example.com/app''\<rparr>"

definition bobSender :: sender where
  "bobSender = \<lparr>getURL = str ''hyper://bob/index.html''\<rparr>"

definition beakerSender :: sender where
  "beakerSender = \<lparr>getURL = str ''beaker://library/''\<rparr>"

definition networkSender :: sender where
  "networkSender = \<lparr>getURL = str ''https://hyperdrive.network/''\<rparr>"

subsection \<open>A sequence of writes\<close>

text \<open>
  Modelled from the spec: the accounting of a drive's size is not in this file. "A
  drive at size S with allowance A, a write of size B": an accepted write of B
  bytes grows the accounted size of the drive by B. \<open>writeSequence\<close> puts one write
  after the other to the quota check, each against the size the accepted writes
  before it have left.
\<close>

definition accountWrite :: "drive \<Rightarrow> int \<Rightarrow> world \<Rightarrow> world" where
  "accountWrite d B w = w\<lparr>metaSize := (metaSize w)(key d := metaSize w (key d) + B)\<rparr>"

fun writeSequence :: "env \<Rightarrow> drive \<Rightarrow> jsstring \<Rightarrow> int list \<Rightarrow> world \<Rightarrow> (error + unit) list" where
  "writeSequence env d senderOrigin [] w = []"
| "writeSequence env d senderOrigin (B # Bs) w =
     (case assertQuotaPermission env d senderOrigin B w of
        (Inl e, w') \<Rightarrow> Inl e # writeSequence env d senderOrigin Bs w'
      | (Inr u, w') \<Rightarrow> Inr u # writeSequence env d senderOrigin Bs (accountWrite d B w'))"

subsection \<open>Notions used in the statements\<close>

text \<open>
  A drive resolves when \<open>lookupDrive\<close> finds it loaded or loads it; these are the calls
  \<open>lookupDrive\<close> makes then.
\<close>

definition resolves :: "env \<Rightarrow> jsstring \<Rightarrow> drive \<Rightarrow> bool" where
  "resolves env k d =
     (drives_getDrive env k = Some d
      \<or> drives_getDrive env k = None \<and> drives_loadDrive env k = Inr d)"

definition resolveEvents :: "env \<Rightarrow> jsstring \<Rightarrow> drive \<Rightarrow> jsstring option \<Rightarrow> event list" where
  "resolveEvents env k d v =
     [EvGetDrive k] @ (if drives_getDrive env k = None then [EvLoadDrive k] else [])
       @ [EvGetDriveCheckout d v]"

text \<open>
  A step makes no call to a file primitive (\<open>noPda\<close>); a step fails and makes no
  call to a file primitive (\<open>blocked\<close>).
\<close>

definition noPda :: "'a io \<Rightarrow> bool" where
  "noPda m = (\<forall>w. \<exists>es. trace (snd (m w)) = trace w @ es \<and> (\<forall>c call. EvPda c call \<notin> set es))"

definition blocked :: "'a io \<Rightarrow> bool" where
  "blocked m =
     (\<forall>w. (\<exists>e. fst (m w) = Inl e)
        \<and> (\<exists>es. trace (snd (m w)) = trace w @ es \<and> (\<forall>c call. EvPda c call \<notin> set es)))"

subsection \<open>The gateway as a whole\<close>

text \<open>An invocation of one of the exported operations, and its result.\<close>

datatype call =
    CreateDrive jsval jsval jsval jsval jsval
  | ForkDrive jsstring jsval jsval jsval jsval jsval
  | LoadDrive "jsstring option"
  | GetInfo jsstring "opts option"
  | Configure jsstring "(jsstring \<times> jsval) list option" "opts option"
  | Diff jsstring jsval "opts option"
  | Stat jsstring "opts option"
  | ReadFile jsstring "opts option"
  | WriteFile jsstring jsstring "opts option"
  | Unlink jsstring "opts option"
  | Copy jsstring jsstring "opts option"
  | Rename jsstring jsstring "opts option"
  | UpdateMetadata jsstring jsval "opts option"
  | DeleteMetadata jsstring jsval "opts option"
  | Readdir jsstring "opts option"
  | Mkdir jsstring "opts option"
  | Rmdir jsstring "opts option"
  | Symlink jsstring jsstring "opts option"
  | Mount jsstring jsval "opts option"
  | Unmount jsstring "opts option"
  | Query "query_opts option"
  | Watch jsstring jsval
  | CreateNetworkActivityStream jsstring
  | BeakerDiff "jsstring option" "jsstring option"
  | BeakerMerge "jsstring option" "jsstring option"
  | ImportFromFilesystem jsstring
  | ExportToFilesystem jsstring
  | ExportToDrive jsstring jsstring

datatype retval = Val jsval | Matches "match list"

definition val :: "jsval io \<Rightarrow> retval io" where
  "val m = bindE m (\<lambda>v. ret (Val v))"

primrec invoke :: "env \<Rightarrow> sender \<Rightarrow> call \<Rightarrow> retval io" where
  "invoke env s (CreateDrive title description author visibility prompt) =
     val (createDrive env s title description author visibility prompt)"
| "invoke env s (ForkDrive url detached title description label prompt) =
     val (forkDrive env s url detached title description label prompt)"
| "invoke env s (LoadDrive url) = val (loadDrive env s url)"
| "invoke env s (GetInfo url opts) = val (getInfo env s url opts)"
| "invoke env s (Configure url settings opts) = val (configure env s url settings opts)"
| "invoke env s (Diff url other opts) = val (diff env s url other opts)"
| "invoke env s (Stat url opts) = val (stat env s url opts)"
| "invoke env s (ReadFile url opts) = val (readFile env s url opts)"
| "invoke env s (WriteFile url data opts) = val (writeFile env s url data opts)"
| "invoke env s (Unlink url opts) = val (unlink env s url opts)"
| "invoke env s (Copy url dstpath opts) = val (copy env s url dstpath opts)"
| "invoke env s (Rename url dstpath opts) = val (rename env s url dstpath opts)"
| "invoke env s (UpdateMetadata url metadata opts) = val (updateMetadata env s url metadata opts)"
| "invoke env s (DeleteMetadata url keys opts) = val (deleteMetadata env s url keys opts)"
| "invoke env s (Readdir url opts) = val (readdir env s url opts)"
| "invoke env s (Mkdir url opts) = val (mkdir env s url opts)"
| "invoke env s (Rmdir url opts) = val (rmdir env s url opts)"
| "invoke env s (Symlink url linkname opts) = val (symlink env s url linkname opts)"
| "invoke env s (Mount url mnt opts) = val (mount env s url mnt opts)"
| "invoke env s (Unmount url opts) = val (unmount env s url opts)"
| "invoke env s (Query opts) = bindE (query env s opts) (\<lambda>ms. ret (Matches ms))"
| "invoke env s (Watch url pathPattern) = val (watch env s url pathPattern)"
| "invoke env s (CreateNetworkActivityStream url) = val (createNetworkActivityStream env s url)"
| "invoke env s (BeakerDiff srcUrl dstUrl) = val (beakerDiff env s srcUrl dstUrl)"
| "invoke env s (BeakerMerge srcUrl dstUrl) = val (beakerMerge env s srcUrl dstUrl)"
| "invoke env s (ImportFromFilesystem dst) = val (importFromFilesystem env s dst)"
| "invoke env s (ExportToFilesystem src) = val (exportToFilesystem env s src)"
| "invoke env s (ExportToDrive src dst) = val (exportToDrive env s src dst)"

text \<open>
  An invocation enters the recorder when the operation is written inside
  \<open>auditLog.record\<close> and everything the operation does before it succeeds: the paths
  normalize, for \<open>copy\<close> the source is found and its size read, and \<open>query\<close> has a
  truthy \<open>drive\<close> option.
\<close>

definition normalizes :: "jsstring \<Rightarrow> bool" where
  "normalizes p = (case normalizeFilepath p of Inl e \<Rightarrow> False | Inr r \<Rightarrow> True)"

definition copySourceRead :: "env \<Rightarrow> sender \<Rightarrow> jsstring \<Rightarrow> world \<Rightarrow> bool" where
  "copySourceRead env s url w =
     (case normalizeFilepath (pathname (parseDriveUrl env url)) of
        Inl e \<Rightarrow> False
      | Inr srcpath \<Rightarrow>
          (case fst (bindE (lookupDrive env s (hostname (parseDriveUrl env url))
                              (version (parseDriveUrl env url)))
                       (\<lambda>src. readSize env (drive src) srcpath) w) of
             Inl e \<Rightarrow> False
           | Inr n \<Rightarrow> True))"

primrec entersRecorder :: "env \<Rightarrow> sender \<Rightarrow> world \<Rightarrow> call \<Rightarrow> bool" where
  "entersRecorder env s w (CreateDrive title description author visibility prompt) = False"
| "entersRecorder env s w (ForkDrive url detached title description label prompt) = False"
| "entersRecorder env s w (LoadDrive url) = False"
| "entersRecorder env s w (GetInfo url opts) = True"
| "entersRecorder env s w (Configure url settings opts) = True"
| "entersRecorder env s w (Diff url other opts) = True"
| "entersRecorder env s w (Stat url opts) = normalizes (pathname (parseDriveUrl env url))"
| "entersRecorder env s w (ReadFile url opts) = normalizes (pathname (parseDriveUrl env url))"
| "entersRecorder env s w (WriteFile url data opts) = normalizes (pathname (parseDriveUrl env url))"
| "entersRecorder env s w (Unlink url opts) = normalizes (pathname (parseDriveUrl env url))"
| "entersRecorder env s w (Copy url dstpath opts) =
     (normalizes (pathname (parseDriveUrl env url)) \<and> normalizes dstpath
      \<and> copySourceRead env s url w)"
| "entersRecorder env s w (Rename url dstpath opts) =
     (normalizes (pathname (parseDriveUrl env url)) \<and> normalizes dstpath)"
| "entersRecorder env s w (UpdateMetadata url metadata opts) =
     normalizes (pathname (parseDriveUrl env url))"
| "entersRecorder env s w (DeleteMetadata url keys opts) =
     normalizes (pathname (parseDriveUrl env url))"
| "entersRecorder env s w (Readdir url opts) = normalizes (pathname (parseDriveUrl env url))"
| "entersRecorder env s w (Mkdir url opts) = normalizes (pathname (parseDriveUrl env url))"
| "entersRecorder env s w (Rmdir url opts) = normalizes (pathname (parseDriveUrl env url))"
| "entersRecorder env s w (Symlink url linkname opts) =
     (normalizes (pathname (parseDriveUrl env url)) \<and> normalizes linkname)"
| "entersRecorder env s w (Mount url mnt opts) = normalizes (pathname (parseDriveUrl env url))"
| "entersRecorder env s w (Unmount url opts) = normalizes (pathname (parseDriveUrl env url))"
| "entersRecorder env s w (Query opts) =
     (case opts of None \<Rightarrow> False | Some x \<Rightarrow> \<not> falsyDrive (qdrive x))"
| "entersRecorder env s w (Watch url pathPattern) = False"
| "entersRecorder env s w (CreateNetworkActivityStream url) = False"
| "entersRecorder env s w (BeakerDiff srcUrl dstUrl) = False"
| "entersRecorder env s w (BeakerMerge srcUrl dstUrl) = False"
| "entersRecorder env s w (ImportFromFilesystem dst) = False"
| "entersRecorder env s w (ExportToFilesystem src) = False"
| "entersRecorder env s w (ExportToDrive src dst) = False"

text \<open>The name under which an operation is recorded.\<close>

primrec callName :: "call \<Rightarrow> string" where
  "callName (CreateDrive title description author visibility prompt) = ''createDrive''"
| "callName (ForkDrive url detached title description label prompt) = ''forkDrive''"
| "callName (LoadDrive url) = ''loadDrive''"
| "callName (GetInfo url opts) = ''getInfo''"
| "callName (Configure url settings opts) = ''configure''"
| "callName (Diff url other opts) = ''diff''"
| "callName (Stat url opts) = ''stat''"
| "callName (ReadFile url opts) = ''readFile''"
| "callName (WriteFile url data opts) = ''writeFile''"
| "callName (Unlink url opts) = ''unlink''"
| "callName (Copy url dstpath opts) = ''copy''"
| "callName (Rename url dstpath opts) = ''rename''"
| "callName (UpdateMetadata url metadata opts) = ''updateMetadata''"
| "callName (DeleteMetadata url keys opts) = ''deleteMetadata''"
| "callName (Readdir url opts) = ''readdir''"
| "callName (Mkdir url opts) = ''mkdir''"
| "callName (Rmdir url opts) = ''rmdir''"
| "callName (Symlink url linkname opts) = ''symlink''"
| "callName (Mount url mnt opts) = ''mount''"
| "callName (Unmount url opts) = ''unmount''"
| "callName (Query opts) = ''query''"
| "callName (Watch url pathPattern) = ''watch''"
| "callName (CreateNetworkActivityStream url) = ''createNetworkActivityStream''"
| "callName (BeakerDiff srcUrl dstUrl) = ''beakerDiff''"
| "callName (BeakerMerge srcUrl dstUrl) = ''beakerMerge''"
| "callName (ImportFromFilesystem dst) = ''importFromFilesystem''"
| "callName (ExportToFilesystem src) = ''exportToFilesystem''"
| "callName (ExportToDrive src dst) = ''exportToDrive''"

text \<open>A step that leaves the audit log as it is.\<close>

definition keepsAudit :: "'a io \<Rightarrow> bool" where
  "keepsAudit m = (\<forall>w. auditLog (snd (m w)) = auditLog w)"

section \<open>Properties\<close>

subsection \<open>Path normalization\<close>

lemma decode_no_percent: "37 \<notin> set s \<Longrightarrow> decodeURIComponent s = Inr s"
  by (induction s) auto

lemma decode_error: "decodeURIComponent s = Inl e \<Longrightarrow> e = URIError"
  by (induction s arbitrary: e rule: decodeURIComponent.induct)
     (auto split: if_splits sum.splits option.splits prod.splits)

text \<open>
  C9 (as amended). \<open>normalizeFilepath\<close> is a function of its input that fails, with
  \<open>URIError\<close>, exactly when \<open>decodeURIComponent\<close> does, and never on an input
  without \<open>%\<close>. Otherwise it returns the decoded string, prefixed with \<open>/\<close> unless
  the decoded string contains \<open>://\<close> or already starts with \<open>/\<close>. So every result
  that does not contain \<open>://\<close> begins with \<open>/\<close>, and so does the result for every
  input that contains neither \<open>%\<close> nor \<open>://\<close>.
\<close>

theorem normalizeFilepath_decodes_and_prefixes:
  "normalizeFilepath s =
     (case decodeURIComponent s of
        Inl e \<Rightarrow> Inl URIError
      | Inr d \<Rightarrow> Inr (if includesStr d (str ''://'') \<or> startsWith d (str ''/'') then d
                    else str ''/'' @ d))
   \<and> (37 \<notin> set s \<longrightarrow> decodeURIComponent s = Inr s)
   \<and> (\<forall>r. normalizeFilepath s = Inr r \<and> \<not> includesStr r (str ''://'')
          \<longrightarrow> startsWith r (str ''/''))
   \<and> (37 \<notin> set s \<and> \<not> includesStr s (str ''://'')
          \<longrightarrow> (\<exists>r. normalizeFilepath s = Inr r \<and> startsWith r (str ''/'')))"
proof (intro conjI allI impI)
  show "normalizeFilepath s =
     (case decodeURIComponent s of
        Inl e \<Rightarrow> Inl URIError
      | Inr d \<Rightarrow> Inr (if includesStr d (str ''://'') \<or> startsWith d (str ''/'') then d
                    else str ''/'' @ d))"
    by (auto simp: normalizeFilepath_def split: sum.splits dest: decode_error)
next
  assume "37 \<notin> set s"
  then show "decodeURIComponent s = Inr s" by (rule decode_no_percent)
next
  fix r
  assume a: "normalizeFilepath s = Inr r \<and> \<not> includesStr r (str ''://'')"
  show "startsWith r (str ''/'')"
  proof (cases "decodeURIComponent s")
    case (Inl e)
    with a show ?thesis by (simp add: normalizeFilepath_def)
  next
    case (Inr d)
    with a show ?thesis
      by (auto simp: normalizeFilepath_def startsWith_def str_def split: if_splits)
  qed
next
  assume a: "37 \<notin> set s \<and> \<not> includesStr s (str ''://'')"
  then have "decodeURIComponent s = Inr s" by (simp add: decode_no_percent)
  with a show "\<exists>r. normalizeFilepath s = Inr r \<and> startsWith r (str ''/'')"
    by (auto simp: normalizeFilepath_def startsWith_def str_def)
qed

theorem normalizeFilepath_decodes_and_prefixes_witness:
  "normalizeFilepath (str ''a%20b'') = Inr (str ''/a b'')
   \<and> decodeURIComponent (str ''notes.txt'') = Inr (str ''notes.txt'')
   \<and> startsWith (str ''/a b'') (str ''/'')
   \<and> (\<exists>r. normalizeFilepath (str ''notes.txt'') = Inr r \<and> startsWith r (str ''/''))"
proof -
  have d: "decodeURIComponent (str ''a%20b'') = Inr (str ''a b'')" by code_simp
  have n: "normalizeFilepath (str ''a%20b'') = Inr (str ''/a b'')"
    using normalizeFilepath_decodes_and_prefixes [of "str ''a%20b''"] unfolding d
    by (simp add: str_def startsWith_def)
  have p: "37 \<notin> set (str ''notes.txt'')" by (simp add: str_def)
  have i: "\<not> includesStr (str ''/a b'') (str ''://'')" by (simp add: str_def startsWith_def)
  have j: "\<not> includesStr (str ''notes.txt'') (str ''://'')" by (simp add: str_def startsWith_def)
  from normalizeFilepath_decodes_and_prefixes [of "str ''notes.txt''"] p
  have "decodeURIComponent (str ''notes.txt'') = Inr (str ''notes.txt'')" by blast
  moreover from normalizeFilepath_decodes_and_prefixes [of "str ''a%20b''"] n i
  have "startsWith (str ''/a b'') (str ''/'')" by blast
  moreover from normalizeFilepath_decodes_and_prefixes [of "str ''notes.txt''"] p j
  have "\<exists>r. normalizeFilepath (str ''notes.txt'') = Inr r \<and> startsWith r (str ''/'')" by blast
  ultimately show ?thesis using n by simp
qed

text \<open>
  C9 as stated fails twice: \<open>%\<close> alone is not decodable, and an input without
  \<open>://\<close> can decode to a string with \<open>://\<close>, which gets no \<open>/\<close> in front.
\<close>

theorem normalizeFilepath_counterexample:
  "normalizeFilepath (str ''%'') = Inl URIError
   \<and> \<not> includesStr (str ''a%3A%2F%2Fb'') (str ''://'')
   \<and> normalizeFilepath (str ''a%3A%2F%2Fb'') = Inr (str ''a://b'')"
  by code_simp

subsection \<open>Write permission\<close>

lemmas io_defs = bindE_def ret_def throw_def liftE_def emit_def checkin_def pause_def resume_def

lemma lookupUrlDriveKey_total:
  "\<exists>k es. lookupUrlDriveKey env u w = (Inr k, w\<lparr>trace := trace w @ es\<rparr>)"
proof (cases "HYPERDRIVE_HASH_REGEX env u \<or> \<not> startsWith u (str ''hyper://'')")
  case True
  then have "lookupUrlDriveKey env u w = (Inr (if HYPERDRIVE_HASH_REGEX env u then Some u else None), w\<lparr>trace := trace w @ []\<rparr>)"
    by (auto simp: lookupUrlDriveKey_def io_defs)
  then show ?thesis by blast
next
  case False
  then show ?thesis by (auto simp: lookupUrlDriveKey_def io_defs)
qed

text \<open>
  \<open>assertWritePermission\<close> first awaits the information of the drive. When that
  fails, its error is the result for every sender. When it returns, the function
  decides in this order, the first match winning. A privileged sender is allowed.
  Otherwise a sender whose own URL resolves to the key of the drive is allowed,
  whatever the grants are. Otherwise a true grant for the sender's origin and
  \<open>modifyDrive:key\<close> allows, and no prompt is issued. Otherwise the user is asked:
  approval allows and stores a new grant, rejection or dismissal fails with
  \<open>UserDeniedError\<close> and stores nothing. The world each case leaves shows which
  collaborators were reached.
\<close>

theorem assertWritePermission_order:
  "(drives_getDriveInfo env (key d) = Inl e \<longrightarrow>
      assertWritePermission env d s w = (Inl e, w\<lparr>trace := trace w @ [EvGetDriveInfo (key d)]\<rparr>))
   \<and> (drives_getDriveInfo env (key d) = Inr details \<and> isSenderBeaker s \<longrightarrow>
      assertWritePermission env d s w = (Inr True, w\<lparr>trace := trace w @ [EvGetDriveInfo (key d)]\<rparr>))
   \<and> (drives_getDriveInfo env (key d) = Inr details \<and> \<not> isSenderBeaker s
        \<and> lookupUrlDriveKey env (getURL s) (w\<lparr>trace := trace w @ [EvGetDriveInfo (key d)]\<rparr>)
            = (Inr (Some (key d)), w2) \<longrightarrow>
      assertWritePermission env d s w = (Inr True, w2))
   \<and> (drives_getDriveInfo env (key d) = Inr details \<and> \<not> isSenderBeaker s
        \<and> lookupUrlDriveKey env (getURL s) (w\<lparr>trace := trace w @ [EvGetDriveInfo (key d)]\<rparr>)
            = (Inr k, w2)
        \<and> k \<noteq> Some (key d)
        \<and> map_of (grants w) (archivesDb_extractOrigin env (getURL s), str ''modifyDrive:'' @ key d)
            = Some True \<longrightarrow>
      assertWritePermission env d s w =
        (Inr True, w2\<lparr>trace := trace w2 @ [EvQueryPermission (str ''modifyDrive:'' @ key d) s]\<rparr>))
   \<and> (drives_getDriveInfo env (key d) = Inr details \<and> \<not> isSenderBeaker s
        \<and> lookupUrlDriveKey env (getURL s) (w\<lparr>trace := trace w @ [EvGetDriveInfo (key d)]\<rparr>)
            = (Inr k, w2)
        \<and> k \<noteq> Some (key d)
        \<and> map_of (grants w) (archivesDb_extractOrigin env (getURL s), str ''modifyDrive:'' @ key d)
            \<noteq> Some True \<longrightarrow>
      assertWritePermission env d s w =
        (if userAnswer env (str ''modifyDrive:'' @ key d) s = Approve
         then (Inr True,
               w2\<lparr>trace := trace w2 @
                     [EvQueryPermission (str ''modifyDrive:'' @ key d) s,
                      EvRequestPermission (str ''modifyDrive:'' @ key d) s
                        (Obj [(str ''title'', field details ''title'')])],
                   grants := ((archivesDb_extractOrigin env (getURL s), str ''modifyDrive:'' @ key d),
                              True) # grants w\<rparr>)
         else (Inl UserDeniedError,
               w2\<lparr>trace := trace w2 @
                     [EvQueryPermission (str ''modifyDrive:'' @ key d) s,
                      EvRequestPermission (str ''modifyDrive:'' @ key d) s
                        (Obj [(str ''title'', field details ''title'')])]\<rparr>)))"
proof -
  obtain k0 es where l: "lookupUrlDriveKey env (getURL s) (w\<lparr>trace := trace w @ [EvGetDriveInfo (key d)]\<rparr>)
      = (Inr k0, w\<lparr>trace := trace w @ [EvGetDriveInfo (key d)]\<rparr>\<lparr>trace := trace (w\<lparr>trace := trace w @ [EvGetDriveInfo (key d)]\<rparr>) @ es\<rparr>)"
    using lookupUrlDriveKey_total by blast
  show ?thesis
    using l
    by (cases "userAnswer env (str ''modifyDrive:'' @ key d) s")
       (auto simp: assertWritePermission_def io_defs permissions_queryPermission_def
          permissions_requestPermission_def)
qed

lemma exampleEnv_fields [simp]:
  "parseDriveUrl exampleEnv = exampleParse"
  "urlPathname exampleEnv = (\<lambda>u. Inr (pathname (exampleParse u)))"
  "byteLength exampleEnv = (\<lambda>d e. int (length d))"
  "path_basename exampleEnv = exampleBasename"
  "toLowerCase exampleEnv = exampleLower"
  "localeCompare exampleEnv = exampleCompare"
  "DRIVE_MANIFEST_FILENAME exampleEnv = str ''index.json''"
  "HYPERDRIVE_HASH_REGEX exampleEnv = exampleHashRegex"
  "DAT_QUOTA_DEFAULT_BYTES_ALLOWED exampleEnv = 524288000"
  "DRIVE_VALID_PATH_REGEX exampleEnv = examplePathRegex"
  "DEFAULT_DRIVE_API_TIMEOUT exampleEnv = 60000"
  "archivesDb_extractOrigin exampleEnv = exampleOrigin"
  "hyperDns_resolveName exampleEnv = exampleResolve"
  "drives_getDrive exampleEnv = exampleDrive"
  "drives_loadDrive exampleEnv = (\<lambda>k. Inl (CollaboratorError 404))"
  "drives_getDriveInfo exampleEnv = (\<lambda>k. Inr [(str ''title'', Str (str ''Notes''))])"
  "pda_readSize exampleEnv = (\<lambda>d p. Inr 5)"
  "pda exampleEnv = (\<lambda>c call. Inr Undefined)"
  "filesystem_query exampleEnv = exampleQuery"
  "userAnswer exampleEnv = (\<lambda>perm s. Reject)"
  by (simp_all add: exampleEnv_def exampleEnv0_def)

lemma senders [simp]:
  "isSenderBeaker beakerSender" "isSenderBeaker networkSender"
  "\<not> isSenderBeaker webSender" "\<not> isSenderBeaker bobSender"
  by (simp_all add: isSenderBeaker_def beakerSender_def networkSender_def webSender_def
        bobSender_def startsWith_def networkHost_def lineTerminator_def str_def)

lemma keys_differ [simp]: "keyA \<noteq> keyB" "keyB \<noteq> keyA"
  by (simp_all add: keyA_def keyB_def)

lemma example_keys [simp]: "key driveA = keyA" "key driveB = keyB"
  by (simp_all add: driveA_def driveB_def)

lemma lookupUrlDriveKey_web:
  "lookupUrlDriveKey exampleEnv (getURL webSender) w = (Inr None, w)"
  by (simp add: lookupUrlDriveKey_def webSender_def exampleHashRegex_def startsWith_def str_def
        io_defs)

lemma lookupUrlDriveKey_bob:
  "lookupUrlDriveKey exampleEnv (getURL bobSender) w
     = (Inr (Some keyB), w\<lparr>trace := trace w @ [EvResolveName (str ''bob'')]\<rparr>)"
  by (simp add: lookupUrlDriveKey_def bobSender_def exampleHashRegex_def startsWith_def str_def
        io_defs exampleParse_def exampleResolve_def)

lemma origin_web [simp]: "exampleOrigin (getURL webSender) = str ''https://example.com''"
  by (simp add: exampleOrigin_def webSender_def str_def)

theorem assertWritePermission_order_witness:
  "fst (assertWritePermission exampleEnv driveA beakerSender exampleWorld) = Inr True
   \<and> fst (assertWritePermission exampleEnv driveB bobSender exampleWorld) = Inr True
   \<and> fst (assertWritePermission exampleEnv driveA webSender
            (exampleWorld\<lparr>grants := [((str ''https://example.com'', str ''modifyDrive:'' @ keyA), True)]\<rparr>))
       = Inr True
   \<and> fst (assertWritePermission (exampleEnv\<lparr>userAnswer := \<lambda>perm s. Approve\<rparr>) driveA webSender
            exampleWorld) = Inr True
   \<and> grants (snd (assertWritePermission (exampleEnv\<lparr>userAnswer := \<lambda>perm s. Approve\<rparr>) driveA
            webSender exampleWorld))
       = [((str ''https://example.com'', str ''modifyDrive:'' @ keyA), True)]
   \<and> fst (assertWritePermission exampleEnv driveA webSender exampleWorld) = Inl UserDeniedError"
proof -
  let ?w1 = "\<lambda>w d. w\<lparr>trace := trace w @ [EvGetDriveInfo (key d)]\<rparr>"
  let ?g = "exampleWorld\<lparr>grants := [((str ''https://example.com'', str ''modifyDrive:'' @ keyA), True)]\<rparr>"
  let ?approving = "exampleEnv\<lparr>userAnswer := \<lambda>perm s. Approve\<rparr>"
  let ?i = "[(str ''title'', Str (str ''Notes''))]"
  have a: "fst (assertWritePermission exampleEnv driveA beakerSender exampleWorld) = Inr True"
    using assertWritePermission_order [where env = exampleEnv and d = driveA and s = beakerSender
        and w = exampleWorld and details = ?i]
    by simp
  have b: "fst (assertWritePermission exampleEnv driveB bobSender exampleWorld) = Inr True"
    using assertWritePermission_order [where env = exampleEnv and d = driveB and s = bobSender
        and w = exampleWorld and details = ?i
        and ?w2.0 = "(?w1 exampleWorld driveB)\<lparr>trace := trace (?w1 exampleWorld driveB)
                       @ [EvResolveName (str ''bob'')]\<rparr>"]
      lookupUrlDriveKey_bob [of "?w1 exampleWorld driveB"]
    by simp
  have c: "fst (assertWritePermission exampleEnv driveA webSender ?g) = Inr True"
    using assertWritePermission_order [where env = exampleEnv and d = driveA and s = webSender
        and w = ?g and details = ?i and ?w2.0 = "?w1 ?g driveA" and k = None]
      lookupUrlDriveKey_web [of "?w1 ?g driveA"]
    by (simp add: exampleWorld_def)
  have l: "lookupUrlDriveKey ?approving (getURL webSender) w = (Inr None, w)" for w
    by (simp add: lookupUrlDriveKey_def webSender_def exampleHashRegex_def startsWith_def str_def
        io_defs)
  have d: "fst (assertWritePermission ?approving driveA webSender exampleWorld) = Inr True
     \<and> grants (snd (assertWritePermission ?approving driveA webSender exampleWorld))
       = [((str ''https://example.com'', str ''modifyDrive:'' @ keyA), True)]"
    using assertWritePermission_order [where env = ?approving and d = driveA and s = webSender
        and w = exampleWorld and details = ?i and ?w2.0 = "?w1 exampleWorld driveA" and k = None]
      l [of "?w1 exampleWorld driveA"]
    by (simp add: exampleWorld_def)
  have e: "fst (assertWritePermission exampleEnv driveA webSender exampleWorld) = Inl UserDeniedError"
    using assertWritePermission_order [where env = exampleEnv and d = driveA and s = webSender
        and w = exampleWorld and details = ?i and ?w2.0 = "?w1 exampleWorld driveA" and k = None]
      lookupUrlDriveKey_web [of "?w1 exampleWorld driveA"]
    by (simp add: exampleWorld_def)
  from a b c d e show ?thesis by simp
qed

subsection \<open>Quota\<close>

lemma assertQuotaPermission_eq:
  "\<not> startsWith senderOrigin (str ''beaker:'') \<Longrightarrow>
   assertQuotaPermission env d senderOrigin B w =
     (if metaSize w (key d) + B > DAT_QUOTA_DEFAULT_BYTES_ALLOWED env
      then Inl QuotaExceededError else Inr (),
      w\<lparr>trace := trace w @ [EvGetMeta (key d)]\<rparr>)"
  by (simp add: assertQuotaPermission_def archivesDb_getMeta_def io_defs)

lemma accountWrite_size [simp]:
  "metaSize (accountWrite d B w) (key d) = metaSize w (key d) + B"
  by (simp add: accountWrite_def)

lemma writeSequence_accepts:
  assumes np: "\<not> startsWith senderOrigin (str ''beaker:'')"
  shows "\<forall>b \<in> set pre. 0 \<le> b \<Longrightarrow>
    metaSize w (key d) + sum_list pre + B0 \<le> DAT_QUOTA_DEFAULT_BYTES_ALLOWED env \<Longrightarrow> 0 \<le> B0 \<Longrightarrow>
    metaSize w (key d) + sum_list pre + B > DAT_QUOTA_DEFAULT_BYTES_ALLOWED env \<Longrightarrow>
    take (Suc (length pre)) (writeSequence env d senderOrigin (pre @ B # post) w)
      = replicate (length pre) (Inr ()) @ [Inl QuotaExceededError]"
proof (induction pre arbitrary: w)
  case Nil
  then show ?case by (simp add: assertQuotaPermission_eq [OF np])
next
  case (Cons b pre)
  let ?w' = "accountWrite d b (w\<lparr>trace := trace w @ [EvGetMeta (key d)]\<rparr>)"
  have nn: "0 \<le> sum_list pre" using Cons.prems(1) by (simp add: sum_list_nonneg)
  have acc: "\<not> metaSize w (key d) + b > DAT_QUOTA_DEFAULT_BYTES_ALLOWED env"
    using Cons.prems nn by simp
  have s: "metaSize ?w' (key d) = metaSize w (key d) + b" by (simp add: accountWrite_def)
  have "take (Suc (length pre)) (writeSequence env d senderOrigin (pre @ B # post) ?w')
      = replicate (length pre) (Inr ()) @ [Inl QuotaExceededError]"
    using Cons.prems by (intro Cons.IH) (simp_all add: s)
  then show ?case using acc by (simp add: assertQuotaPermission_eq [OF np])
qed

text \<open>
  C4. For an origin that does not start with \<open>beaker:\<close>, the quota check reads the
  accounted size S of the drive when it is called and compares S + B with the
  allowance A, which is always the default constant: it succeeds iff S + B \<le> A and
  fails with \<open>QuotaExceededError\<close> iff S + B > A, and it changes nothing. In a
  sequence of writes of non-negative sizes, if the writes before B fit within A
  together and B does not, every write before B is accepted and B is the one
  rejected.
\<close>

theorem assertQuotaPermission_threshold:
  "\<not> startsWith senderOrigin (str ''beaker:'') \<Longrightarrow>
   (fst (assertQuotaPermission env d senderOrigin B w) = Inr ()
      \<longleftrightarrow> metaSize w (key d) + B \<le> DAT_QUOTA_DEFAULT_BYTES_ALLOWED env)
   \<and> (fst (assertQuotaPermission env d senderOrigin B w) = Inl QuotaExceededError
      \<longleftrightarrow> metaSize w (key d) + B > DAT_QUOTA_DEFAULT_BYTES_ALLOWED env)
   \<and> snd (assertQuotaPermission env d senderOrigin B w) = w\<lparr>trace := trace w @ [EvGetMeta (key d)]\<rparr>
   \<and> ((\<forall>b \<in> set pre. 0 \<le> b)
        \<and> metaSize w (key d) + sum_list pre \<le> DAT_QUOTA_DEFAULT_BYTES_ALLOWED env
        \<and> metaSize w (key d) + sum_list pre + B > DAT_QUOTA_DEFAULT_BYTES_ALLOWED env
      \<longrightarrow> take (Suc (length pre)) (writeSequence env d senderOrigin (pre @ B # post) w)
            = replicate (length pre) (Inr ()) @ [Inl QuotaExceededError])"
proof -
  assume np: "\<not> startsWith senderOrigin (str ''beaker:'')"
  have seq: "take (Suc (length pre)) (writeSequence env d senderOrigin (pre @ B # post) w)
            = replicate (length pre) (Inr ()) @ [Inl QuotaExceededError]"
    if "(\<forall>b \<in> set pre. 0 \<le> b)
        \<and> metaSize w (key d) + sum_list pre \<le> DAT_QUOTA_DEFAULT_BYTES_ALLOWED env
        \<and> metaSize w (key d) + sum_list pre + B > DAT_QUOTA_DEFAULT_BYTES_ALLOWED env"
    using writeSequence_accepts [OF np, of pre w d 0 env B post] that by simp
  show ?thesis
    using seq by (simp add: assertQuotaPermission_eq [OF np])
qed

theorem assertQuotaPermission_threshold_witness:
  "\<not> startsWith (str ''https://example.com'') (str ''beaker:'')
   \<and> fst (assertQuotaPermission exampleEnv driveA (str ''https://example.com'') 10 tenBytesLeft) = Inr ()
   \<and> fst (assertQuotaPermission exampleEnv driveA (str ''https://example.com'') 11 tenBytesLeft)
       = Inl QuotaExceededError
   \<and> take 3 (writeSequence exampleEnv driveA (str ''https://example.com'') [4, 5, 6, 1] tenBytesLeft)
       = [Inr (), Inr (), Inl QuotaExceededError]"
proof -
  have np: "\<not> startsWith (str ''https://example.com'') (str ''beaker:'')"
    by (simp add: startsWith_def str_def)
  have m: "metaSize tenBytesLeft (key driveA) = 524287990"
    by (simp add: tenBytesLeft_def exampleWorld_def)
  have a: "fst (assertQuotaPermission exampleEnv driveA (str ''https://example.com'') 10 tenBytesLeft) = Inr ()"
    using assertQuotaPermission_threshold [OF np, of exampleEnv driveA 10 tenBytesLeft] m by simp
  have b: "fst (assertQuotaPermission exampleEnv driveA (str ''https://example.com'') 11 tenBytesLeft)
       = Inl QuotaExceededError"
    using assertQuotaPermission_threshold [OF np, of exampleEnv driveA 11 tenBytesLeft] m by simp
  have c: "take 3 (writeSequence exampleEnv driveA (str ''https://example.com'') [4, 5, 6, 1] tenBytesLeft)
       = [Inr (), Inr (), Inl QuotaExceededError]"
    using assertQuotaPermission_threshold [OF np, of exampleEnv driveA 6 tenBytesLeft "[4, 5]" "[1]"] m
    by (simp add: numeral_3_eq_3 numeral_2_eq_2)
  from np a b c show ?thesis by simp
qed

lemma lookupDrive_eq:
  "lookupDrive env s k v w =
     (case drives_getDrive env k of
        Some d \<Rightarrow>
          (Inr \<lparr>drive = d, lookupVersion = v, isHistoric = (v \<noteq> None),
                checkoutFS = (case v of None \<Rightarrow> Live d | Some n \<Rightarrow> Historic d n)\<rparr>,
           w\<lparr>trace := trace w @ [EvGetDrive k, EvGetDriveCheckout d v]\<rparr>)
      | None \<Rightarrow>
          (case drives_loadDrive env k of
             Inl e \<Rightarrow> (Inl e, w\<lparr>trace := trace w @ [EvGetDrive k, EvLoadDrive k]\<rparr>)
           | Inr d \<Rightarrow>
               (Inr \<lparr>drive = d, lookupVersion = v, isHistoric = (v \<noteq> None),
                     checkoutFS = (case v of None \<Rightarrow> Live d | Some n \<Rightarrow> Historic d n)\<rparr>,
                w\<lparr>trace := trace w @ [EvGetDrive k, EvLoadDrive k, EvGetDriveCheckout d v]\<rparr>)))"
  by (simp add: lookupDrive_def drives_getDriveCheckout_def io_defs
        split: option.splits sum.splits)

lemma parse_alice_notes [simp]:
  "exampleParse (str ''hyper://alice/notes.txt'') =
     \<lparr>protocol = str ''hyper:'', host = str ''alice'', hostname = str ''alice'',
      pathname = str ''/notes.txt'', origin = str ''hyper://alice/'', version = None\<rparr>"
  by (simp add: exampleParse_def startsWith_def str_def)

lemma exampleDrive_alice [simp]: "exampleDrive (str ''alice'') = Some driveA"
  by (simp add: exampleDrive_def exampleParse_def startsWith_def str_def)

text \<open>
  C5 fails on the code. The quota check exempts an origin that starts with
  \<open>beaker:\<close>, not a sender that \<open>isSenderBeaker\<close> accepts: a page of
  hyperdrive.network is privileged for \<open>isSenderBeaker\<close>, and its write is
  rejected with \<open>QuotaExceededError\<close> when the drive is full.
\<close>

theorem quota_applies_to_network_sender:
  "isSenderBeaker networkSender
   \<and> fst (assertQuotaPermission exampleEnv driveA
            (archivesDb_extractOrigin exampleEnv (getURL networkSender)) 11 tenBytesLeft)
       = Inl QuotaExceededError
   \<and> fst (writeFile exampleEnv networkSender (str ''hyper://alice/notes.txt'') (str ''hello world'')
            None tenBytesLeft)
       = Inl QuotaExceededError"
proof -
  have o: "exampleOrigin (getURL networkSender) = str ''https://hyperdrive.network''"
    by (simp add: exampleOrigin_def networkSender_def str_def)
  have np: "\<not> startsWith (str ''https://hyperdrive.network'') (str ''beaker:'')"
    by (simp add: startsWith_def str_def)
  have m: "metaSize tenBytesLeft k = 524287990" for k
    by (simp add: tenBytesLeft_def exampleWorld_def)
  have n: "normalizeFilepath (str ''/notes.txt'') = Inr (str ''/notes.txt'')"
    by code_simp
  have len: "int (length (str ''hello world'')) = 11" by (simp add: str_def)
  have q: "fst (assertQuotaPermission exampleEnv driveA (str ''https://hyperdrive.network'') 11 tenBytesLeft)
       = Inl QuotaExceededError"
    by (simp add: assertQuotaPermission_eq [OF np] m)
  have w: "fst (writeFile exampleEnv networkSender (str ''hyper://alice/notes.txt'') (str ''hello world'')
            None tenBytesLeft) = Inl QuotaExceededError"
    by (simp add: writeFile_def writeFile_task_def n o len lookupDrive_eq
          assertWritePermission_def assertQuotaPermission_eq [OF np] m auditLog_record_def
          timer_def io_defs optsOr_def noOpts_def to_def)
  from q w o show ?thesis by simp
qed

lemma infoUnavailable_fields [simp]:
  "drives_getDriveInfo infoUnavailable = (\<lambda>k. Inl (CollaboratorError 503))"
  "parseDriveUrl infoUnavailable = exampleParse"
  "byteLength infoUnavailable = (\<lambda>d e. int (length d))"
  "DEFAULT_DRIVE_API_TIMEOUT infoUnavailable = 60000"
  "drives_getDrive infoUnavailable = exampleDrive"
  "archivesDb_extractOrigin infoUnavailable = exampleOrigin"
  by (simp_all add: infoUnavailable_def)

text \<open>
  C1 fails on the code. \<open>assertWritePermission\<close> awaits \<open>drives.getDriveInfo\<close> before
  its first test, although only the prompt at its end uses the information, and
  under the comments "beaker: always allowed" and "self-modification ALWAYS
  allowed". When the drive information cannot be fetched, the privileged sender and
  the sender that is the drive itself are refused with the error of the fetch, and
  so is the privileged sender's \<open>writeFile\<close>, which stops at the fetch. The sibling
  \<open>assertDeleteDrivePermission\<close> fetches the information after its privileged test
  and allows the privileged sender in the same environment.
\<close>

theorem write_permission_awaits_drive_info:
  "isSenderBeaker beakerSender
   \<and> assertWritePermission infoUnavailable driveA beakerSender exampleWorld
       = (Inl (CollaboratorError 503), exampleWorld\<lparr>trace := [EvGetDriveInfo keyA]\<rparr>)
   \<and> assertWritePermission infoUnavailable driveB bobSender exampleWorld
       = (Inl (CollaboratorError 503), exampleWorld\<lparr>trace := [EvGetDriveInfo keyB]\<rparr>)
   \<and> assertDeleteDrivePermission infoUnavailable driveA beakerSender exampleWorld
       = (Inr True, exampleWorld)
   \<and> fst (writeFile infoUnavailable beakerSender (str ''hyper://alice/notes.txt'') (str ''hello'')
            None exampleWorld) = Inl (CollaboratorError 503)
   \<and> trace (snd (writeFile infoUnavailable beakerSender (str ''hyper://alice/notes.txt'')
            (str ''hello'') None exampleWorld))
       = [EvTimer 60000, EvCheckin ''looking up drive'', EvGetDrive (str ''alice''),
          EvGetDriveCheckout driveA None, EvPause, EvGetDriveInfo keyA]"
proof -
  have n: "normalizeFilepath (str ''/notes.txt'') = Inr (str ''/notes.txt'')"
    by code_simp
  show ?thesis
    by (simp add: n assertWritePermission_def assertDeleteDrivePermission_def writeFile_def
          writeFile_task_def lookupDrive_eq auditLog_record_def timer_def io_defs exampleWorld_def
          to_def optsOr_def noOpts_def)
qed

subsection \<open>Operations\<close>

lemma lookupDrive_resolves:
  "resolves env k d \<Longrightarrow>
   lookupDrive env s k v w =
     (Inr \<lparr>drive = d, lookupVersion = v, isHistoric = (v \<noteq> None),
           checkoutFS = (case v of None \<Rightarrow> Live d | Some n \<Rightarrow> Historic d n)\<rparr>,
      w\<lparr>trace := trace w @ resolveEvents env k d v\<rparr>)"
  by (auto simp: lookupDrive_eq resolves_def resolveEvents_def)

lemma noPda_ret [intro!, simp]: "noPda (ret x)"
  by (simp add: noPda_def ret_def)

lemma noPda_throw [intro!, simp]: "noPda (throw e)"
  by (simp add: noPda_def throw_def)

lemma noPda_liftE [intro!, simp]: "noPda (liftE r)"
  by (simp add: noPda_def liftE_def)

lemma noPda_emit: "(\<And>c call. e \<noteq> EvPda c call) \<Longrightarrow> noPda (emit e)"
  by (auto simp: noPda_def emit_def)

lemma noPda_checkin [intro!, simp]: "noPda (checkin l)"
  by (simp add: checkin_def noPda_emit)

lemma noPda_pause [intro!, simp]: "noPda pause"
  by (simp add: pause_def noPda_emit)

lemma noPda_resume [intro!, simp]: "noPda resume"
  by (simp add: resume_def noPda_emit)

lemma noPda_bindE [intro!]:
  assumes "noPda m" and "\<And>x. noPda (f x)"
  shows "noPda (bindE m f)"
  unfolding noPda_def
proof
  fix w
  from assms(1) obtain es where 1: "trace (snd (m w)) = trace w @ es"
    and 2: "\<forall>c call. EvPda c call \<notin> set es" unfolding noPda_def by blast
  show "\<exists>es. trace (snd (bindE m f w)) = trace w @ es \<and> (\<forall>c call. EvPda c call \<notin> set es)"
  proof (cases "m w")
    case (Pair r w')
    show ?thesis
    proof (cases r)
      case (Inl e)
      with Pair 1 2 show ?thesis by (auto simp: bindE_def)
    next
      case (Inr x)
      from assms(2) [of x] obtain es' where 3: "trace (snd (f x w')) = trace w' @ es'"
        and 4: "\<forall>c call. EvPda c call \<notin> set es'" unfolding noPda_def by blast
      from Pair Inr 1 2 3 4 have "trace (snd (bindE m f w)) = trace w @ (es @ es')
          \<and> (\<forall>c call. EvPda c call \<notin> set (es @ es'))"
        by (auto simp: bindE_def)
      then show ?thesis by blast
    qed
  qed
qed

lemma noPda_if [intro!]: "(b \<Longrightarrow> noPda m) \<Longrightarrow> (\<not> b \<Longrightarrow> noPda n) \<Longrightarrow> noPda (if b then m else n)"
  by simp

lemma noPda_lookupDrive [intro!, simp]: "noPda (lookupDrive env s k v)"
  unfolding lookupDrive_def drives_getDriveCheckout_def
  by (auto intro!: noPda_emit split: option.splits prod.splits)

lemma noPda_lookupUrlDriveKey [intro!, simp]: "noPda (lookupUrlDriveKey env u)"
  unfolding lookupUrlDriveKey_def by (auto intro!: noPda_emit)

lemma noPda_queryPermission [intro!, simp]: "noPda (permissions_queryPermission env p s)"
  by (simp add: noPda_def permissions_queryPermission_def io_defs)

lemma noPda_requestPermission [intro!, simp]: "noPda (permissions_requestPermission env p s c)"
  by (cases "userAnswer env p s")
     (simp_all add: noPda_def permissions_requestPermission_def io_defs)

lemma noPda_assertWritePermission [intro!, simp]: "noPda (assertWritePermission env d s)"
  unfolding assertWritePermission_def by (auto intro!: noPda_emit)

lemma noPda_assertQuotaPermission [intro!, simp]: "noPda (assertQuotaPermission env d so n)"
  by (simp add: noPda_def assertQuotaPermission_def archivesDb_getMeta_def io_defs)

lemma blocked_throw [intro!, simp]: "blocked (throw e)"
  by (simp add: blocked_def throw_def)

lemma blocked_liftE_Inl [intro!, simp]: "blocked (liftE (Inl e))"
  by (simp add: blocked_def liftE_def)

lemma blocked_first: "blocked m \<Longrightarrow> blocked (bindE m f)"
  unfolding blocked_def bindE_def
proof
  fix w
  assume a: "\<forall>w. (\<exists>e. fst (m w) = Inl e)
        \<and> (\<exists>es. trace (snd (m w)) = trace w @ es \<and> (\<forall>c call. EvPda c call \<notin> set es))"
  obtain r w' where p: "m w = (r, w')" by (cases "m w")
  with a [rule_format, of w] obtain e where "r = Inl e" by auto
  with p a [rule_format, of w]
  show "(\<exists>e. fst (case m w of (Inl e, w') \<Rightarrow> (Inl e, w') | (Inr x, w') \<Rightarrow> f x w') = Inl e) \<and>
         (\<exists>es. trace (snd (case m w of (Inl e, w') \<Rightarrow> (Inl e, w') | (Inr x, w') \<Rightarrow> f x w')) = trace w @ es \<and>
               (\<forall>c call. EvPda c call \<notin> set es))"
    by auto
qed

lemma blocked_bindE:
  assumes "noPda m" and "\<And>x. blocked (f x)"
  shows "blocked (bindE m f)"
  unfolding blocked_def
proof
  fix w
  from assms(1) obtain es where 1: "trace (snd (m w)) = trace w @ es"
    and 2: "\<forall>c call. EvPda c call \<notin> set es" unfolding noPda_def by blast
  show "(\<exists>e. fst (bindE m f w) = Inl e)
      \<and> (\<exists>es. trace (snd (bindE m f w)) = trace w @ es \<and> (\<forall>c call. EvPda c call \<notin> set es))"
  proof (cases "m w")
    case (Pair r w')
    show ?thesis
    proof (cases r)
      case (Inl e)
      with Pair 1 2 show ?thesis by (auto simp: bindE_def)
    next
      case (Inr x)
      from assms(2) [of x] obtain e es' where 3: "trace (snd (f x w')) = trace w' @ es'"
        and 4: "\<forall>c call. EvPda c call \<notin> set es'" and 5: "fst (f x w') = Inl e"
        unfolding blocked_def by blast
      from Pair Inr 1 2 3 4 5 have "fst (bindE m f w) = Inl e \<and> trace (snd (bindE m f w)) = trace w @ (es @ es')
          \<and> (\<forall>c call. EvPda c call \<notin> set (es @ es'))"
        by (auto simp: bindE_def)
      then show ?thesis by blast
    qed
  qed
qed

lemma blocked_if: "(b \<Longrightarrow> blocked m) \<Longrightarrow> (\<not> b \<Longrightarrow> blocked n) \<Longrightarrow> blocked (if b then m else n)"
  by simp

lemma blocked_timer: "blocked m \<Longrightarrow> blocked (timer t m)"
  unfolding timer_def by (rule blocked_bindE) (auto intro!: noPda_emit)

lemma blocked_record: "blocked m \<Longrightarrow> blocked (auditLog_record c a g n m)"
  unfolding blocked_def auditLog_record_def
  by (auto split: prod.splits) (metis fst_conv, metis snd_conv)

lemma bindE_liftE_Inl: "bindE (liftE (Inl e)) f = throw e"
  by (simp add: bindE_def liftE_def throw_def)

lemma blocked_unlink_task:
  "assertUnprotectedFilePath env filepath s = Inl e \<Longrightarrow> blocked (unlink_task env s up filepath)"
  unfolding unlink_task_def
  apply (simp only: bindE_liftE_Inl)
  apply (intro blocked_bindE blocked_if blocked_throw noPda_checkin noPda_lookupDrive noPda_pause
        noPda_assertWritePermission)
  done

lemma blocked_writeFile_task:
  "assertUnprotectedFilePath env filepath s = Inl e \<Longrightarrow>
   blocked (writeFile_task env s up filepath data opts n)"
  unfolding writeFile_task_def
  apply (simp only: bindE_liftE_Inl)
  apply (intro blocked_bindE blocked_if blocked_throw noPda_checkin noPda_lookupDrive noPda_pause
        noPda_assertWritePermission noPda_assertQuotaPermission noPda_liftE)
  done

lemma blocked_mkdir_task:
  "assertUnprotectedFilePath env filepath s = Inl e \<Longrightarrow>
   blocked (mkdir_task env s up filepath opts)"
  unfolding mkdir_task_def
  apply (simp only: bindE_liftE_Inl)
  apply (intro blocked_bindE blocked_if blocked_throw noPda_checkin noPda_lookupDrive noPda_pause
        noPda_assertWritePermission noPda_liftE)
  done

lemma blocked_op:
  "blocked m \<Longrightarrow>
   (\<exists>e. fst (auditLog_record c a g n (timer t m) w) = Inl e)
   \<and> (\<exists>es. trace (snd (auditLog_record c a g n (timer t m) w)) = trace w @ es
          \<and> (\<forall>c call. EvPda c call \<notin> set es))"
  using blocked_record [OF blocked_timer, of m c a g n t] unfolding blocked_def by blast

lemma bindE_liftE_Inr: "bindE (liftE (Inr x)) f = f x"
  by (simp add: bindE_def liftE_def)

text \<open>
  C3 (as amended). For a sender that is not privileged and a URL whose path
  normalizes to the manifest path, \<open>writeFile\<close>, \<open>unlink\<close> and \<open>mkdir\<close> always fail
  and never call a file primitive. The error is \<open>ProtectedFileNotWritableError\<close>
  whenever the checks the operation makes first pass (the drive resolves to a live
  checkout, write permission is given, and for \<open>writeFile\<close> the quota and for
  \<open>writeFile\<close> and \<open>mkdir\<close> the path test pass); otherwise it is the error of the
  first of them that fails. A privileged sender passes the protection check for
  every path.
\<close>

theorem manifest_path_protected:
  "\<not> isSenderBeaker s
   \<and> normalizeFilepath (pathname (parseDriveUrl env url)) = Inr (str ''/'' @ DRIVE_MANIFEST_FILENAME env)
   \<longrightarrow>
   ((\<exists>e. fst (writeFile env s url data opts w) = Inl e)
    \<and> (\<exists>es. trace (snd (writeFile env s url data opts w)) = trace w @ es
           \<and> (\<forall>c call. EvPda c call \<notin> set es))
    \<and> (\<exists>e. fst (unlink env s url opts w) = Inl e)
    \<and> (\<exists>es. trace (snd (unlink env s url opts w)) = trace w @ es
           \<and> (\<forall>c call. EvPda c call \<notin> set es))
    \<and> (\<exists>e. fst (mkdir env s url opts w) = Inl e)
    \<and> (\<exists>es. trace (snd (mkdir env s url opts w)) = trace w @ es
           \<and> (\<forall>c call. EvPda c call \<notin> set es)))
   \<and> fst (writeFile env s url data opts w) =
       (case lookupDrive env s (hostname (parseDriveUrl env url)) (version (parseDriveUrl env url))
               (w\<lparr>trace := trace w @ [EvTimer (to env (Some (optsOr opts))),
                                         EvCheckin ''looking up drive'']\<rparr>) of
          (Inl e, w1) \<Rightarrow> Inl e
        | (Inr l, w1) \<Rightarrow>
            if isHistoric l then Inl ArchiveNotWritableError
            else
              (case assertWritePermission env (drive l) s (w1\<lparr>trace := trace w1 @ [EvPause]\<rparr>) of
                 (Inl e, w2) \<Rightarrow> Inl e
               | (Inr b, w2) \<Rightarrow>
                   (case assertQuotaPermission env (drive l) (archivesDb_extractOrigin env (getURL s))
                           (byteLength env data (encoding (optsOr opts))) w2 of
                      (Inl e, w3) \<Rightarrow> Inl e
                    | (Inr u, w3) \<Rightarrow>
                        (case assertValidFilePath env (str ''/'' @ DRIVE_MANIFEST_FILENAME env) of
                           Inl e \<Rightarrow> Inl e
                         | Inr u \<Rightarrow> Inl ProtectedFileNotWritableError))))
   \<and> fst (unlink env s url opts w) =
       (case lookupDrive env s (hostname (parseDriveUrl env url)) (version (parseDriveUrl env url))
               (w\<lparr>trace := trace w @ [EvTimer (to env (Some (optsOr opts))),
                                         EvCheckin ''looking up drive'']\<rparr>) of
          (Inl e, w1) \<Rightarrow> Inl e
        | (Inr l, w1) \<Rightarrow>
            if isHistoric l then Inl ArchiveNotWritableError
            else
              (case assertWritePermission env (drive l) s (w1\<lparr>trace := trace w1 @ [EvPause]\<rparr>) of
                 (Inl e, w2) \<Rightarrow> Inl e
               | (Inr b, w2) \<Rightarrow> Inl ProtectedFileNotWritableError))
   \<and> fst (mkdir env s url opts w) =
       (case lookupDrive env s (hostname (parseDriveUrl env url)) (version (parseDriveUrl env url))
               (w\<lparr>trace := trace w @ [EvTimer (to env opts), EvCheckin ''searching for drive'']\<rparr>) of
          (Inl e, w1) \<Rightarrow> Inl e
        | (Inr l, w1) \<Rightarrow>
            if isHistoric l then Inl ArchiveNotWritableError
            else
              (case assertWritePermission env (drive l) s (w1\<lparr>trace := trace w1 @ [EvPause]\<rparr>) of
                 (Inl e, w2) \<Rightarrow> Inl e
               | (Inr b, w2) \<Rightarrow>
                   (case assertValidPath env (str ''/'' @ DRIVE_MANIFEST_FILENAME env) of
                      Inl e \<Rightarrow> Inl e
                    | Inr u \<Rightarrow> Inl ProtectedFileNotWritableError)))
   \<and> (\<forall>p s'. isSenderBeaker s' \<longrightarrow> assertUnprotectedFilePath env p s' = Inr ())"
proof (intro impI conjI allI)
  assume a: "\<not> isSenderBeaker s
   \<and> normalizeFilepath (pathname (parseDriveUrl env url)) = Inr (str ''/'' @ DRIVE_MANIFEST_FILENAME env)"
  then have n: "normalizeFilepath (pathname (parseDriveUrl env url))
      = Inr (str ''/'' @ DRIVE_MANIFEST_FILENAME env)" by simp
  from a have p: "assertUnprotectedFilePath env (str ''/'' @ DRIVE_MANIFEST_FILENAME env) s
      = Inl ProtectedFileNotWritableError"
    by (simp add: assertUnprotectedFilePath_def)
  show "\<exists>e. fst (writeFile env s url data opts w) = Inl e"
    and "\<exists>es. trace (snd (writeFile env s url data opts w)) = trace w @ es
           \<and> (\<forall>c call. EvPda c call \<notin> set es)"
    unfolding writeFile_def n bindE_liftE_Inr
    using blocked_op [OF blocked_writeFile_task [OF p]] by blast+
  show "\<exists>e. fst (unlink env s url opts w) = Inl e"
    and "\<exists>es. trace (snd (unlink env s url opts w)) = trace w @ es
           \<and> (\<forall>c call. EvPda c call \<notin> set es)"
    unfolding unlink_def n bindE_liftE_Inr
    using blocked_op [OF blocked_unlink_task [OF p]] by blast+
  show "\<exists>e. fst (mkdir env s url opts w) = Inl e"
    and "\<exists>es. trace (snd (mkdir env s url opts w)) = trace w @ es
           \<and> (\<forall>c call. EvPda c call \<notin> set es)"
    unfolding mkdir_def n bindE_liftE_Inr
    using blocked_op [OF blocked_mkdir_task [OF p]] by blast+
  show "fst (writeFile env s url data opts w) =
       (case lookupDrive env s (hostname (parseDriveUrl env url)) (version (parseDriveUrl env url))
               (w\<lparr>trace := trace w @ [EvTimer (to env (Some (optsOr opts))),
                                         EvCheckin ''looking up drive'']\<rparr>) of
          (Inl e, w1) \<Rightarrow> Inl e
        | (Inr l, w1) \<Rightarrow>
            if isHistoric l then Inl ArchiveNotWritableError
            else
              (case assertWritePermission env (drive l) s (w1\<lparr>trace := trace w1 @ [EvPause]\<rparr>) of
                 (Inl e, w2) \<Rightarrow> Inl e
               | (Inr b, w2) \<Rightarrow>
                   (case assertQuotaPermission env (drive l) (archivesDb_extractOrigin env (getURL s))
                           (byteLength env data (encoding (optsOr opts))) w2 of
                      (Inl e, w3) \<Rightarrow> Inl e
                    | (Inr u, w3) \<Rightarrow>
                        (case assertValidFilePath env (str ''/'' @ DRIVE_MANIFEST_FILENAME env) of
                           Inl e \<Rightarrow> Inl e
                         | Inr u \<Rightarrow> Inl ProtectedFileNotWritableError))))"
    by (simp add: writeFile_def writeFile_task_def n p auditLog_record_def timer_def io_defs
          split: prod.splits sum.splits)
  show "fst (unlink env s url opts w) =
       (case lookupDrive env s (hostname (parseDriveUrl env url)) (version (parseDriveUrl env url))
               (w\<lparr>trace := trace w @ [EvTimer (to env (Some (optsOr opts))),
                                         EvCheckin ''looking up drive'']\<rparr>) of
          (Inl e, w1) \<Rightarrow> Inl e
        | (Inr l, w1) \<Rightarrow>
            if isHistoric l then Inl ArchiveNotWritableError
            else
              (case assertWritePermission env (drive l) s (w1\<lparr>trace := trace w1 @ [EvPause]\<rparr>) of
                 (Inl e, w2) \<Rightarrow> Inl e
               | (Inr b, w2) \<Rightarrow> Inl ProtectedFileNotWritableError))"
    by (simp add: unlink_def unlink_task_def n p auditLog_record_def timer_def io_defs
          split: prod.splits sum.splits)
  show "fst (mkdir env s url opts w) =
       (case lookupDrive env s (hostname (parseDriveUrl env url)) (version (parseDriveUrl env url))
               (w\<lparr>trace := trace w @ [EvTimer (to env opts), EvCheckin ''searching for drive'']\<rparr>) of
          (Inl e, w1) \<Rightarrow> Inl e
        | (Inr l, w1) \<Rightarrow>
            if isHistoric l then Inl ArchiveNotWritableError
            else
              (case assertWritePermission env (drive l) s (w1\<lparr>trace := trace w1 @ [EvPause]\<rparr>) of
                 (Inl e, w2) \<Rightarrow> Inl e
               | (Inr b, w2) \<Rightarrow>
                   (case assertValidPath env (str ''/'' @ DRIVE_MANIFEST_FILENAME env) of
                      Inl e \<Rightarrow> Inl e
                    | Inr u \<Rightarrow> Inl ProtectedFileNotWritableError)))"
    by (simp add: mkdir_def mkdir_task_def n p auditLog_record_def timer_def io_defs
          split: prod.splits sum.splits)
next
  fix p s'
  assume "isSenderBeaker s'"
  then show "assertUnprotectedFilePath env p s' = Inr ()"
    by (simp add: assertUnprotectedFilePath_def)
qed

lemma assertWritePermission_web:
  "assertWritePermission exampleEnv d webSender w =
     (if map_of (grants w) (str ''https://example.com'', str ''modifyDrive:'' @ key d) = Some True
      then (Inr True,
            w\<lparr>trace := trace w @
               [EvGetDriveInfo (key d), EvQueryPermission (str ''modifyDrive:'' @ key d) webSender]\<rparr>)
      else (Inl UserDeniedError,
            w\<lparr>trace := trace w @
               [EvGetDriveInfo (key d), EvQueryPermission (str ''modifyDrive:'' @ key d) webSender,
                EvRequestPermission (str ''modifyDrive:'' @ key d) webSender
                  (Obj [(str ''title'', Str (str ''Notes''))])]\<rparr>))"
  by (simp add: assertWritePermission_def lookupUrlDriveKey_web permissions_queryPermission_def
        permissions_requestPermission_def io_defs field_def)

lemma lookupDrive_alice:
  "lookupDrive exampleEnv s (str ''alice'') v w =
     (Inr \<lparr>drive = driveA, lookupVersion = v, isHistoric = (v \<noteq> None),
           checkoutFS = (case v of None \<Rightarrow> Live driveA | Some n \<Rightarrow> Historic driveA n)\<rparr>,
      w\<lparr>trace := trace w @ [EvGetDrive (str ''alice''), EvGetDriveCheckout driveA v]\<rparr>)"
  by (simp add: lookupDrive_eq)

lemma parse_alice_manifest [simp]:
  "exampleParse (str ''hyper://alice/index.json'') =
     \<lparr>protocol = str ''hyper:'', host = str ''alice'', hostname = str ''alice'',
      pathname = str ''/index.json'', origin = str ''hyper://alice/'', version = None\<rparr>"
  by (simp add: exampleParse_def startsWith_def str_def)

lemma parse_alice_v3 [simp]:
  "exampleParse (str ''hyper://alice+3/notes.txt'') =
     \<lparr>protocol = str ''hyper:'', host = str ''alice'', hostname = str ''alice'',
      pathname = str ''/notes.txt'', origin = str ''hyper://alice/'', version = Some (str ''3'')\<rparr>"
  by (simp add: exampleParse_def startsWith_def str_def)

lemma str_append [simp]: "str a @ str b = str (a @ b)"
  by (simp add: str_def)

lemma normalize_examples [simp]:
  "normalizeFilepath (str ''/index.json'') = Inr (str ''/index.json'')"
  "normalizeFilepath (str ''/notes.txt'') = Inr (str ''/notes.txt'')"
  "normalizeFilepath (str ''link'') = Inr (str ''/link'')"
  "normalizeFilepath (str ''%'') = Inl URIError"
  by code_simp+

theorem manifest_path_protected_witness:
  "\<not> isSenderBeaker webSender
   \<and> normalizeFilepath (pathname (parseDriveUrl exampleEnv (str ''hyper://alice/index.json'')))
       = Inr (str ''/'' @ DRIVE_MANIFEST_FILENAME exampleEnv)
   \<and> fst (writeFile exampleEnv webSender (str ''hyper://alice/index.json'') (str ''x'') None grantedA)
       = Inl ProtectedFileNotWritableError
   \<and> fst (unlink exampleEnv webSender (str ''hyper://alice/index.json'') None grantedA)
       = Inl ProtectedFileNotWritableError
   \<and> fst (mkdir exampleEnv webSender (str ''hyper://alice/index.json'') None grantedA)
       = Inl ProtectedFileNotWritableError
   \<and> (\<exists>es. trace (snd (writeFile exampleEnv webSender (str ''hyper://alice/index.json'') (str ''x'')
                         None grantedA)) = trace grantedA @ es
          \<and> (\<forall>c call. EvPda c call \<notin> set es))
   \<and> fst (writeFile exampleEnv webSender (str ''hyper://alice/index.json'') (str ''x'') None
            exampleWorld) = Inl UserDeniedError
   \<and> fst (writeFile exampleEnv webSender (str ''hyper://alice/index.json'') (str ''x'') None
            (grantedA\<lparr>metaSize := \<lambda>k. 524288000\<rparr>)) = Inl QuotaExceededError
   \<and> assertUnprotectedFilePath exampleEnv (str ''/index.json'') beakerSender = Inr ()"
proof -
  let ?u = "str ''hyper://alice/index.json''"
  let ?up = "parseDriveUrl exampleEnv ?u"
  let ?full = "grantedA\<lparr>metaSize := \<lambda>k. 524288000\<rparr>"
  have h1: "\<not> isSenderBeaker webSender" by simp
  have h2: "normalizeFilepath (pathname ?up) = Inr (str ''/'' @ DRIVE_MANIFEST_FILENAME exampleEnv)"
    by simp
  note t = manifest_path_protected [of webSender exampleEnv ?u "str ''x''" None grantedA,
      rule_format, OF conjI [OF h1 h2]]
  note t' = manifest_path_protected [of webSender exampleEnv ?u "str ''x''" None exampleWorld,
      rule_format, OF conjI [OF h1 h2]]
  note t'' = manifest_path_protected [of webSender exampleEnv ?u "str ''x''" None ?full,
      rule_format, OF conjI [OF h1 h2]]
  have g: "map_of (grants grantedA) (str ''https://example.com'', str ''modifyDrive:'' @ keyA) = Some True"
    "map_of (grants ?full) (str ''https://example.com'', str ''modifyDrive:'' @ keyA) = Some True"
    "map_of (grants exampleWorld) (str ''https://example.com'', str ''modifyDrive:'' @ keyA) = None"
    by (simp_all add: grantedA_def exampleWorld_def)
  have q: "\<not> startsWith (exampleOrigin (getURL webSender)) (str ''beaker:'')"
    by (simp add: startsWith_def str_def)
  have m: "metaSize grantedA keyA = 0" "metaSize ?full keyA = 524288000"
    by (simp_all add: grantedA_def exampleWorld_def)
  have V: "assertValidFilePath exampleEnv (str ''/'' @ DRIVE_MANIFEST_FILENAME exampleEnv) = Inr ()"
    "assertValidPath exampleEnv (str ''/'' @ DRIVE_MANIFEST_FILENAME exampleEnv) = Inr ()"
    by (simp_all add: assertValidFilePath_def assertValidPath_def sliceLast_def examplePathRegex_def
          examplePathChar_def str_def)
  have x: "length (str ''x'') = 1" by (simp add: str_def)
  have a: "fst (writeFile exampleEnv webSender ?u (str ''x'') None grantedA)
       = Inl ProtectedFileNotWritableError"
    using t [THEN conjunct2, THEN conjunct1] V(1) q
    by (simp add: lookupDrive_alice assertWritePermission_web g m x assertQuotaPermission_eq)
  have b: "fst (unlink exampleEnv webSender ?u None grantedA) = Inl ProtectedFileNotWritableError"
    using t [THEN conjunct2, THEN conjunct2, THEN conjunct1]
    by (simp add: lookupDrive_alice assertWritePermission_web g)
  have c: "fst (mkdir exampleEnv webSender ?u None grantedA) = Inl ProtectedFileNotWritableError"
    using t [THEN conjunct2, THEN conjunct2, THEN conjunct2, THEN conjunct1] V(2)
    by (simp add: lookupDrive_alice assertWritePermission_web g)
  have d: "\<exists>es. trace (snd (writeFile exampleEnv webSender ?u (str ''x'') None grantedA))
          = trace grantedA @ es \<and> (\<forall>c call. EvPda c call \<notin> set es)"
    using t [THEN conjunct1] by blast
  have e: "assertUnprotectedFilePath exampleEnv (str ''/index.json'') beakerSender = Inr ()"
    using t [THEN conjunct2, THEN conjunct2, THEN conjunct2, THEN conjunct2] by simp
  have f: "fst (writeFile exampleEnv webSender ?u (str ''x'') None exampleWorld) = Inl UserDeniedError"
    using t' [THEN conjunct2, THEN conjunct1]
    by (simp add: lookupDrive_alice assertWritePermission_web g)
  have k: "fst (writeFile exampleEnv webSender ?u (str ''x'') None ?full) = Inl QuotaExceededError"
    using t'' [THEN conjunct2, THEN conjunct1] q
    by (simp add: lookupDrive_alice assertWritePermission_web g m x assertQuotaPermission_eq)
  from h1 h2 a b c d e f k show ?thesis by blast
qed

text \<open>
  C3 as stated fails: the web page without a grant, whose prompt the user rejects,
  gets \<open>UserDeniedError\<close> for the manifest path, not
  \<open>ProtectedFileNotWritableError\<close>.
\<close>

theorem manifest_path_counterexample:
  "\<not> isSenderBeaker webSender
   \<and> normalizeFilepath (pathname (parseDriveUrl exampleEnv (str ''hyper://alice/index.json'')))
       = Inr (str ''/'' @ DRIVE_MANIFEST_FILENAME exampleEnv)
   \<and> fst (writeFile exampleEnv webSender (str ''hyper://alice/index.json'') (str ''x'') None exampleWorld)
       = Inl UserDeniedError
   \<and> fst (unlink exampleEnv webSender (str ''hyper://alice/index.json'') None exampleWorld)
       = Inl UserDeniedError
   \<and> fst (mkdir exampleEnv webSender (str ''hyper://alice/index.json'') None exampleWorld)
       = Inl UserDeniedError"
  by (simp add: writeFile_def writeFile_task_def unlink_def unlink_task_def mkdir_def mkdir_task_def
        lookupDrive_alice assertWritePermission_web auditLog_record_def timer_def io_defs
        exampleWorld_def)

lemma historic_task:
  assumes "version up = Some v" and "resolves env (hostname up) d"
  shows "writeFile_task env s up filepath data opts n w =
           (Inl ArchiveNotWritableError,
            w\<lparr>trace := trace w @ [EvCheckin ''looking up drive'']
                   @ resolveEvents env (hostname up) d (Some v)\<rparr>)"
    and "mkdir_task env s up filepath opts' w =
           (Inl ArchiveNotWritableError,
            w\<lparr>trace := trace w @ [EvCheckin ''searching for drive'']
                   @ resolveEvents env (hostname up) d (Some v)\<rparr>)"
    and "symlink_task env s up target linkname w =
           (Inl ArchiveNotWritableError,
            w\<lparr>trace := trace w @ [EvCheckin ''searching for drive'']
                   @ resolveEvents env (hostname up) d (Some v)\<rparr>)"
    and "mount_task env s up filepath mnt w =
           (Inl ArchiveNotWritableError,
            w\<lparr>trace := trace w @ [EvCheckin ''searching for drive'']
                   @ resolveEvents env (hostname up) d (Some v)\<rparr>)"
  using assms
  by (simp_all add: writeFile_task_def mkdir_task_def symlink_task_def mount_task_def
        lookupDrive_resolves io_defs)

text \<open>
  C2 (as amended). For every sender and every URL with an explicit version, if the
  path arguments normalize and the drive resolves, then \<open>writeFile\<close>, \<open>mkdir\<close>,
  \<open>mount\<close> and \<open>symlink\<close> fail with \<open>ArchiveNotWritableError\<close>. The world they leave
  holds one audit entry of the failure and, in the trace, the timer, the check-in
  and the calls of the lookup only: no permission, quota or path check was reached
  and no file primitive was called, whatever the grants are.
\<close>

theorem historic_checkout_not_writable:
  "version (parseDriveUrl env url) = Some v
   \<and> resolves env (hostname (parseDriveUrl env url)) d
   \<and> normalizeFilepath (pathname (parseDriveUrl env url)) = Inr filepath
   \<longrightarrow>
   writeFile env s url data opts w =
     (Inl ArchiveNotWritableError,
      w\<lparr>auditLog := auditLog w @
           [\<lparr>caller = getURL s, action = ''writeFile'',
             args = Fields [(''url'', ArgStr (origin (parseDriveUrl env url))),
                            (''filepath'', ArgStr filepath)],
             writeSize = Some (byteLength env data (encoding (optsOr opts))),
             succeeded = False\<rparr>],
         trace := trace w @
           [EvTimer (to env (Some (optsOr opts))), EvCheckin ''looking up drive'']
           @ resolveEvents env (hostname (parseDriveUrl env url)) d (Some v)\<rparr>)
   \<and> mkdir env s url opts w =
     (Inl ArchiveNotWritableError,
      w\<lparr>auditLog := auditLog w @
           [\<lparr>caller = getURL s, action = ''mkdir'',
             args = Fields [(''url'', ArgStr (origin (parseDriveUrl env url))),
                            (''filepath'', ArgStr filepath), (''opts'', ArgOpts opts)],
             writeSize = None, succeeded = False\<rparr>],
         trace := trace w @
           [EvTimer (to env opts), EvCheckin ''searching for drive'']
           @ resolveEvents env (hostname (parseDriveUrl env url)) d (Some v)\<rparr>)
   \<and> mount env s url mnt opts w =
     (Inl ArchiveNotWritableError,
      w\<lparr>auditLog := auditLog w @
           [\<lparr>caller = getURL s, action = ''mount'',
             args = Fields [(''url'', ArgStr (origin (parseDriveUrl env url))),
                            (''filepath'', ArgStr filepath), (''opts'', ArgOpts opts)],
             writeSize = None, succeeded = False\<rparr>],
         trace := trace w @
           [EvTimer (to env opts), EvCheckin ''searching for drive'']
           @ resolveEvents env (hostname (parseDriveUrl env url)) d (Some v)\<rparr>)
   \<and> (\<forall>linkname'. normalizeFilepath linkname = Inr linkname' \<longrightarrow>
        symlink env s url linkname opts w =
          (Inl ArchiveNotWritableError,
           w\<lparr>auditLog := auditLog w @
                [\<lparr>caller = getURL s, action = ''symlink'',
                  args = Fields [(''url'', ArgStr (origin (parseDriveUrl env url))),
                                 (''target'', ArgStr filepath), (''linkname'', ArgStr linkname')],
                  writeSize = None, succeeded = False\<rparr>],
              trace := trace w @
                [EvTimer (to env opts), EvCheckin ''searching for drive'']
                @ resolveEvents env (hostname (parseDriveUrl env url)) d (Some v)\<rparr>))"
proof (intro impI)
  assume a: "version (parseDriveUrl env url) = Some v
   \<and> resolves env (hostname (parseDriveUrl env url)) d
   \<and> normalizeFilepath (pathname (parseDriveUrl env url)) = Inr filepath"
  then have v: "version (parseDriveUrl env url) = Some v"
    and r: "resolves env (hostname (parseDriveUrl env url)) d"
    and n: "normalizeFilepath (pathname (parseDriveUrl env url)) = Inr filepath" by simp_all
  note h = historic_task [OF v r]
  show "writeFile env s url data opts w =
     (Inl ArchiveNotWritableError,
      w\<lparr>auditLog := auditLog w @
           [\<lparr>caller = getURL s, action = ''writeFile'',
             args = Fields [(''url'', ArgStr (origin (parseDriveUrl env url))),
                            (''filepath'', ArgStr filepath)],
             writeSize = Some (byteLength env data (encoding (optsOr opts))),
             succeeded = False\<rparr>],
         trace := trace w @
           [EvTimer (to env (Some (optsOr opts))), EvCheckin ''looking up drive'']
           @ resolveEvents env (hostname (parseDriveUrl env url)) d (Some v)\<rparr>)
   \<and> mkdir env s url opts w =
     (Inl ArchiveNotWritableError,
      w\<lparr>auditLog := auditLog w @
           [\<lparr>caller = getURL s, action = ''mkdir'',
             args = Fields [(''url'', ArgStr (origin (parseDriveUrl env url))),
                            (''filepath'', ArgStr filepath), (''opts'', ArgOpts opts)],
             writeSize = None, succeeded = False\<rparr>],
         trace := trace w @
           [EvTimer (to env opts), EvCheckin ''searching for drive'']
           @ resolveEvents env (hostname (parseDriveUrl env url)) d (Some v)\<rparr>)
   \<and> mount env s url mnt opts w =
     (Inl ArchiveNotWritableError,
      w\<lparr>auditLog := auditLog w @
           [\<lparr>caller = getURL s, action = ''mount'',
             args = Fields [(''url'', ArgStr (origin (parseDriveUrl env url))),
                            (''filepath'', ArgStr filepath), (''opts'', ArgOpts opts)],
             writeSize = None, succeeded = False\<rparr>],
         trace := trace w @
           [EvTimer (to env opts), EvCheckin ''searching for drive'']
           @ resolveEvents env (hostname (parseDriveUrl env url)) d (Some v)\<rparr>)
   \<and> (\<forall>linkname'. normalizeFilepath linkname = Inr linkname' \<longrightarrow>
        symlink env s url linkname opts w =
          (Inl ArchiveNotWritableError,
           w\<lparr>auditLog := auditLog w @
                [\<lparr>caller = getURL s, action = ''symlink'',
                  args = Fields [(''url'', ArgStr (origin (parseDriveUrl env url))),
                                 (''target'', ArgStr filepath), (''linkname'', ArgStr linkname')],
                  writeSize = None, succeeded = False\<rparr>],
              trace := trace w @
                [EvTimer (to env opts), EvCheckin ''searching for drive'']
                @ resolveEvents env (hostname (parseDriveUrl env url)) d (Some v)\<rparr>))"
    by (simp add: writeFile_def mkdir_def mount_def symlink_def n h auditLog_record_def timer_def
          bindE_def liftE_def emit_def)
qed

theorem historic_checkout_not_writable_witness:
  "version (parseDriveUrl exampleEnv (str ''hyper://alice+3/notes.txt'')) = Some (str ''3'')
   \<and> resolves exampleEnv (hostname (parseDriveUrl exampleEnv (str ''hyper://alice+3/notes.txt''))) driveA
   \<and> normalizeFilepath (pathname (parseDriveUrl exampleEnv (str ''hyper://alice+3/notes.txt'')))
       = Inr (str ''/notes.txt'')
   \<and> fst (writeFile exampleEnv webSender (str ''hyper://alice+3/notes.txt'') (str ''hi'') None grantedA)
       = Inl ArchiveNotWritableError
   \<and> trace (snd (writeFile exampleEnv webSender (str ''hyper://alice+3/notes.txt'') (str ''hi'') None
                    grantedA))
       = [EvTimer 60000, EvCheckin ''looking up drive'', EvGetDrive (str ''alice''),
          EvGetDriveCheckout driveA (Some (str ''3''))]
   \<and> fst (mkdir exampleEnv beakerSender (str ''hyper://alice+3/notes.txt'') None exampleWorld)
       = Inl ArchiveNotWritableError
   \<and> fst (mount exampleEnv webSender (str ''hyper://alice+3/notes.txt'') Undefined None exampleWorld)
       = Inl ArchiveNotWritableError
   \<and> fst (symlink exampleEnv webSender (str ''hyper://alice+3/notes.txt'') (str ''link'') None
             exampleWorld)
       = Inl ArchiveNotWritableError"
proof -
  let ?u = "str ''hyper://alice+3/notes.txt''"
  have v: "version (parseDriveUrl exampleEnv ?u) = Some (str ''3'')" by simp
  have r: "resolves exampleEnv (hostname (parseDriveUrl exampleEnv ?u)) driveA"
    by (simp add: resolves_def)
  have n: "normalizeFilepath (pathname (parseDriveUrl exampleEnv ?u)) = Inr (str ''/notes.txt'')"
    by simp
  have k: "normalizeFilepath (str ''link'') = Inr (str ''/link'')" by simp
  note h = conjI [OF v conjI [OF r n]]
  have a: "fst (writeFile exampleEnv webSender ?u (str ''hi'') None grantedA)
       = Inl ArchiveNotWritableError
     \<and> trace (snd (writeFile exampleEnv webSender ?u (str ''hi'') None grantedA))
       = [EvTimer 60000, EvCheckin ''looking up drive'', EvGetDrive (str ''alice''),
          EvGetDriveCheckout driveA (Some (str ''3''))]"
    using historic_checkout_not_writable [of exampleEnv ?u "str ''3''" driveA "str ''/notes.txt''"
        webSender "str ''hi''" None grantedA, rule_format, OF h]
    by (simp add: resolveEvents_def to_def optsOr_def noOpts_def grantedA_def exampleWorld_def)
  have b: "fst (mkdir exampleEnv beakerSender ?u None exampleWorld) = Inl ArchiveNotWritableError"
    using historic_checkout_not_writable [of exampleEnv ?u "str ''3''" driveA "str ''/notes.txt''"
        beakerSender _ None exampleWorld, rule_format, OF h]
    by simp
  have c: "fst (mount exampleEnv webSender ?u Undefined None exampleWorld)
       = Inl ArchiveNotWritableError"
    using historic_checkout_not_writable [of exampleEnv ?u "str ''3''" driveA "str ''/notes.txt''"
        webSender _ None exampleWorld Undefined, rule_format, OF h]
    by simp
  have d: "fst (symlink exampleEnv webSender ?u (str ''link'') None exampleWorld)
       = Inl ArchiveNotWritableError"
    using historic_checkout_not_writable [of exampleEnv ?u "str ''3''" driveA "str ''/notes.txt''"
        webSender _ None exampleWorld _ "str ''link''", rule_format, OF h] k
    by simp
  from v r n a b c d show ?thesis by simp
qed

text \<open>
  C2 as stated fails: with a link name that cannot be percent-decoded, \<open>symlink\<close> on
  a URL with an explicit version fails with \<open>URIError\<close> before anything else
  happens.
\<close>

theorem historic_checkout_counterexample:
  "version (parseDriveUrl exampleEnv (str ''hyper://alice+3/notes.txt'')) = Some (str ''3'')
   \<and> symlink exampleEnv webSender (str ''hyper://alice+3/notes.txt'') (str ''%'') None exampleWorld
       = (Inl URIError, exampleWorld)"
  by (simp add: symlink_def bindE_def liftE_def)

text \<open>
  C10. When \<open>query\<close> is called with an absent or falsy \<open>drive\<close> option, it returns the
  empty array and leaves the world as it was: no drive is looked up, no query runs,
  no timer is started and nothing is written to the audit log.
\<close>

theorem query_without_drive:
  "falsyDrive (qdrive x) \<Longrightarrow> query env s (Some x) w = (Inr [], w)"
  by (simp add: query_def io_defs)

theorem query_without_drive_witness:
  "falsyDrive (qdrive secondByName)
   \<and> query exampleEnv webSender (Some secondByName) grantedA = (Inr [], grantedA)
   \<and> falsyDrive (qdrive (secondByName\<lparr>qdrive := OneDrive []\<rparr>))
   \<and> query exampleEnv webSender (Some (secondByName\<lparr>qdrive := OneDrive []\<rparr>)) grantedA
       = (Inr [], grantedA)"
proof -
  have a: "falsyDrive (qdrive secondByName)"
    by (simp add: falsyDrive_def secondByName_def)
  have b: "falsyDrive (qdrive (secondByName\<lparr>qdrive := OneDrive []\<rparr>))"
    by (simp add: falsyDrive_def)
  from a b query_without_drive [OF a, of exampleEnv webSender grantedA]
    query_without_drive [OF b, of exampleEnv webSender grantedA]
  show ?thesis by simp
qed

subsection \<open>The audit log\<close>

lemma keepsAudit_ret [simp]: "keepsAudit (ret x)"
  by (simp add: keepsAudit_def ret_def)

lemma keepsAudit_throw [simp]: "keepsAudit (throw e)"
  by (simp add: keepsAudit_def throw_def)

lemma keepsAudit_liftE [simp]: "keepsAudit (liftE r)"
  by (simp add: keepsAudit_def liftE_def)

lemma keepsAudit_emit [simp]: "keepsAudit (emit e)"
  by (simp add: keepsAudit_def emit_def)

lemma keepsAudit_marks [simp]: "keepsAudit (checkin l)" "keepsAudit pause" "keepsAudit resume"
  by (simp_all add: checkin_def pause_def resume_def)

lemma keepsAudit_bindE: "keepsAudit m \<Longrightarrow> (\<And>x. keepsAudit (f x)) \<Longrightarrow> keepsAudit (bindE m f)"
  unfolding keepsAudit_def bindE_def
proof
  fix w
  assume m: "\<forall>w. auditLog (snd (m w)) = auditLog w"
    and f: "\<And>x. \<forall>w. auditLog (snd (f x w)) = auditLog w"
  obtain r w' where p: "m w = (r, w')" by (cases "m w")
  with m [rule_format, of w] have "auditLog w' = auditLog w" by simp
  with p f show "auditLog (snd (case m w of (Inl e, w') \<Rightarrow> (Inl e, w') | (Inr x, w') \<Rightarrow> f x w'))
      = auditLog w"
    by (cases r) simp_all
qed

lemma keepsAudit_if: "(b \<Longrightarrow> keepsAudit m) \<Longrightarrow> (\<not> b \<Longrightarrow> keepsAudit n) \<Longrightarrow> keepsAudit (if b then m else n)"
  by simp

lemma keepsAudit_option:
  "keepsAudit m \<Longrightarrow> (\<And>x. keepsAudit (f x)) \<Longrightarrow> keepsAudit (case v of None \<Rightarrow> m | Some x \<Rightarrow> f x)"
  by (cases v) simp_all

lemma keepsAudit_prod: "(\<And>a b. keepsAudit (f a b)) \<Longrightarrow> keepsAudit (case p of (a, b) \<Rightarrow> f a b)"
  by (cases p) simp

lemma keepsAudit_state: "(\<And>w. auditLog (snd (g w)) = auditLog w) \<Longrightarrow> keepsAudit g"
  by (simp add: keepsAudit_def)

lemmas keeps = keepsAudit_bindE keepsAudit_if keepsAudit_option keepsAudit_prod keepsAudit_ret
  keepsAudit_throw keepsAudit_liftE keepsAudit_emit keepsAudit_marks

lemma keepsAudit_pdaCall [simp]: "keepsAudit (pdaCall env c call)"
  unfolding pdaCall_def by (intro keeps)

lemma keepsAudit_pdaModule [simp]: "keepsAudit (pdaModule env name cs)"
  unfolding pdaModule_def by (intro keeps)

lemma keepsAudit_readSize [simp]: "keepsAudit (readSize env d p)"
  unfolding readSize_def by (intro keeps)

lemma keepsAudit_getDriveCheckout [simp]: "keepsAudit (drives_getDriveCheckout d v)"
  unfolding drives_getDriveCheckout_def by (intro keeps)

lemma keepsAudit_lookupDrive [simp]: "keepsAudit (lookupDrive env s k v)"
  unfolding lookupDrive_def by (intro keeps keepsAudit_getDriveCheckout)

lemma keepsAudit_lookupUrlDriveKey [simp]: "keepsAudit (lookupUrlDriveKey env u)"
  unfolding lookupUrlDriveKey_def by (intro keeps)

lemma keepsAudit_queryPermission [simp]: "keepsAudit (permissions_queryPermission env p s)"
  unfolding permissions_queryPermission_def by (intro keeps keepsAudit_state) simp

lemma keepsAudit_requestPermission [simp]: "keepsAudit (permissions_requestPermission env p s c)"
  by (cases "userAnswer env p s")
     (simp_all add: keepsAudit_def permissions_requestPermission_def io_defs)

lemma keepsAudit_grantPermission [simp]: "keepsAudit (permissions_grantPermission env p u)"
  unfolding permissions_grantPermission_def by (intro keeps keepsAudit_state) simp

lemma keepsAudit_getMeta [simp]: "keepsAudit (archivesDb_getMeta k)"
  unfolding archivesDb_getMeta_def by (intro keeps keepsAudit_state) simp

lemma keepsAudit_assertWritePermission [simp]: "keepsAudit (assertWritePermission env d s)"
  unfolding assertWritePermission_def
  by (intro keeps keepsAudit_lookupUrlDriveKey keepsAudit_queryPermission
        keepsAudit_requestPermission)

lemma keepsAudit_assertCreateDrivePermission [simp]: "keepsAudit (assertCreateDrivePermission env s)"
  unfolding assertCreateDrivePermission_def by (intro keeps keepsAudit_requestPermission)

lemma keepsAudit_assertQuotaPermission [simp]: "keepsAudit (assertQuotaPermission env d so n)"
  unfolding assertQuotaPermission_def by (intro keeps keepsAudit_getMeta)

lemma keepsAudit_timer: "keepsAudit m \<Longrightarrow> keepsAudit (timer t m)"
  unfolding timer_def by (intro keeps)

lemma keepsAudit_both: "keepsAudit m \<Longrightarrow> keepsAudit n \<Longrightarrow> keepsAudit (both m n)"
  unfolding keepsAudit_def both_def by (auto split: prod.splits) (metis snd_conv)

lemma keepsAudit_runModal [simp]: "keepsAudit (runModal env s kind flds)"
  unfolding runModal_def by (auto intro!: keeps split: sum.splits option.splits)

lemma keepsAudit_emitAll [simp]: "keepsAudit (emitAll es)"
  by (induction es) (auto intro!: keeps)

lemma keepsAudit_lookupAll [simp]: "keepsAudit (lookupAll env s us)"
  by (induction us) (auto intro!: keeps)

lemma keepsAudit_queryAll [simp]: "keepsAudit (queryAll env cs opts)"
  unfolding queryAll_def by (intro keeps keepsAudit_emitAll)

lemmas keeps' = keeps keepsAudit_pdaCall keepsAudit_pdaModule keepsAudit_readSize
  keepsAudit_lookupDrive keepsAudit_lookupUrlDriveKey
  keepsAudit_assertWritePermission keepsAudit_assertCreateDrivePermission
  keepsAudit_assertQuotaPermission keepsAudit_grantPermission keepsAudit_runModal
  keepsAudit_lookupAll keepsAudit_queryAll

lemma keepsAudit_tasks:
  "keepsAudit (getInfo_task env s url)"
  "keepsAudit (configure_task env s url settings)"
  "keepsAudit (diff_task env s up other)"
  "keepsAudit (stat_task env s up filepath)"
  "keepsAudit (readFile_task env s up filepath o1)"
  "keepsAudit (writeFile_task env s up filepath data o1 n)"
  "keepsAudit (unlink_task env s up filepath)"
  "keepsAudit (copy_task env s url srcpath dstpath src n)"
  "keepsAudit (rename_task env s up srcpath dstpath)"
  "keepsAudit (updateMetadata_task env s up filepath metadata)"
  "keepsAudit (deleteMetadata_task env s up filepath keys)"
  "keepsAudit (mkdir_task env s up filepath o2)"
  "keepsAudit (rmdir_task env s up filepath o1)"
  "keepsAudit (symlink_task env s up target linkname)"
  "keepsAudit (mount_task env s up filepath mnt)"
  "keepsAudit (unmount_task env s up filepath)"
  "keepsAudit (query_task env s qo)"
  unfolding getInfo_task_def configure_task_def diff_task_def stat_task_def readFile_task_def
    writeFile_task_def unlink_task_def copy_task_def rename_task_def updateMetadata_task_def
    deleteMetadata_task_def mkdir_task_def rmdir_task_def symlink_task_def mount_task_def
    unmount_task_def query_task_def
  by (intro keeps')+

lemma keepsAudit_readdir_task: "keepsAudit (readdir_task env s up filepath o1)"
  unfolding readdir_task_def
  by (intro keeps' allI) (auto intro!: keeps split: jsval.splits)

lemma keepsAudit_unrecorded:
  "keepsAudit (createDrive env s title description author visibility prompt)"
  "keepsAudit (forkDrive env s url detached title description label prompt)"
  "keepsAudit (loadDrive env s ou)"
  "keepsAudit (watch env s url pathPattern)"
  "keepsAudit (createNetworkActivityStream env s url)"
  "keepsAudit (importFromFilesystem env s url)"
  "keepsAudit (exportToFilesystem env s url)"
  "keepsAudit (exportToDrive env s url url')"
  unfolding createDrive_def forkDrive_def loadDrive_def watch_def createNetworkActivityStream_def
    importFromFilesystem_def exportToFilesystem_def exportToDrive_def
  by (intro keeps')+

lemma keepsAudit_beaker:
  "keepsAudit (beakerDiff env s srcUrl dstUrl)"
  "keepsAudit (beakerMerge env s srcUrl dstUrl)"
  unfolding beakerDiff_def beakerMerge_def
  by (intro keeps' keepsAudit_both)+

lemma record_appends:
  assumes "keepsAudit fn"
  shows "\<exists>e. auditLog (snd (auditLog_record c m a n fn w)) = auditLog w @ [e]
          \<and> caller e = c \<and> action e = m
          \<and> succeeded e = (\<exists>v. fst (auditLog_record c m a n fn w) = Inr v)"
proof -
  obtain r w' where p: "fn w = (r, w')" by (cases "fn w")
  with assms have "auditLog w' = auditLog w" unfolding keepsAudit_def by (metis snd_conv)
  with p show ?thesis by (cases r) (simp_all add: auditLog_record_def)
qed

lemma record_result:
  "fst (auditLog_record c m a n fn w) = fst (fn w)"
  "snd (auditLog_record c m a n fn w) =
     (snd (fn w))\<lparr>auditLog := auditLog (snd (fn w)) @
        [\<lparr>caller = c, action = m, args = a, writeSize = n,
          succeeded = (case fst (fn w) of Inl e \<Rightarrow> False | Inr v \<Rightarrow> True)\<rparr>]\<rparr>"
  by (simp_all add: auditLog_record_def split: prod.splits)

lemma normalize_then_record:
  assumes "\<And>fp. keepsAudit (g fp)"
  shows "(\<not> normalizes p \<longrightarrow>
           auditLog (snd (bindE (liftE (normalizeFilepath p))
              (\<lambda>fp. auditLog_record c m (a fp) (n fp) (g fp)) w)) = auditLog w)
       \<and> (normalizes p \<longrightarrow>
           (\<exists>e. auditLog (snd (bindE (liftE (normalizeFilepath p))
                   (\<lambda>fp. auditLog_record c m (a fp) (n fp) (g fp)) w)) = auditLog w @ [e]
              \<and> caller e = c \<and> action e = m
              \<and> succeeded e = (\<exists>v. fst (bindE (liftE (normalizeFilepath p))
                   (\<lambda>fp. auditLog_record c m (a fp) (n fp) (g fp)) w) = Inr v)))"
proof (cases "normalizeFilepath p")
  case (Inl e)
  then show ?thesis by (simp add: normalizes_def bindE_liftE_Inl throw_def)
next
  case (Inr fp)
  then show ?thesis
    using record_appends [OF assms [of fp], where c = c and m = m and a = "a fp" and n = "n fp"
        and w = w]
    by (simp add: normalizes_def bindE_liftE_Inr)
qed

lemma normalize2_then_record:
  assumes "\<And>fp fq. keepsAudit (g fp fq)"
  shows "(\<not> (normalizes p \<and> normalizes q) \<longrightarrow>
           auditLog (snd (bindE (liftE (normalizeFilepath p)) (\<lambda>fp.
              bindE (liftE (normalizeFilepath q)) (\<lambda>fq.
              auditLog_record c m (a fp fq) (n fp fq) (g fp fq))) w)) = auditLog w)
       \<and> (normalizes p \<and> normalizes q \<longrightarrow>
           (\<exists>e. auditLog (snd (bindE (liftE (normalizeFilepath p)) (\<lambda>fp.
                   bindE (liftE (normalizeFilepath q)) (\<lambda>fq.
                   auditLog_record c m (a fp fq) (n fp fq) (g fp fq))) w)) = auditLog w @ [e]
              \<and> caller e = c \<and> action e = m
              \<and> succeeded e = (\<exists>v. fst (bindE (liftE (normalizeFilepath p)) (\<lambda>fp.
                   bindE (liftE (normalizeFilepath q)) (\<lambda>fq.
                   auditLog_record c m (a fp fq) (n fp fq) (g fp fq))) w) = Inr v)))"
proof (cases "normalizeFilepath p")
  case (Inl e)
  then show ?thesis by (simp add: normalizes_def bindE_liftE_Inl throw_def)
next
  case (Inr fp)
  then show ?thesis
    using normalize_then_record [where g = "g fp" and p = q and c = c and m = m and a = "a fp"
        and n = "n fp" and w = w] assms
    by (simp add: normalizes_def bindE_liftE_Inr)
qed

lemma val_simps [simp]:
  "snd (val m w) = snd (m w)"
  "(\<exists>v. fst (val m w) = Inr v) = (\<exists>v. fst (m w) = Inr v)"
  by (auto simp: val_def bindE_def ret_def split: prod.splits sum.splits)

lemma val_fst: "fst (val m w) = (case fst (m w) of Inl e \<Rightarrow> Inl e | Inr v \<Rightarrow> Inr (Val v))"
  by (simp add: val_def bindE_def ret_def split: prod.splits sum.splits)

lemma matches_simps [simp]:
  "snd (bindE m (\<lambda>ms. ret (Matches ms)) w) = snd (m w)"
  "(\<exists>v. fst (bindE m (\<lambda>ms. ret (Matches ms)) w) = Inr v) = (\<exists>v. fst (m w) = Inr v)"
  by (auto simp: bindE_def ret_def split: prod.splits sum.splits)

lemmas timed_tasks = keepsAudit_tasks [THEN keepsAudit_timer] keepsAudit_readdir_task [THEN keepsAudit_timer]

lemma copy_audit:
  "(\<not> (normalizes (pathname (parseDriveUrl env url)) \<and> normalizes dstpath
        \<and> copySourceRead env s url w) \<longrightarrow>
      auditLog (snd (copy env s url dstpath opts w)) = auditLog w)
   \<and> (normalizes (pathname (parseDriveUrl env url)) \<and> normalizes dstpath
        \<and> copySourceRead env s url w \<longrightarrow>
      (\<exists>e. auditLog (snd (copy env s url dstpath opts w)) = auditLog w @ [e]
         \<and> caller e = getURL s \<and> action e = ''copy''
         \<and> succeeded e = (\<exists>v. fst (copy env s url dstpath opts w) = Inr v)))"
proof (cases "normalizeFilepath (pathname (parseDriveUrl env url))")
  case (Inl e)
  then show ?thesis by (simp add: normalizes_def copy_def bindE_liftE_Inl throw_def)
next
  case sp: (Inr srcpath)
  show ?thesis
  proof (cases "normalizeFilepath dstpath")
    case (Inl e)
    with sp show ?thesis by (simp add: normalizes_def copy_def bindE_liftE_Inl bindE_liftE_Inr throw_def)
  next
    case dp: (Inr dstpath')
    let ?lk = "lookupDrive env s (hostname (parseDriveUrl env url)) (version (parseDriveUrl env url))"
    obtain r1 w1 where l: "?lk w = (r1, w1)" by (cases "?lk w")
    have a1: "auditLog w1 = auditLog w"
      using keepsAudit_lookupDrive [of env s "hostname (parseDriveUrl env url)"
          "version (parseDriveUrl env url)"] l unfolding keepsAudit_def by (metis snd_conv)
    show ?thesis
    proof (cases r1)
      case (Inl e)
      with sp dp l a1 show ?thesis
        by (simp add: normalizes_def copy_def copySourceRead_def io_defs)
    next
      case src: (Inr src)
      obtain r2 w2 where rs: "readSize env (drive src) srcpath w1 = (r2, w2)"
        by (cases "readSize env (drive src) srcpath w1")
      have a2: "auditLog w2 = auditLog w1"
        using keepsAudit_readSize [of env "drive src" srcpath] rs unfolding keepsAudit_def
        by (metis snd_conv)
      show ?thesis
      proof (cases r2)
        case (Inl e)
        with sp dp l src rs a1 a2 show ?thesis
          by (simp add: normalizes_def copy_def copySourceRead_def io_defs)
      next
        case (Inr n)
        have k: "keepsAudit (timer (to env (Some (optsOr opts)))
            (copy_task env s (origin (parseDriveUrl env url)) srcpath dstpath' src n))"
          by (rule timed_tasks)
        from record_appends [OF k, where c = "getURL s" and m = "''copy''" and n = "Some n"
            and w = w2]
        show ?thesis
          using sp dp l src rs a1 a2 Inr
          by (simp add: normalizes_def copy_def copySourceRead_def io_defs)
      qed
    qed
  qed
qed

text \<open>
  C6 (as amended). An invocation that enters the recorder appends exactly one
  entry to the audit log, which names the sender and the operation and records
  whether the invocation succeeded; every other invocation leaves the audit log as
  it is. The operations written outside \<open>auditLog.record\<close> (\<open>createDrive\<close>,
  \<open>forkDrive\<close>, \<open>loadDrive\<close>, \<open>watch\<close>, \<open>createNetworkActivityStream\<close> and the
  five bulk operations) never enter it, and neither does an invocation that fails
  before it or a \<open>query\<close> without a truthy \<open>drive\<close> option. The recorder returns the
  result or error of the operation it wraps, and changes nothing but the audit log.
\<close>

theorem audit_entry_of_recorded_calls:
  "(\<not> entersRecorder env s w c \<longrightarrow> auditLog (snd (invoke env s c w)) = auditLog w)
   \<and> (entersRecorder env s w c \<longrightarrow>
        (\<exists>e. auditLog (snd (invoke env s c w)) = auditLog w @ [e]
           \<and> caller e = getURL s \<and> action e = callName c
           \<and> succeeded e = (\<exists>v. fst (invoke env s c w) = Inr v)))
   \<and> fst (auditLog_record a m g n fn w) = fst (fn w)
   \<and> snd (auditLog_record a m g n fn w) =
        (snd (fn w))\<lparr>auditLog := auditLog (snd (fn w)) @
           [\<lparr>caller = a, action = m, args = g, writeSize = n,
             succeeded = (case fst (fn w) of Inl e \<Rightarrow> False | Inr v \<Rightarrow> True)\<rparr>]\<rparr>"
proof -
  have "(\<not> entersRecorder env s w c \<longrightarrow> auditLog (snd (invoke env s c w)) = auditLog w)
   \<and> (entersRecorder env s w c \<longrightarrow>
        (\<exists>e. auditLog (snd (invoke env s c w)) = auditLog w @ [e]
           \<and> caller e = getURL s \<and> action e = callName c
           \<and> succeeded e = (\<exists>v. fst (invoke env s c w) = Inr v)))"
  proof (cases c)
    case (CreateDrive x1 x2 x3 x4 x5)
    then show ?thesis using keepsAudit_unrecorded(1) by (simp add: keepsAudit_def)
  next
    case (ForkDrive x1 x2 x3 x4 x5 x6)
    then show ?thesis using keepsAudit_unrecorded(2) by (simp add: keepsAudit_def)
  next
    case (LoadDrive x)
    then show ?thesis using keepsAudit_unrecorded(3) by (simp add: keepsAudit_def)
  next
    case (GetInfo url opts)
    then show ?thesis
      using record_appends [OF timed_tasks(1)] by (simp add: getInfo_def)
  next
    case (Configure url settings opts)
    then show ?thesis
      using record_appends [OF timed_tasks(2)] by (simp add: configure_def)
  next
    case (Diff url other opts)
    then show ?thesis
      using record_appends [OF timed_tasks(3)] by (simp add: diff_def)
  next
    case (Stat url opts)
    show ?thesis
      unfolding Stat stat_def invoke.simps entersRecorder.simps callName.simps val_simps
      by (intro normalize_then_record timed_tasks)
  next
    case (ReadFile url opts)
    show ?thesis
      unfolding ReadFile readFile_def invoke.simps entersRecorder.simps callName.simps val_simps
      by (intro normalize_then_record timed_tasks)
  next
    case (WriteFile url data opts)
    show ?thesis
      unfolding WriteFile writeFile_def invoke.simps entersRecorder.simps callName.simps val_simps
      by (intro normalize_then_record timed_tasks)
  next
    case (Unlink url opts)
    show ?thesis
      unfolding Unlink unlink_def invoke.simps entersRecorder.simps callName.simps val_simps
      by (intro normalize_then_record timed_tasks)
  next
    case (Copy url dstpath opts)
    then show ?thesis using copy_audit [of env url dstpath s w opts] by simp
  next
    case (Rename url dstpath opts)
    show ?thesis
      unfolding Rename rename_def invoke.simps entersRecorder.simps callName.simps val_simps
      by (intro normalize2_then_record timed_tasks)
  next
    case (UpdateMetadata url metadata opts)
    show ?thesis
      unfolding UpdateMetadata updateMetadata_def invoke.simps entersRecorder.simps callName.simps val_simps
      by (intro normalize_then_record timed_tasks)
  next
    case (DeleteMetadata url keys opts)
    show ?thesis
      unfolding DeleteMetadata deleteMetadata_def invoke.simps entersRecorder.simps callName.simps val_simps
      by (intro normalize_then_record timed_tasks)
  next
    case (Readdir url opts)
    show ?thesis
      unfolding Readdir readdir_def invoke.simps entersRecorder.simps callName.simps val_simps
      by (intro normalize_then_record timed_tasks)
  next
    case (Mkdir url opts)
    show ?thesis
      unfolding Mkdir mkdir_def invoke.simps entersRecorder.simps callName.simps val_simps
      by (intro normalize_then_record timed_tasks)
  next
    case (Rmdir url opts)
    show ?thesis
      unfolding Rmdir rmdir_def invoke.simps entersRecorder.simps callName.simps val_simps
      by (intro normalize_then_record timed_tasks)
  next
    case (Symlink url linkname opts)
    show ?thesis
      unfolding Symlink symlink_def invoke.simps entersRecorder.simps callName.simps val_simps
      by (intro normalize2_then_record timed_tasks)
  next
    case (Mount url mnt opts)
    show ?thesis
      unfolding Mount mount_def invoke.simps entersRecorder.simps callName.simps val_simps
      by (intro normalize_then_record timed_tasks)
  next
    case (Unmount url opts)
    show ?thesis
      unfolding Unmount unmount_def invoke.simps entersRecorder.simps callName.simps val_simps
      by (intro normalize_then_record timed_tasks)
  next
    case (Query opts)
    show ?thesis
    proof (cases opts)
      case None
      with Query show ?thesis by (simp add: query_def throw_def)
    next
      case (Some x)
      show ?thesis
      proof (cases "falsyDrive (qdrive x)")
        case True
        then have "query env s opts w = (Inr [], w)" by (simp add: query_def ret_def Some)
        with Query Some True show ?thesis by (simp add: bindE_def ret_def)
      next
        case False
        with Query Some show ?thesis
          using record_appends [OF timed_tasks(17), where c = "getURL s" and m = "''query''"
              and a = "QueryOpts x" and n = None and w = w]
          by (simp add: query_def)
      qed
    qed
  next
    case (Watch url pathPattern)
    then show ?thesis using keepsAudit_unrecorded(4) by (simp add: keepsAudit_def)
  next
    case (CreateNetworkActivityStream url)
    then show ?thesis using keepsAudit_unrecorded(5) by (simp add: keepsAudit_def)
  next
    case (BeakerDiff x1 x2)
    then show ?thesis using keepsAudit_beaker(1) by (simp add: keepsAudit_def)
  next
    case (BeakerMerge x1 x2)
    then show ?thesis using keepsAudit_beaker(2) by (simp add: keepsAudit_def)
  next
    case (ImportFromFilesystem dst)
    then show ?thesis using keepsAudit_unrecorded(6) by (simp add: keepsAudit_def)
  next
    case (ExportToFilesystem src)
    then show ?thesis using keepsAudit_unrecorded(7) by (simp add: keepsAudit_def)
  next
    case (ExportToDrive src dst)
    then show ?thesis using keepsAudit_unrecorded(8) by (simp add: keepsAudit_def)
  qed
  then show ?thesis by (simp add: record_result)
qed


theorem audit_entry_of_recorded_calls_witness:
  "entersRecorder exampleEnv webSender exampleWorld
     (WriteFile (str ''hyper://alice/notes.txt'') (str ''hi'') None)
   \<and> fst (invoke exampleEnv webSender (WriteFile (str ''hyper://alice/notes.txt'') (str ''hi'') None)
            exampleWorld) = Inl UserDeniedError
   \<and> (\<exists>e. auditLog (snd (invoke exampleEnv webSender
                 (WriteFile (str ''hyper://alice/notes.txt'') (str ''hi'') None) exampleWorld))
            = auditLog exampleWorld @ [e]
          \<and> caller e = getURL webSender \<and> action e = ''writeFile'' \<and> \<not> succeeded e)
   \<and> fst (invoke exampleEnv beakerSender (WriteFile (str ''hyper://alice/notes.txt'') (str ''hi'') None)
            exampleWorld) = Inr (Val Undefined)
   \<and> (\<exists>e. auditLog (snd (invoke exampleEnv beakerSender
                 (WriteFile (str ''hyper://alice/notes.txt'') (str ''hi'') None) exampleWorld))
            = auditLog exampleWorld @ [e]
          \<and> caller e = getURL beakerSender \<and> action e = ''writeFile'' \<and> succeeded e)
   \<and> \<not> entersRecorder exampleEnv webSender exampleWorld
         (Symlink (str ''hyper://alice/notes.txt'') (str ''%'') None)
   \<and> auditLog (snd (invoke exampleEnv webSender
         (Symlink (str ''hyper://alice/notes.txt'') (str ''%'') None) exampleWorld))
       = auditLog exampleWorld"
proof -
  let ?c = "WriteFile (str ''hyper://alice/notes.txt'') (str ''hi'') None"
  let ?k = "Symlink (str ''hyper://alice/notes.txt'') (str ''%'') None"
  have e1: "entersRecorder exampleEnv s exampleWorld ?c" for s
    by (simp add: normalizes_def)
  have e2: "\<not> entersRecorder exampleEnv webSender exampleWorld ?k"
    by (simp add: normalizes_def)
  have v: "assertValidFilePath exampleEnv (str ''/notes.txt'') = Inr ()"
    by (simp add: assertValidFilePath_def assertValidPath_def sliceLast_def examplePathRegex_def
          examplePathChar_def str_def)
  have o: "startsWith (exampleOrigin (getURL beakerSender)) (str ''beaker:'')"
    by (simp add: exampleOrigin_def beakerSender_def startsWith_def str_def)
  have w1: "fst (writeFile exampleEnv webSender (str ''hyper://alice/notes.txt'') (str ''hi'') None
      exampleWorld) = Inl UserDeniedError"
    by (simp add: writeFile_def writeFile_task_def lookupDrive_alice
          assertWritePermission_web auditLog_record_def timer_def io_defs exampleWorld_def)
  have w2: "fst (writeFile exampleEnv beakerSender (str ''hyper://alice/notes.txt'') (str ''hi'') None
      exampleWorld) = Inr Undefined"
    by (simp add: writeFile_def writeFile_task_def lookupDrive_alice
          assertWritePermission_def assertQuotaPermission_def o v assertUnprotectedFilePath_def
          pdaCall_def auditLog_record_def timer_def io_defs exampleWorld_def)
  have r1: "fst (invoke exampleEnv webSender ?c exampleWorld) = Inl UserDeniedError"
    using w1 by (simp add: val_fst)
  have r2: "fst (invoke exampleEnv beakerSender ?c exampleWorld) = Inr (Val Undefined)"
    using w2 by (simp add: val_fst)
  from audit_entry_of_recorded_calls [of exampleEnv webSender exampleWorld ?c,
      THEN conjunct2, THEN conjunct1] e1 w1
  have a: "\<exists>e. auditLog (snd (invoke exampleEnv webSender ?c exampleWorld))
            = auditLog exampleWorld @ [e]
          \<and> caller e = getURL webSender \<and> action e = ''writeFile'' \<and> \<not> succeeded e"
    by simp
  from audit_entry_of_recorded_calls [of exampleEnv beakerSender exampleWorld ?c,
      THEN conjunct2, THEN conjunct1] e1 w2
  have b: "\<exists>e. auditLog (snd (invoke exampleEnv beakerSender ?c exampleWorld))
            = auditLog exampleWorld @ [e]
          \<and> caller e = getURL beakerSender \<and> action e = ''writeFile'' \<and> succeeded e"
    by simp
  from audit_entry_of_recorded_calls [of exampleEnv webSender exampleWorld ?k,
      THEN conjunct1] e2
  have c: "auditLog (snd (invoke exampleEnv webSender ?k exampleWorld)) = auditLog exampleWorld"
    by blast
  from e1 [of webSender] r1 a r2 b e2 c show ?thesis by blast
qed

text \<open>
  C6 as stated fails: \<open>loadDrive\<close> is a public operation, it succeeds here, and it
  appends no audit entry.
\<close>

theorem audit_entry_counterexample:
  "fst (invoke exampleEnv webSender (LoadDrive (Some (str ''hyper://alice/''))) exampleWorld)
     = Inr (Val (Bool True))
   \<and> auditLog (snd (invoke exampleEnv webSender (LoadDrive (Some (str ''hyper://alice/'')))
        exampleWorld)) = []"
  by (simp add: val_def loadDrive_def io_defs exampleEnv_def exampleEnv0_def exampleDrive_def
        exampleParse_def startsWith_def exampleWorld_def str_def)

subsection \<open>Copy, rename and query at concrete inputs\<close>

lemma parse_bob_dst [simp]:
  "exampleParse (str ''hyper://bob/a%b'') =
     \<lparr>protocol = str ''hyper:'', host = str ''bob'', hostname = str ''bob'',
      pathname = str ''/a%b'', origin = str ''hyper://bob/'', version = None\<rparr>"
  by (simp add: exampleParse_def startsWith_def str_def)

lemma exampleDrive_urls [simp]:
  "exampleDrive (str ''hyper://bob/a%b'') = Some driveB"
  "exampleDrive (str ''bob'') = Some driveB"
  by (simp_all add: exampleDrive_def exampleParse_def startsWith_def str_def)

lemma normalize_dst [simp]:
  "normalizeFilepath (str ''hyper://bob/a%25b'') = Inr (str ''hyper://bob/a%b'')"
  by code_simp

lemma includes_examples [simp]:
  "includesStr (str ''hyper://bob/a%b'') (str ''://'')"
  "\<not> includesStr (str ''/notes.txt'') (str ''://'')"
  by (simp_all add: str_def startsWith_def)

lemma invalid_dst: "assertValidPath exampleEnv (str ''/a%b'') = Inl InvalidPathError"
  by (simp add: assertValidPath_def examplePathRegex_def examplePathChar_def str_def)

lemma unprotected_dst [simp]:
  "assertUnprotectedFilePath exampleEnv (str ''/a%b'') webSender = Inr ()"
  "assertUnprotectedFilePath exampleEnv (str ''/notes.txt'') webSender = Inr ()"
  by (simp_all add: assertUnprotectedFilePath_def str_def)

lemma granted_B [simp]:
  "map_of (grants grantedB) (str ''https://example.com'', str ''modifyDrive:'' @ keyB) = Some True"
  "metaSize grantedB k = 0" "auditLog grantedB = []" "trace grantedB = []"
  by (simp_all add: grantedB_def exampleWorld_def)

lemma quota_web:
  "assertQuotaPermission exampleEnv d (str ''https://example.com'') n w =
     (if metaSize w (key d) + n > 524288000 then Inl QuotaExceededError else Inr (),
      w\<lparr>trace := trace w @ [EvGetMeta (key d)]\<rparr>)"
  by (simp add: assertQuotaPermission_eq startsWith_def str_def)

text \<open>
  C8 fails on the code for \<open>copy\<close>. \<open>rename\<close> tests the destination path with
  \<open>assertValidPath\<close> before it calls the file primitive; \<open>copy\<close> has no such test.
  With write permission on the destination drive, a cross-drive copy to a path
  that \<open>assertValidPath\<close> rejects succeeds, and its last call is the file primitive;
  the same rename fails with \<open>InvalidPathError\<close>.
\<close>

theorem copy_skips_path_check:
  "assertValidPath exampleEnv (str ''/a%b'') = Inl InvalidPathError
   \<and> fst (copy exampleEnv webSender (str ''hyper://alice/notes.txt'') (str ''hyper://bob/a%25b'') None
            grantedB) = Inr Undefined
   \<and> last (trace (snd (copy exampleEnv webSender (str ''hyper://alice/notes.txt'')
                          (str ''hyper://bob/a%25b'') None grantedB)))
       = EvPda (Live driveA) (PdaCopy (str ''/notes.txt'') (Live driveB) (str ''/a%b''))
   \<and> fst (rename exampleEnv webSender (str ''hyper://alice/notes.txt'') (str ''hyper://bob/a%25b'') None
            grantedB) = Inl InvalidPathError"
  by (simp add: invalid_dst copy_def copy_task_def rename_def rename_task_def lookupDrive_eq
        readSize_def pathOfUrl_def assertWritePermission_web quota_web pdaCall_def
        auditLog_record_def timer_def io_defs)

lemma parse_roots [simp]:
  "exampleParse (str ''hyper://alice/'') =
     \<lparr>protocol = str ''hyper:'', host = str ''alice'', hostname = str ''alice'',
      pathname = str ''/'', origin = str ''hyper://alice/'', version = None\<rparr>"
  "exampleParse (str ''hyper://bob/'') =
     \<lparr>protocol = str ''hyper:'', host = str ''bob'', hostname = str ''bob'',
      pathname = str ''/'', origin = str ''hyper://bob/'', version = None\<rparr>"
  by (simp_all add: exampleParse_def startsWith_def str_def)

lemma twoDrives_fields [simp]:
  "qdrive twoDrives = ManyDrives [str ''hyper://alice/'', str ''hyper://bob/'']"
  "qsort twoDrives = Some (str ''name'')" "qreverse twoDrives = False"
  "qoffset twoDrives = Some 1" "qlimit twoDrives = Some 1" "timeout twoDrives = None"
  by (simp_all add: twoDrives_def secondByName_def)

lemma basenames [simp]:
  "exampleLower (exampleBasename (str ''/a.txt'')) = str ''a.txt''"
  "exampleLower (exampleBasename (str ''/b.txt'')) = str ''b.txt''"
  "exampleLower (exampleBasename (str ''/c.txt'')) = str ''c.txt''"
  "exampleLower (exampleBasename (str ''/d.txt'')) = str ''d.txt''"
  by (simp_all add: exampleLower_def exampleBasename_def str_def)

lemma compares [simp]:
  "exampleCompare (str ''a.txt'') (str ''c.txt'') = - 1"
  "exampleCompare (str ''b.txt'') (str ''d.txt'') = - 1"
  "exampleCompare (str ''c.txt'') (str ''d.txt'') = - 1"
  "exampleCompare (str ''a.txt'') (str ''b.txt'') = - 1"
  "exampleCompare (str ''b.txt'') (str ''c.txt'') = - 1"
  "exampleCompare (str ''a.txt'') (str ''d.txt'') = - 1"
  "exampleCompare (str ''c.txt'') (str ''b.txt'') = 1"
  "exampleCompare (str ''d.txt'') (str ''b.txt'') = 1"
  "exampleCompare (str ''d.txt'') (str ''c.txt'') = 1"
  "exampleCompare (str ''c.txt'') (str ''a.txt'') = 1"
  "exampleCompare (str ''b.txt'') (str ''a.txt'') = 1"
  "exampleCompare (str ''d.txt'') (str ''a.txt'') = 1"
  by (simp_all add: str_def)

lemma env0_fields [simp]:
  "path_basename exampleEnv0 = exampleBasename" "toLowerCase exampleEnv0 = exampleLower"
  "localeCompare exampleEnv0 = exampleCompare"
  by (simp_all add: exampleEnv0_def)

lemma live_differ [simp]: "Live driveB \<noteq> Live driveA" "driveB \<noteq> driveA"
  by (simp_all add: driveA_def driveB_def)

text \<open>
  C7 fails on the code. \<open>query\<close> hands the whole options object, \<open>offset\<close> and
  \<open>limit\<close> included, to the query of every drive, and then sorts and slices the
  merged results with the same \<open>offset\<close> and \<open>limit\<close>. With an engine that orders
  and paginates, two drives holding a, c and b, d, and \<open>limit=1, offset=1,
  sort=name\<close>, the answer is d; the second entry of the union by name is b.
\<close>

theorem query_pages_each_drive_first:
  "fst (query exampleEnv webSender (Some twoDrives) exampleWorld)
     = Inr [\<lparr>path = str ''/d.txt'', mtime = 4, ctime = 4\<rparr>]
   \<and> sliceResults twoDrives (sortResults exampleEnv twoDrives
         (exampleFiles (Live driveA) @ exampleFiles (Live driveB)))
     = [\<lparr>path = str ''/b.txt'', mtime = 2, ctime = 2\<rparr>]"
  by (simp add: query_def query_task_def falsyDrive_def driveList_def lookupDrive_eq queryAll_def
        exampleQuery_def exampleFiles_def sliceResults_def sortResults_def arraySort_def
        nameCompare_def slice_def sliceIndex_def num_def auditLog_record_def timer_def io_defs
        to_def)

subsection \<open>The flow of query, rename and copy in general\<close>

lemma emitAll_eq: "emitAll es w = (Inr (), w\<lparr>trace := trace w @ es\<rparr>)"
  by (induction es arbitrary: w) (simp_all add: io_defs)

text \<open>
  Once the drives of a query have been looked up and every drive's engine has
  answered, \<open>query\<close> returns the concatenation of the answers as it is for
  one drive, and sorted and sliced again for more than one; the engines are
  called in the order of the drives, each with the caller's options unchanged.
\<close>

theorem query_merges_results:
  "\<not> falsyDrive (qdrive x)
   \<and> lookupAll env s (driveList (qdrive x))
        (w\<lparr>trace := trace w @ [EvTimer (to env (Some x)), EvCheckin ''looking up drives'']\<rparr>)
       = (Inr cs, w1)
   \<and> collect (map (\<lambda>c. filesystem_query env c x) cs) = Inr rs
   \<longrightarrow>
   fst (query env s (Some x) w)
     = Inr (if length (driveList (qdrive x)) > 1
            then sliceResults x (sortResults env x (concat rs)) else concat rs)
   \<and> trace (snd (query env s (Some x) w))
     = trace w1 @ EvCheckin ''running query'' # map (\<lambda>c. EvQuery c x) cs"
  by (simp add: query_def query_task_def queryAll_def emitAll_eq auditLog_record_def timer_def
        io_defs)

text \<open>
  The hypotheses hold for the query of two drives and for the query of one.
\<close>

theorem query_merges_results_witness:
  "\<not> falsyDrive (qdrive twoDrives)
   \<and> fst (query exampleEnv webSender (Some twoDrives) exampleWorld)
       = Inr (sliceResults twoDrives (sortResults exampleEnv twoDrives
           (concat [[\<lparr>path = str ''/c.txt'', mtime = 3, ctime = 3\<rparr>],
                    [\<lparr>path = str ''/d.txt'', mtime = 4, ctime = 4\<rparr>]])))
   \<and> fst (query exampleEnv webSender
            (Some (twoDrives\<lparr>qdrive := OneDrive (str ''hyper://alice/'')\<rparr>)) exampleWorld)
       = Inr [\<lparr>path = str ''/c.txt'', mtime = 3, ctime = 3\<rparr>]"
proof -
  let ?one = "twoDrives\<lparr>qdrive := OneDrive (str ''hyper://alice/'')\<rparr>"
  let ?w0 = "\<lambda>x. exampleWorld\<lparr>trace := trace exampleWorld
      @ [EvTimer (to exampleEnv (Some x)), EvCheckin ''looking up drives'']\<rparr>"
  let ?ea = "[EvGetDrive (str ''alice''), EvGetDriveCheckout driveA None]"
  let ?eb = "[EvGetDrive (str ''bob''), EvGetDriveCheckout driveB None]"
  have f: "\<not> falsyDrive (qdrive twoDrives)" "\<not> falsyDrive (qdrive ?one)"
    by (simp_all add: falsyDrive_def str_def)
  have l2: "lookupAll exampleEnv webSender (driveList (qdrive twoDrives)) (?w0 twoDrives)
      = (Inr [Live driveA, Live driveB],
         (?w0 twoDrives)\<lparr>trace := trace (?w0 twoDrives) @ ?ea @ ?eb\<rparr>)"
    by (simp add: driveList_def lookupDrive_eq io_defs)
  have l1: "lookupAll exampleEnv webSender (driveList (qdrive ?one)) (?w0 ?one)
      = (Inr [Live driveA], (?w0 ?one)\<lparr>trace := trace (?w0 ?one) @ ?ea\<rparr>)"
    by (simp add: driveList_def lookupDrive_eq io_defs)
  have q2: "collect (map (\<lambda>c. filesystem_query exampleEnv c twoDrives) [Live driveA, Live driveB])
      = Inr [[\<lparr>path = str ''/c.txt'', mtime = 3, ctime = 3\<rparr>],
             [\<lparr>path = str ''/d.txt'', mtime = 4, ctime = 4\<rparr>]]"
    by (simp add: exampleQuery_def exampleFiles_def sliceResults_def sortResults_def arraySort_def
          nameCompare_def slice_def sliceIndex_def num_def)
  have q1: "collect (map (\<lambda>c. filesystem_query exampleEnv c ?one) [Live driveA])
      = Inr [[\<lparr>path = str ''/c.txt'', mtime = 3, ctime = 3\<rparr>]]"
    by (simp add: exampleQuery_def exampleFiles_def sliceResults_def sortResults_def arraySort_def
          nameCompare_def slice_def sliceIndex_def num_def)
  from query_merges_results [of twoDrives exampleEnv webSender exampleWorld _ _ _, rule_format,
      OF conjI [OF f(1) conjI [OF l2 q2]]]
  have a: "fst (query exampleEnv webSender (Some twoDrives) exampleWorld)
       = Inr (sliceResults twoDrives (sortResults exampleEnv twoDrives
           (concat [[\<lparr>path = str ''/c.txt'', mtime = 3, ctime = 3\<rparr>],
                    [\<lparr>path = str ''/d.txt'', mtime = 4, ctime = 4\<rparr>]])))"
    by (simp add: driveList_def)
  from query_merges_results [of ?one exampleEnv webSender exampleWorld _ _ _, rule_format,
      OF conjI [OF f(2) conjI [OF l1 q1]]]
  have b: "fst (query exampleEnv webSender (Some ?one) exampleWorld)
       = Inr [\<lparr>path = str ''/c.txt'', mtime = 3, ctime = 3\<rparr>]"
    by (simp add: driveList_def)
  from f(1) a b show ?thesis by simp
qed

text \<open>
  After both drives of a \<open>rename\<close> are found, the write permission, the
  validity of the destination path and the protection of both paths are
  checked in this order, under the paused timer; the first failure is the
  result, and the primitive runs only when all four pass. The audit entry is
  appended in either case.
\<close>

theorem rename_checks_before_primitive:
  "normalizeFilepath (pathname (parseDriveUrl env url)) = Inr sp
   \<and> normalizeFilepath dstpath = Inr dq
   \<and> lookupDrive env s (hostname (parseDriveUrl env url)) (version (parseDriveUrl env url))
        (w\<lparr>trace := trace w @ [EvTimer (to env (Some (optsOr opts))), EvCheckin ''searching for drive'']\<rparr>)
       = (Inr src, w1)
   \<and> lookupDrive env s (if includesStr dq (str ''://'') then dq else origin (parseDriveUrl env url))
        None w1 = (Inr dst, w2)
   \<and> pathOfUrl env sp = Inr sp' \<and> pathOfUrl env dq = Inr dp
   \<and> assertWritePermission env (drive dst) s (w2\<lparr>trace := trace w2 @ [EvPause]\<rparr>) = (r, w3)
   \<longrightarrow>
   rename env s url dstpath opts w =
     (let outcome =
        (case r of
           Inl e \<Rightarrow> (Inl e, w3)
         | Inr b \<Rightarrow>
             (case assertValidPath env dp of
                Inl e \<Rightarrow> (Inl e, w3)
              | Inr u \<Rightarrow>
                  (case assertUnprotectedFilePath env sp' s of
                     Inl e \<Rightarrow> (Inl e, w3)
                   | Inr u \<Rightarrow>
                       (case assertUnprotectedFilePath env dp s of
                          Inl e \<Rightarrow> (Inl e, w3)
                        | Inr u \<Rightarrow>
                            (pda env (checkoutFS src) (PdaRename sp' (checkoutFS dst) dp),
                             w3\<lparr>trace := trace w3 @
                                  [EvResume, EvCheckin ''renaming file'',
                                   EvPda (checkoutFS src) (PdaRename sp' (checkoutFS dst) dp)]\<rparr>)))))
      in (fst outcome,
          (snd outcome)\<lparr>auditLog := auditLog (snd outcome) @
             [\<lparr>caller = getURL s, action = ''rename'',
               args = Fields [(''url'', ArgStr (origin (parseDriveUrl env url))),
                              (''srcpath'', ArgStr sp), (''dstpath'', ArgStr dq)],
               writeSize = None,
               succeeded = (case fst outcome of Inl e \<Rightarrow> False | Inr v \<Rightarrow> True)\<rparr>]\<rparr>))"
  by (auto simp: rename_def rename_task_def pdaCall_def auditLog_record_def timer_def io_defs
        split: sum.splits)

text \<open>
  The hypotheses hold for a rename between the two example drives whose
  destination has a character outside the valid set.
\<close>

theorem rename_checks_before_primitive_witness:
  "rename exampleEnv webSender (str ''hyper://alice/notes.txt'') (str ''hyper://bob/a%25b'') None grantedB
     = (Inl InvalidPathError,
        grantedB\<lparr>trace :=
            [EvTimer 60000, EvCheckin ''searching for drive'',
             EvGetDrive (str ''alice''), EvGetDriveCheckout driveA None,
             EvGetDrive (str ''hyper://bob/a%b''), EvGetDriveCheckout driveB None,
             EvPause, EvGetDriveInfo keyB,
             EvQueryPermission (str ''modifyDrive:'' @ keyB) webSender],
          auditLog :=
            [\<lparr>caller = getURL webSender, action = ''rename'',
              args = Fields [(''url'', ArgStr (str ''hyper://alice/'')),
                             (''srcpath'', ArgStr (str ''/notes.txt'')),
                             (''dstpath'', ArgStr (str ''hyper://bob/a%b''))],
              writeSize = None, succeeded = False\<rparr>]\<rparr>)"
proof -
  let ?u = "str ''hyper://alice/notes.txt''"
  let ?up = "parseDriveUrl exampleEnv ?u"
  let ?w0 = "grantedB\<lparr>trace := trace grantedB
      @ [EvTimer (to exampleEnv (Some (optsOr None))), EvCheckin ''searching for drive'']\<rparr>"
  let ?src = "\<lparr>drive = driveA, lookupVersion = None, isHistoric = False, checkoutFS = Live driveA\<rparr>"
  let ?dst = "\<lparr>drive = driveB, lookupVersion = None, isHistoric = False, checkoutFS = Live driveB\<rparr>"
  let ?w1 = "?w0\<lparr>trace := trace ?w0 @ [EvGetDrive (str ''alice''), EvGetDriveCheckout driveA None]\<rparr>"
  let ?w2 = "?w1\<lparr>trace := trace ?w1
      @ [EvGetDrive (str ''hyper://bob/a%b''), EvGetDriveCheckout driveB None]\<rparr>"
  let ?w3 = "?w2\<lparr>trace := trace ?w2
      @ [EvPause, EvGetDriveInfo keyB, EvQueryPermission (str ''modifyDrive:'' @ keyB) webSender]\<rparr>"
  have h: "normalizeFilepath (pathname ?up) = Inr (str ''/notes.txt'')
     \<and> normalizeFilepath (str ''hyper://bob/a%25b'') = Inr (str ''hyper://bob/a%b'')
     \<and> lookupDrive exampleEnv webSender (hostname ?up) (version ?up) ?w0 = (Inr ?src, ?w1)
     \<and> lookupDrive exampleEnv webSender
          (if includesStr (str ''hyper://bob/a%b'') (str ''://'') then str ''hyper://bob/a%b''
           else origin ?up) None ?w1 = (Inr ?dst, ?w2)
     \<and> pathOfUrl exampleEnv (str ''/notes.txt'') = Inr (str ''/notes.txt'')
     \<and> pathOfUrl exampleEnv (str ''hyper://bob/a%b'') = Inr (str ''/a%b'')
     \<and> assertWritePermission exampleEnv (drive ?dst) webSender (?w2\<lparr>trace := trace ?w2 @ [EvPause]\<rparr>)
         = (Inr True, ?w3)"
    by (simp add: lookupDrive_eq pathOfUrl_def assertWritePermission_web)
  from rename_checks_before_primitive [rule_format, OF h]
  show ?thesis
    by (simp add: invalid_dst to_def optsOr_def noOpts_def grantedB_def exampleWorld_def)
qed

text \<open>
  \<open>copy\<close> reads the size of the source before its timer starts, and after
  both drives are found checks the write permission, the protection of the
  destination path and the quota, in this order; the validity of the
  destination path is not among the checks.
\<close>

theorem copy_checks_before_primitive:
  "normalizeFilepath (pathname (parseDriveUrl env url)) = Inr sp
   \<and> normalizeFilepath dstpath = Inr dq
   \<and> lookupDrive env s (hostname (parseDriveUrl env url)) (version (parseDriveUrl env url)) w
       = (Inr src, w0)
   \<and> pda_readSize env (drive src) sp = Inr n
   \<and> lookupDrive env s (if includesStr dq (str ''://'') then dq else origin (parseDriveUrl env url))
        None
        (w0\<lparr>trace := trace w0 @ [EvReadSize (drive src) sp, EvTimer (to env (Some (optsOr opts))),
                                   EvCheckin ''searching for drive'']\<rparr>)
       = (Inr dst, w2)
   \<and> pathOfUrl env sp = Inr sp' \<and> pathOfUrl env dq = Inr dp
   \<and> assertWritePermission env (drive dst) s (w2\<lparr>trace := trace w2 @ [EvPause]\<rparr>) = (r, w3)
   \<and> assertQuotaPermission env (drive dst) (archivesDb_extractOrigin env (getURL s)) n w3 = (q, w4)
   \<longrightarrow>
   copy env s url dstpath opts w =
     (let outcome =
        (case r of
           Inl e \<Rightarrow> (Inl e, w3)
         | Inr b \<Rightarrow>
             (case assertUnprotectedFilePath env dp s of
                Inl e \<Rightarrow> (Inl e, w3)
              | Inr u \<Rightarrow>
                  (case q of
                     Inl e \<Rightarrow> (Inl e, w4)
                   | Inr u \<Rightarrow>
                       (pda env (checkoutFS src) (PdaCopy sp' (checkoutFS dst) dp),
                        w4\<lparr>trace := trace w4 @
                             [EvResume, EvCheckin ''copying'',
                              EvPda (checkoutFS src) (PdaCopy sp' (checkoutFS dst) dp)]\<rparr>))))
      in (fst outcome,
          (snd outcome)\<lparr>auditLog := auditLog (snd outcome) @
             [\<lparr>caller = getURL s, action = ''copy'',
               args = Fields [(''url'', ArgStr (origin (parseDriveUrl env url))),
                              (''srcpath'', ArgStr sp), (''dstpath'', ArgStr dq)],
               writeSize = Some n,
               succeeded = (case fst outcome of Inl e \<Rightarrow> False | Inr v \<Rightarrow> True)\<rparr>]\<rparr>))"
  by (auto simp: copy_def copy_task_def readSize_def pdaCall_def auditLog_record_def timer_def
        io_defs split: sum.splits)

text \<open>
  The hypotheses hold for a copy between the two example drives.
\<close>

theorem copy_checks_before_primitive_witness:
  "fst (copy exampleEnv webSender (str ''hyper://alice/notes.txt'') (str ''hyper://bob/b.txt'') None
          grantedB) = Inr Undefined
   \<and> trace (snd (copy exampleEnv webSender (str ''hyper://alice/notes.txt'') (str ''hyper://bob/b.txt'')
          None grantedB))
       = [EvGetDrive (str ''alice''), EvGetDriveCheckout driveA None,
          EvReadSize driveA (str ''/notes.txt''),
          EvTimer 60000, EvCheckin ''searching for drive'',
          EvGetDrive (str ''hyper://bob/b.txt''), EvGetDriveCheckout driveB None,
          EvPause, EvGetDriveInfo keyB,
          EvQueryPermission (str ''modifyDrive:'' @ keyB) webSender,
          EvGetMeta keyB, EvResume, EvCheckin ''copying'',
          EvPda (Live driveA) (PdaCopy (str ''/notes.txt'') (Live driveB) (str ''/b.txt''))]"
proof -
  let ?u = "str ''hyper://alice/notes.txt''"
  let ?d = "str ''hyper://bob/b.txt''"
  let ?up = "parseDriveUrl exampleEnv ?u"
  let ?src = "\<lparr>drive = driveA, lookupVersion = None, isHistoric = False, checkoutFS = Live driveA\<rparr>"
  let ?dst = "\<lparr>drive = driveB, lookupVersion = None, isHistoric = False, checkoutFS = Live driveB\<rparr>"
  let ?w0 = "grantedB\<lparr>trace := trace grantedB
      @ [EvGetDrive (str ''alice''), EvGetDriveCheckout driveA None]\<rparr>"
  let ?w1 = "?w0\<lparr>trace := trace ?w0
      @ [EvReadSize (drive ?src) (str ''/notes.txt''), EvTimer (to exampleEnv (Some (optsOr None))),
         EvCheckin ''searching for drive'']\<rparr>"
  let ?w2 = "?w1\<lparr>trace := trace ?w1 @ [EvGetDrive ?d, EvGetDriveCheckout driveB None]\<rparr>"
  let ?w3 = "?w2\<lparr>trace := trace ?w2
      @ [EvPause, EvGetDriveInfo keyB, EvQueryPermission (str ''modifyDrive:'' @ keyB) webSender]\<rparr>"
  let ?w4 = "?w3\<lparr>trace := trace ?w3 @ [EvGetMeta keyB]\<rparr>"
  have p: "exampleParse ?d =
     \<lparr>protocol = str ''hyper:'', host = str ''bob'', hostname = str ''bob'',
      pathname = str ''/b.txt'', origin = str ''hyper://bob/'', version = None\<rparr>"
    by (simp add: exampleParse_def startsWith_def str_def)
  have n: "normalizeFilepath ?d = Inr ?d" by code_simp
  have i: "includesStr ?d (str ''://'')" by (simp add: str_def startsWith_def)
  have e: "exampleDrive ?d = Some driveB" by (simp add: exampleDrive_def exampleParse_def startsWith_def str_def)
  have u: "assertUnprotectedFilePath exampleEnv (str ''/b.txt'') webSender = Inr ()"
    by (simp add: assertUnprotectedFilePath_def str_def)
  have h: "normalizeFilepath (pathname ?up) = Inr (str ''/notes.txt'')
     \<and> normalizeFilepath ?d = Inr ?d
     \<and> lookupDrive exampleEnv webSender (hostname ?up) (version ?up) grantedB = (Inr ?src, ?w0)
     \<and> pda_readSize exampleEnv (drive ?src) (str ''/notes.txt'') = Inr 5
     \<and> lookupDrive exampleEnv webSender (if includesStr ?d (str ''://'') then ?d else origin ?up) None
          (?w0\<lparr>trace := trace ?w0
             @ [EvReadSize (drive ?src) (str ''/notes.txt''),
                EvTimer (to exampleEnv (Some (optsOr None))), EvCheckin ''searching for drive'']\<rparr>)
         = (Inr ?dst, ?w2)
     \<and> pathOfUrl exampleEnv (str ''/notes.txt'') = Inr (str ''/notes.txt'')
     \<and> pathOfUrl exampleEnv ?d = Inr (str ''/b.txt'')
     \<and> assertWritePermission exampleEnv (drive ?dst) webSender (?w2\<lparr>trace := trace ?w2 @ [EvPause]\<rparr>)
         = (Inr True, ?w3)
     \<and> assertQuotaPermission exampleEnv (drive ?dst)
          (archivesDb_extractOrigin exampleEnv (getURL webSender)) 5 ?w3 = (Inr (), ?w4)"
    by (simp add: n i e p lookupDrive_eq pathOfUrl_def assertWritePermission_web quota_web)
  from copy_checks_before_primitive [rule_format, OF h]
  show ?thesis
    by (simp add: u to_def optsOr_def noOpts_def)
qed

end
